theory Spec2Isabelle
  imports Complex_Main "HOL-Library.Multiset"
begin

section \<open>Text\<close>

text \<open>
  A Python \<open>str\<close> is a sequence of Unicode code points; it is modelled as the list of
  their numbers. Fixed texts of the program (error details, validator messages) are
  ASCII and are written as HOL strings; \<open>lit\<close> turns one into a \<open>pystr\<close>.
\<close>

type_synonym pystr = "nat list"

definition lit :: "string \<Rightarrow> pystr" where
  "lit s = map of_char s"

text \<open>
  The characters \<open>str.strip()\<close> removes when it is called without an argument: the
  code points for which \<open>str.isspace\<close> holds.
\<close>

definition isspace :: "nat \<Rightarrow> bool" where
  "isspace c \<longleftrightarrow>
     (9 \<le> c \<and> c \<le> 13) \<or> (28 \<le> c \<and> c \<le> 32) \<or> c = 133 \<or> c = 160 \<or> c = 5760 \<or>
     (8192 \<le> c \<and> c \<le> 8202) \<or> c = 8232 \<or> c = 8233 \<or> c = 8239 \<or> c = 8287 \<or> c = 12288"

definition strip :: "pystr \<Rightarrow> pystr" where
  "strip v = rev (dropWhile isspace (rev (dropWhile isspace v)))"

text \<open>\<open>str(n)\<close> for an integer: its decimal digits, with a minus sign when negative.\<close>

function str_nat :: "nat \<Rightarrow> string" where
  "str_nat n = (if n < 10 then [char_of (48 + n)] else str_nat (n div 10) @ [char_of (48 + n mod 10)])"
  by pat_completeness auto
termination
  by (relation "measure (\<lambda>n. n)") auto

declare str_nat.simps [simp del]

definition str_int :: "int \<Rightarrow> string" where
  "str_int i = (if i < 0 then CHR ''-'' # str_nat (nat (- i)) else str_nat (nat i))"

section \<open>Request schemas (app/schemas)\<close>

text \<open>
  Every \<open>field_validator\<close> of the schemas has the same shape:
  \<^verbatim>\<open>
    if not v or not v.strip():
        raise ValueError("Title cannot be empty")
    return v.strip()
  \<close>
  The result is \<open>Inl\<close> the message of the \<open>ValueError\<close> or \<open>Inr\<close> the trimmed value.
\<close>

definition PostBase_title_must_not_be_empty :: "pystr \<Rightarrow> string + pystr" where
  "PostBase_title_must_not_be_empty v =
     (if v = [] \<or> strip v = [] then Inl ''Title cannot be empty'' else Inr (strip v))"

definition PostBase_content_must_not_be_empty :: "pystr \<Rightarrow> string + pystr" where
  "PostBase_content_must_not_be_empty v =
     (if v = [] \<or> strip v = [] then Inl ''Content cannot be empty'' else Inr (strip v))"

definition CommentBase_content_must_not_be_empty :: "pystr \<Rightarrow> string + pystr" where
  "CommentBase_content_must_not_be_empty v =
     (if v = [] \<or> strip v = [] then Inl ''Content cannot be empty'' else Inr (strip v))"

definition CommentBase_author_must_not_be_empty :: "pystr \<Rightarrow> string + pystr" where
  "CommentBase_author_must_not_be_empty v =
     (if v = [] \<or> strip v = [] then Inl ''Author cannot be empty'' else Inr (strip v))"

definition CommentUpdate_content_must_not_be_empty :: "pystr \<Rightarrow> string + pystr" where
  "CommentUpdate_content_must_not_be_empty v =
     (if v = [] \<or> strip v = [] then Inl ''Content cannot be empty'' else Inr (strip v))"

text \<open>A field declared \<open>str\<close> with no validator of its own (\<open>PostBase.author\<close>).\<close>

definition no_validator :: "pystr \<Rightarrow> string + pystr" where
  "no_validator v = Inr v"

text \<open>
  Validation of one \<open>str\<close> field of a model. The input is \<open>None\<close> when the field has
  no string to offer (absent from a request body; Python's \<open>None\<close> in a value read
  from a nullable column); \<open>missing\<close> is the message pydantic gives then. Errors are
  pairs of the field's name and the message; a validator's \<open>ValueError\<close> is reported
  as \<open>Value error, <message>\<close>.
\<close>

type_synonym errors = "(string \<times> string) list"

definition str_field :: "string \<Rightarrow> string \<Rightarrow> (pystr \<Rightarrow> string + pystr) \<Rightarrow> pystr option \<Rightarrow> errors + pystr" where
  "str_field name missing validator input =
     (case input of
        None \<Rightarrow> Inl [(name, missing)]
      | Some v \<Rightarrow>
          (case validator v of
             Inl msg \<Rightarrow> Inl [(name, ''Value error, '' @ msg)]
           | Inr v' \<Rightarrow> Inr v'))"

definition errors_of :: "errors + 'a \<Rightarrow> errors" where
  "errors_of r = (case r of Inl es \<Rightarrow> es | Inr _ \<Rightarrow> [])"

text \<open>
  The JSON bodies of the three requests that carry one. A string field is \<open>None\<close>
  when the body does not have it; \<open>parent_comment_id\<close> is optional in the schema
  (\<open>Optional[int] = None\<close>).
\<close>

record PostCreate_body =
  body_title :: "pystr option"
  body_content :: "pystr option"
  body_author :: "pystr option"

record CommentCreate_body =
  cbody_content :: "pystr option"
  cbody_author :: "pystr option"
  cbody_parent_comment_id :: "int option"

record CommentUpdate_body =
  ubody_content :: "pystr option"

text \<open>The validated models the handlers receive.\<close>

record PostCreate =
  PostCreate_title :: pystr
  PostCreate_content :: pystr
  PostCreate_author :: pystr

record CommentCreate =
  CommentCreate_content :: pystr
  CommentCreate_author :: pystr
  CommentCreate_parent_comment_id :: "int option"

record CommentUpdate =
  CommentUpdate_content :: pystr

text \<open>
  Pydantic validates every field and reports all errors together, in the order of the
  fields. \<open>PostCreate\<close> is \<open>PostBase\<close>: validators on \<open>title\<close> and \<open>content\<close>, none on
  \<open>author\<close>. \<open>CommentCreate\<close> is \<open>CommentBase\<close>: validators on \<open>content\<close> and \<open>author\<close>.
\<close>

definition PostCreate_validate :: "PostCreate_body \<Rightarrow> errors + PostCreate" where
  "PostCreate_validate b =
     (let t = str_field ''title'' ''Field required'' PostBase_title_must_not_be_empty (body_title b);
          c = str_field ''content'' ''Field required'' PostBase_content_must_not_be_empty (body_content b);
          a = str_field ''author'' ''Field required'' no_validator (body_author b)
      in case (t, c, a) of
           (Inr t', Inr c', Inr a') \<Rightarrow>
             Inr \<lparr>PostCreate_title = t', PostCreate_content = c', PostCreate_author = a'\<rparr>
         | _ \<Rightarrow> Inl (errors_of t @ errors_of c @ errors_of a))"

definition CommentCreate_validate :: "CommentCreate_body \<Rightarrow> errors + CommentCreate" where
  "CommentCreate_validate b =
     (let c = str_field ''content'' ''Field required'' CommentBase_content_must_not_be_empty (cbody_content b);
          a = str_field ''author'' ''Field required'' CommentBase_author_must_not_be_empty (cbody_author b)
      in case (c, a) of
           (Inr c', Inr a') \<Rightarrow>
             Inr \<lparr>CommentCreate_content = c', CommentCreate_author = a',
                  CommentCreate_parent_comment_id = cbody_parent_comment_id b\<rparr>
         | _ \<Rightarrow> Inl (errors_of c @ errors_of a))"

definition CommentUpdate_validate :: "CommentUpdate_body \<Rightarrow> errors + CommentUpdate" where
  "CommentUpdate_validate b =
     (case str_field ''content'' ''Field required'' CommentUpdate_content_must_not_be_empty (ubody_content b) of
        Inl es \<Rightarrow> Inl es
      | Inr c' \<Rightarrow> Inr \<lparr>CommentUpdate_content = c'\<rparr>)"

section \<open>Tables (app/models)\<close>

text \<open>
  A row of \<open>posts\<close> and a row of \<open>comments\<close>, with the columns the two
  \<open>SQLModel\<close> classes declare. A column whose field is \<open>Optional\<close> is nullable
  (\<open>author\<close>, \<open>parent_comment_id\<close>); the others are \<open>NOT NULL\<close>, the primary key and
  \<open>Comment.post_id\<close> among them:
  \<^verbatim>\<open>
    post_id: int = Field(foreign_key="posts.id")
    parent_comment_id: Optional[int] = Field(default=None, foreign_key="comments.id")
  \<close>
  A stored row always has its key, so \<open>id\<close> is an \<open>int\<close> here; an object that is not yet
  inserted is a \<open>change\<close> below. Timestamps are points on an integer time line.
\<close>

record Post =
  Post_id :: int
  Post_title :: pystr
  Post_content :: pystr
  Post_author :: "pystr option"
  Post_created_at :: int
  Post_updated_at :: int

record Comment =
  Comment_id :: int
  Comment_content :: pystr
  Comment_author :: "pystr option"
  Comment_post_id :: int
  Comment_parent_comment_id :: "int option"
  Comment_created_at :: int
  Comment_updated_at :: int

text \<open>The database: both tables, each with its rows in the order they were inserted.\<close>

record Database =
  posts :: "Post list"
  comments :: "Comment list"

text \<open>
  What a session holds until it is flushed: objects passed to \<open>db.add\<close> (the fields of a
  new row; the key is assigned by the insert), a loaded comment whose \<open>content\<close> and
  \<open>updated_at\<close> were assigned, and objects passed to \<open>db.delete\<close>.
\<close>

datatype change =
    Insert_Post pystr pystr "pystr option" int int
  | Insert_Comment pystr "pystr option" int "int option" int int
  | Update_Comment int pystr int
  | Delete_Post int
  | Delete_Comment int

text \<open>
  The key of a new row, as the storage (SQLite, by \<open>app/database.py\<close>) gives it to an
  \<open>INTEGER PRIMARY KEY\<close> that the insert leaves out: one more than the largest key of the
  table, 1 for an empty table.
\<close>

definition next_id :: "int list \<Rightarrow> int" where
  "next_id ids = (if ids = [] then 1 else Max (set ids) + 1)"

text \<open>
  Flushing one change. The relationships of the models are declared as
  \<^verbatim>\<open>
    comments: List["Comment"] = Relationship(back_populates="post")      # Post
    replies: List["Comment"] = Relationship(back_populates="parent")     # Comment
  \<close>
  with no delete cascade, and neither foreign key declares \<open>ON DELETE\<close>. For such a
  one-to-many relationship the session, when the parent object is deleted, first writes
  NULL into the foreign key of each child row and then deletes the parent row:
  \<^item> for \<open>Delete_Post\<close> the foreign key is \<open>comments.post_id\<close>, which is \<open>NOT NULL\<close>: if the
    post has a comment the update is refused with an integrity error and nothing is
    changed;
  \<^item> for \<open>Delete_Comment\<close> the foreign key is \<open>comments.parent_comment_id\<close>, which is
    nullable: the direct replies stay, with no parent.
  The result is \<open>Inl\<close> the text of the integrity error (its first line), or \<open>Inr\<close> the new
  database and the key given to an inserted row. Foreign keys are not checked on insert:
  the handlers look the referenced rows up themselves.
\<close>

definition null_parent :: "int \<Rightarrow> Comment \<Rightarrow> Comment" where
  "null_parent i c =
     (if Comment_parent_comment_id c = Some i then c\<lparr>Comment_parent_comment_id := None\<rparr> else c)"

definition set_content :: "int \<Rightarrow> pystr \<Rightarrow> int \<Rightarrow> Comment \<Rightarrow> Comment" where
  "set_content i content updated_at c =
     (if Comment_id c = i then c\<lparr>Comment_content := content, Comment_updated_at := updated_at\<rparr> else c)"

fun apply_change :: "change \<Rightarrow> Database \<Rightarrow> string + (Database \<times> int option)" where
  "apply_change (Insert_Post title content author created_at updated_at) d =
     (let k = next_id (map Post_id (posts d)) in
      Inr (d\<lparr>posts := posts d @
             [\<lparr>Post_id = k, Post_title = title, Post_content = content, Post_author = author,
               Post_created_at = created_at, Post_updated_at = updated_at\<rparr>]\<rparr>, Some k))"
| "apply_change (Insert_Comment content author post_id parent_comment_id created_at updated_at) d =
     (let k = next_id (map Comment_id (comments d)) in
      Inr (d\<lparr>comments := comments d @
             [\<lparr>Comment_id = k, Comment_content = content, Comment_author = author,
               Comment_post_id = post_id, Comment_parent_comment_id = parent_comment_id,
               Comment_created_at = created_at, Comment_updated_at = updated_at\<rparr>]\<rparr>, Some k))"
| "apply_change (Update_Comment i content updated_at) d =
     Inr (d\<lparr>comments := map (set_content i content updated_at) (comments d)\<rparr>, None)"
| "apply_change (Delete_Post i) d =
     (if filter (\<lambda>c. Comment_post_id c = i) (comments d) = []
      then Inr (d\<lparr>posts := filter (\<lambda>p. Post_id p \<noteq> i) (posts d)\<rparr>, None)
      else Inl ''(sqlite3.IntegrityError) NOT NULL constraint failed: comments.post_id'')"
| "apply_change (Delete_Comment i) d =
     Inr (d\<lparr>comments := map (null_parent i) (filter (\<lambda>c. Comment_id c \<noteq> i) (comments d))\<rparr>, None)"

text \<open>
  Flushing all pending changes, in order. The first error ends the flush; the caller
  then keeps the database it had. The key returned is that of the last inserted row.
\<close>

fun flush :: "change list \<Rightarrow> Database \<Rightarrow> int option \<Rightarrow> string + (Database \<times> int option)" where
  "flush [] d key = Inr (d, key)"
| "flush (ch # chs) d key =
     (case apply_change ch d of
        Inl msg \<Rightarrow> Inl msg
      | Inr (d', key') \<Rightarrow> flush chs d' (case key' of None \<Rightarrow> key | Some k \<Rightarrow> Some k))"

section \<open>The session (app/database.py)\<close>

text \<open>
  Python exceptions: an \<open>HTTPException\<close> with its status code and detail, or any other
  exception, of which only \<open>str(e)\<close> is ever used.
\<close>

datatype pyexn = HTTPException int string | Exception string

definition str_exn :: "pyexn \<Rightarrow> string" where
  "str_exn e = (case e of HTTPException c d \<Rightarrow> str_int c @ '': '' @ d | Exception msg \<Rightarrow> msg)"

text \<open>The calls a handler makes on its session.\<close>

datatype db_call =
  GetPost | GetComment | Add | Delete | Commit | Refresh | ExecCount | ExecSelect | LoadComments | Rollback

text \<open>
  A session: the database it is connected to, the changes not yet flushed, the calls
  made on it so far, and the storage failures of this request: \<open>fault s k = Some msg\<close>
  says that a call of kind \<open>k\<close> raises an exception whose text is \<open>msg\<close> (a lost
  connection, a locked file, a full disk). Which calls fail is not the program's choice,
  so it is a parameter of the session. \<open>db.rollback()\<close> is taken not to fail.
\<close>

record Session =
  tables :: Database
  pending :: "change list"
  calls :: "db_call list"
  fault :: "db_call \<Rightarrow> string option"

text \<open>\<open>get_db\<close>: every request gets a new session on the database.\<close>

definition get_db :: "(db_call \<Rightarrow> string option) \<Rightarrow> Database \<Rightarrow> Session" where
  "get_db f d = \<lparr>tables = d, pending = [], calls = [], fault = f\<rparr>"

definition no_fault :: "db_call \<Rightarrow> string option" where
  "no_fault k = None"

text \<open>
  A computation on the session either returns a value or raises, and leaves a session.
\<close>

type_synonym 'a db = "Session \<Rightarrow> (pyexn + 'a) \<times> Session"

definition db_return :: "'a \<Rightarrow> 'a db" where
  "db_return x s = (Inr x, s)"

definition db_raise :: "pyexn \<Rightarrow> 'a db" where
  "db_raise e s = (Inl e, s)"

definition db_bind :: "'a db \<Rightarrow> ('a \<Rightarrow> 'b db) \<Rightarrow> 'b db" where
  "db_bind m f s = (case m s of (Inl e, s') \<Rightarrow> (Inl e, s') | (Inr x, s') \<Rightarrow> f x s')"

text \<open>A call of kind \<open>k\<close>: it is recorded, and it raises if the storage fails on it.\<close>

definition db_op :: "db_call \<Rightarrow> 'a db \<Rightarrow> 'a db" where
  "db_op k m s =
     (let s' = s\<lparr>calls := calls s @ [k]\<rparr> in
      case fault s k of Some msg \<Rightarrow> (Inl (Exception msg), s') | None \<Rightarrow> m s')"

text \<open>
  Integers are Python's, of any size, and a column of the storage holds a signed 64-bit
  integer. An integer of the request that a statement carries as a parameter (the key of
  \<open>db.get\<close>, the \<open>post_id\<close> of a \<open>where\<close>, \<open>LIMIT\<close> and \<open>OFFSET\<close>) is converted when the statement
  is executed, and the driver raises \<open>OverflowError\<close> for one that does not fit. The keys of
  loaded rows come from the storage and fit.
\<close>

definition sqlite_int :: "int \<Rightarrow> bool" where
  "sqlite_int n \<longleftrightarrow> - (2 ^ 63) \<le> n \<and> n \<le> 2 ^ 63 - 1"

definition OverflowError_str :: string where
  "OverflowError_str = ''Python int too large to convert to SQLite INTEGER''"

definition db_params :: "int list \<Rightarrow> 'a db \<Rightarrow> 'a db" where
  "db_params ns m s = (if list_all sqlite_int ns then m s else (Inl (Exception OverflowError_str), s))"

definition db_get_Post :: "int \<Rightarrow> Post option db" where
  "db_get_Post i = db_op GetPost (db_params [i]
     (\<lambda>s. (Inr (find (\<lambda>p. Post_id p = i) (posts (tables s))), s)))"

definition db_get_Comment :: "int \<Rightarrow> Comment option db" where
  "db_get_Comment i = db_op GetComment (db_params [i]
     (\<lambda>s. (Inr (find (\<lambda>c. Comment_id c = i) (comments (tables s))), s)))"

definition db_add :: "change \<Rightarrow> unit db" where
  "db_add ch = db_op Add (\<lambda>s. (Inr (), s\<lparr>pending := pending s @ [ch]\<rparr>))"

definition db_delete :: "change \<Rightarrow> unit db" where
  "db_delete ch = db_op Delete (\<lambda>s. (Inr (), s\<lparr>pending := pending s @ [ch]\<rparr>))"

text \<open>Assigning attributes of a loaded object makes it dirty; no call is made.\<close>

definition assign :: "change \<Rightarrow> unit db" where
  "assign ch s = (Inr (), s\<lparr>pending := pending s @ [ch]\<rparr>)"

text \<open>
  \<open>db.commit()\<close> flushes the pending changes in one transaction. The value returned
  stands for the \<open>id\<close> attribute the flush writes into an added object.
\<close>

definition db_commit :: "int option db" where
  "db_commit = db_op Commit (\<lambda>s.
     case flush (pending s) (tables s) None of
       Inl msg \<Rightarrow> (Inl (Exception msg), s)
     | Inr (d, key) \<Rightarrow> (Inr key, s\<lparr>tables := d, pending := []\<rparr>))"

definition db_rollback :: "unit db" where
  "db_rollback s = (Inr (), s\<lparr>calls := calls s @ [Rollback], pending := []\<rparr>)"

text \<open>\<open>db.refresh(obj)\<close> reads the object's row again, by its key.\<close>

definition db_refresh_Post :: "int option \<Rightarrow> Post db" where
  "db_refresh_Post key = db_op Refresh (\<lambda>s.
     case key of
       None \<Rightarrow> (Inl (Exception ''Instance is not persistent within this Session''), s)
     | Some k \<Rightarrow>
         (case find (\<lambda>p. Post_id p = k) (posts (tables s)) of
            None \<Rightarrow> (Inl (Exception ''Could not refresh instance''), s)
          | Some p \<Rightarrow> (Inr p, s)))"

definition db_refresh_Comment :: "int option \<Rightarrow> Comment db" where
  "db_refresh_Comment key = db_op Refresh (\<lambda>s.
     case key of
       None \<Rightarrow> (Inl (Exception ''Instance is not persistent within this Session''), s)
     | Some k \<Rightarrow>
         (case find (\<lambda>c. Comment_id c = k) (comments (tables s)) of
            None \<Rightarrow> (Inl (Exception ''Could not refresh instance''), s)
          | Some c \<Rightarrow> (Inr c, s)))"

text \<open>
  The queries. The handlers write \<^verbatim>\<open>select(Post).offset(offset).limit(limit).order_by(...)\<close>;
  whatever the order of these calls, the statement sorts first and then skips \<open>offset\<close>
  rows and returns at most \<open>limit\<close>. \<open>ORDER BY\<close> is a stable sort of the table on the key, so
  rows with equal timestamps (whose order SQL leaves open) keep the order of the table.
  \<open>OFFSET\<close> and \<open>LIMIT\<close> are never negative where the handlers use them, and both are
  parameters of the statement, as is the \<open>post_id\<close> the comments are selected by.
\<close>

definition order_by_created_at_desc :: "Post list \<Rightarrow> Post list" where
  "order_by_created_at_desc ps = sort_key (\<lambda>p. - Post_created_at p) ps"

definition order_by_created_at_asc :: "Comment list \<Rightarrow> Comment list" where
  "order_by_created_at_asc cs = sort_key Comment_created_at cs"

definition offset_limit :: "int \<Rightarrow> int \<Rightarrow> 'a list \<Rightarrow> 'a list" where
  "offset_limit offset limit xs = take (nat limit) (drop (nat offset) xs)"

definition db_exec_count_Post :: "int db" where
  "db_exec_count_Post = db_op ExecCount (\<lambda>s. (Inr (int (length (posts (tables s)))), s))"

definition db_exec_select_Post :: "int \<Rightarrow> int \<Rightarrow> Post list db" where
  "db_exec_select_Post offset limit = db_op ExecSelect (db_params [limit, offset] (\<lambda>s.
     (Inr (offset_limit offset limit (order_by_created_at_desc (posts (tables s)))), s)))"

definition db_exec_count_Comment :: "int \<Rightarrow> int db" where
  "db_exec_count_Comment post_id = db_op ExecCount (db_params [post_id] (\<lambda>s.
     (Inr (int (length (filter (\<lambda>c. Comment_post_id c = post_id) (comments (tables s))))), s)))"

definition db_exec_select_Comment :: "int \<Rightarrow> int \<Rightarrow> int \<Rightarrow> Comment list db" where
  "db_exec_select_Comment post_id offset limit = db_op ExecSelect (db_params [post_id, limit, offset] (\<lambda>s.
     (Inr (offset_limit offset limit
        (order_by_created_at_asc (filter (\<lambda>c. Comment_post_id c = post_id) (comments (tables s))))), s)))"

text \<open>
  \<open>post.comments\<close>: the relationship is loaded on first use, by a query for the
  comments whose \<open>post_id\<close> is the post's key.
\<close>

definition Post_comments :: "Post \<Rightarrow> Comment list db" where
  "Post_comments post = db_op LoadComments (\<lambda>s.
     (Inr (filter (\<lambda>c. Comment_post_id c = Post_id post) (comments (tables s))), s))"

section \<open>Response schemas (app/schemas)\<close>

record PostResponse =
  PostResponse_id :: int
  PostResponse_title :: pystr
  PostResponse_content :: pystr
  PostResponse_author :: pystr
  PostResponse_created_at :: int
  PostResponse_updated_at :: int
  PostResponse_comments_count :: int

record PostListResponse =
  PostListResponse_posts :: "PostResponse list"
  PostListResponse_total :: int
  PostListResponse_page :: int
  PostListResponse_limit :: int
  PostListResponse_total_pages :: int

record CommentResponse =
  CommentResponse_id :: int
  CommentResponse_content :: pystr
  CommentResponse_author :: pystr
  CommentResponse_post_id :: int
  CommentResponse_parent_comment_id :: "int option"
  CommentResponse_created_at :: int
  CommentResponse_updated_at :: int

record CommentListResponse =
  CommentListResponse_comments :: "CommentResponse list"
  CommentListResponse_total :: int
  CommentListResponse_page :: int
  CommentListResponse_limit :: int
  CommentListResponse_total_pages :: int

text \<open>
  \<open>PostResponse\<close> extends \<open>PostBase\<close> and \<open>CommentResponse\<close> extends \<open>CommentBase\<close>, so
  building a response runs the validators of the base class on the stored values, and a
  stored \<open>author\<close> that is NULL is not a \<open>str\<close>. The arguments have the types of the
  columns they are read from.
\<close>

definition PostResponse_init ::
    "int \<Rightarrow> pystr \<Rightarrow> pystr \<Rightarrow> pystr option \<Rightarrow> int \<Rightarrow> int \<Rightarrow> int \<Rightarrow> errors + PostResponse" where
  "PostResponse_init i title content author created_at updated_at comments_count =
     (let t = str_field ''title'' ''Input should be a valid string'' PostBase_title_must_not_be_empty (Some title);
          c = str_field ''content'' ''Input should be a valid string'' PostBase_content_must_not_be_empty (Some content);
          a = str_field ''author'' ''Input should be a valid string'' no_validator author
      in case (t, c, a) of
           (Inr t', Inr c', Inr a') \<Rightarrow>
             Inr \<lparr>PostResponse_id = i, PostResponse_title = t', PostResponse_content = c',
                  PostResponse_author = a', PostResponse_created_at = created_at,
                  PostResponse_updated_at = updated_at, PostResponse_comments_count = comments_count\<rparr>
         | _ \<Rightarrow> Inl (errors_of t @ errors_of c @ errors_of a))"

definition CommentResponse_init ::
    "int \<Rightarrow> pystr \<Rightarrow> pystr option \<Rightarrow> int \<Rightarrow> int option \<Rightarrow> int \<Rightarrow> int \<Rightarrow> errors + CommentResponse" where
  "CommentResponse_init i content author post_id parent_comment_id created_at updated_at =
     (let c = str_field ''content'' ''Input should be a valid string'' CommentBase_content_must_not_be_empty (Some content);
          a = str_field ''author'' ''Input should be a valid string'' CommentBase_author_must_not_be_empty author
      in case (c, a) of
           (Inr c', Inr a') \<Rightarrow>
             Inr \<lparr>CommentResponse_id = i, CommentResponse_content = c', CommentResponse_author = a',
                  CommentResponse_post_id = post_id, CommentResponse_parent_comment_id = parent_comment_id,
                  CommentResponse_created_at = created_at, CommentResponse_updated_at = updated_at\<rparr>
         | _ \<Rightarrow> Inl (errors_of c @ errors_of a))"

text \<open>
  \<open>str(e)\<close> of pydantic's \<open>ValidationError\<close>: the count and the model's name, then each
  field with its message (the bracketed notes pydantic appends to a message are left
  out). A handler that builds a response from values that do not validate raises it.
\<close>

definition ValidationError_str :: "string \<Rightarrow> errors \<Rightarrow> string" where
  "ValidationError_str cls es =
     str_nat (length es) @ (if length es = 1 then '' validation error for '' else '' validation errors for '') @ cls @
     concat (map (\<lambda>(name, msg). [CHR 0x0A] @ name @ [CHR 0x0A] @ ''  '' @ msg) es)"

definition validated :: "string \<Rightarrow> errors + 'a \<Rightarrow> 'a db" where
  "validated cls r =
     (case r of Inl es \<Rightarrow> db_raise (Exception (ValidationError_str cls es)) | Inr x \<Rightarrow> db_return x)"

section \<open>Handlers (app/api)\<close>

text \<open>
  The two shapes of \<open>try\<close> statement in the handlers. In both, the last clause is
  \<^verbatim>\<open>
    except Exception as e:
        db.rollback()          # in five of the nine handlers
        raise HTTPException(status_code=500, detail=f"Failed to ...: {str(e)}")
  \<close>
  and seven handlers have \<^verbatim>\<open>except HTTPException: raise\<close> before it.
\<close>

definition except_Exception :: "bool \<Rightarrow> string \<Rightarrow> pyexn \<Rightarrow> 'a db" where
  "except_Exception rollback prefix e s =
     (let s' = (if rollback then snd (db_rollback s) else s) in
      (Inl (HTTPException 500 (prefix @ str_exn e)), s'))"

definition try_except :: "bool \<Rightarrow> string \<Rightarrow> 'a db \<Rightarrow> 'a db" where
  "try_except rollback prefix body s =
     (case body s of
        (Inr x, s') \<Rightarrow> (Inr x, s')
      | (Inl e, s') \<Rightarrow> except_Exception rollback prefix e s')"

definition try_except_reraise :: "bool \<Rightarrow> string \<Rightarrow> 'a db \<Rightarrow> 'a db" where
  "try_except_reraise rollback prefix body s =
     (case body s of
        (Inr x, s') \<Rightarrow> (Inr x, s')
      | (Inl (HTTPException c d), s') \<Rightarrow> (Inl (HTTPException c d), s')
      | (Inl (Exception msg), s') \<Rightarrow> except_Exception rollback prefix (Exception msg) s')"

text \<open>A list comprehension whose element expression may raise.\<close>

fun db_mapM :: "('a \<Rightarrow> 'b db) \<Rightarrow> 'a list \<Rightarrow> 'b list db" where
  "db_mapM f [] = db_return []"
| "db_mapM f (x # xs) = db_bind (f x) (\<lambda>y. db_bind (db_mapM f xs) (\<lambda>ys. db_return (y # ys)))"

text \<open>
  The expression every post handler builds its response with:
  \<^verbatim>\<open>
    PostResponse(id=post.id, ..., comments_count=len(post.comments) if post.comments else 0)
  \<close>
\<close>

definition PostResponse_of :: "Post \<Rightarrow> PostResponse db" where
  "PostResponse_of post =
     db_bind (Post_comments post) (\<lambda>cs.
     validated ''PostResponse''
       (PostResponse_init (Post_id post) (Post_title post) (Post_content post) (Post_author post)
          (Post_created_at post) (Post_updated_at post) (if cs = [] then 0 else int (length cs))))"

definition CommentResponse_of :: "Comment \<Rightarrow> CommentResponse db" where
  "CommentResponse_of comment =
     validated ''CommentResponse''
       (CommentResponse_init (Comment_id comment) (Comment_content comment) (Comment_author comment)
          (Comment_post_id comment) (Comment_parent_comment_id comment)
          (Comment_created_at comment) (Comment_updated_at comment))"

subsection \<open>app/api/posts.py\<close>

text \<open>
  \<open>now1\<close> and \<open>now2\<close> are the values of the two calls of \<open>datetime.now(timezone.utc)\<close>,
  in the order the handler makes them.
\<close>

definition create_post_body :: "PostCreate \<Rightarrow> int \<Rightarrow> int \<Rightarrow> PostResponse db" where
  "create_post_body post_data now1 now2 =
     db_bind (db_add (Insert_Post (PostCreate_title post_data) (PostCreate_content post_data)
                        (Some (PostCreate_author post_data)) now1 now2)) (\<lambda>_.
     db_bind db_commit (\<lambda>key.
     db_bind (db_refresh_Post key) (\<lambda>db_post.
     PostResponse_of db_post)))"

definition create_post :: "PostCreate \<Rightarrow> int \<Rightarrow> int \<Rightarrow> PostResponse db" where
  "create_post post_data now1 now2 =
     try_except True ''Failed to create post: '' (create_post_body post_data now1 now2)"

definition get_posts_body :: "int \<Rightarrow> int \<Rightarrow> PostListResponse db" where
  "get_posts_body page limit =
     (let offset = (page - 1) * limit in
      db_bind db_exec_count_Post (\<lambda>total.
      db_bind (db_exec_select_Post offset limit) (\<lambda>posts.
      db_bind (db_mapM PostResponse_of posts) (\<lambda>post_responses.
      let total_pages = (total + limit - 1) div limit in
      db_return \<lparr>PostListResponse_posts = post_responses, PostListResponse_total = total,
                 PostListResponse_page = page, PostListResponse_limit = limit,
                 PostListResponse_total_pages = total_pages\<rparr>))))"

definition get_posts :: "int \<Rightarrow> int \<Rightarrow> PostListResponse db" where
  "get_posts page limit =
     (if page < 1 then db_raise (HTTPException 400 ''Page must be >= 1'')
      else if limit < 1 \<or> limit > 100 then db_raise (HTTPException 400 ''Limit must be between 1 and 100'')
      else try_except False ''Failed to fetch posts: '' (get_posts_body page limit))"

definition get_post_body :: "int \<Rightarrow> PostResponse db" where
  "get_post_body post_id =
     db_bind (db_get_Post post_id) (\<lambda>post.
     case post of
       None \<Rightarrow> db_raise (HTTPException 404 (''Post with ID '' @ str_int post_id @ '' not found''))
     | Some p \<Rightarrow> PostResponse_of p)"

definition get_post :: "int \<Rightarrow> PostResponse db" where
  "get_post post_id = try_except_reraise False ''Failed to retrieve post: '' (get_post_body post_id)"

definition delete_post_body :: "int \<Rightarrow> string db" where
  "delete_post_body post_id =
     db_bind (db_get_Post post_id) (\<lambda>post.
     case post of
       None \<Rightarrow> db_raise (HTTPException 404 (''Post with ID '' @ str_int post_id @ '' not found''))
     | Some p \<Rightarrow>
         db_bind (db_delete (Delete_Post (Post_id p))) (\<lambda>_.
         db_bind db_commit (\<lambda>_.
         db_return (''Post with ID '' @ str_int post_id @ '' deleted successfully''))))"

definition delete_post :: "int \<Rightarrow> string db" where
  "delete_post post_id = try_except_reraise True ''Failed to delete post: '' (delete_post_body post_id)"

definition get_comments_body :: "int \<Rightarrow> int \<Rightarrow> int \<Rightarrow> CommentListResponse db" where
  "get_comments_body post_id page limit =
     db_bind (db_get_Post post_id) (\<lambda>post.
     case post of
       None \<Rightarrow> db_raise (HTTPException 404 (''Post with ID '' @ str_int post_id @ '' not found''))
     | Some p \<Rightarrow>
         (let offset = (page - 1) * limit in
          db_bind (db_exec_count_Comment post_id) (\<lambda>total.
          db_bind (db_exec_select_Comment post_id offset limit) (\<lambda>comments.
          db_bind (db_mapM CommentResponse_of comments) (\<lambda>comment_responses.
          let total_pages = (total + limit - 1) div limit in
          db_return \<lparr>CommentListResponse_comments = comment_responses, CommentListResponse_total = total,
                     CommentListResponse_page = page, CommentListResponse_limit = limit,
                     CommentListResponse_total_pages = total_pages\<rparr>)))))"

definition get_comments :: "int \<Rightarrow> int \<Rightarrow> int \<Rightarrow> CommentListResponse db" where
  "get_comments post_id page limit =
     (if page < 1 then db_raise (HTTPException 400 ''Page must be >= 1'')
      else if limit < 1 \<or> limit > 100 then db_raise (HTTPException 400 ''Limit must be between 1 and 100'')
      else try_except_reraise False ''Failed to fetch comments: '' (get_comments_body post_id page limit))"

definition create_comment_body :: "int \<Rightarrow> CommentCreate \<Rightarrow> int \<Rightarrow> int \<Rightarrow> CommentResponse db" where
  "create_comment_body post_id comment_data now1 now2 =
     db_bind (db_get_Post post_id) (\<lambda>post.
     case post of
       None \<Rightarrow> db_raise (HTTPException 404 (''Post with ID '' @ str_int post_id @ '' not found''))
     | Some p \<Rightarrow>
         db_bind
           (case CommentCreate_parent_comment_id comment_data of
              None \<Rightarrow> db_return ()
            | Some parent_id \<Rightarrow>
                db_bind (db_get_Comment parent_id) (\<lambda>parent_comment.
                case parent_comment of
                  None \<Rightarrow> db_raise (HTTPException 404
                            (''Parent comment with ID '' @ str_int parent_id @ '' not found''))
                | Some pc \<Rightarrow>
                    if Comment_post_id pc \<noteq> post_id
                    then db_raise (HTTPException 400 ''Parent comment must belong to the same post'')
                    else db_return ())) (\<lambda>_.
         db_bind (db_add (Insert_Comment (CommentCreate_content comment_data)
                            (Some (CommentCreate_author comment_data)) post_id
                            (CommentCreate_parent_comment_id comment_data) now1 now2)) (\<lambda>_.
         db_bind db_commit (\<lambda>key.
         db_bind (db_refresh_Comment key) (\<lambda>db_comment.
         CommentResponse_of db_comment)))))"

definition create_comment :: "int \<Rightarrow> CommentCreate \<Rightarrow> int \<Rightarrow> int \<Rightarrow> CommentResponse db" where
  "create_comment post_id comment_data now1 now2 =
     try_except_reraise True ''Failed to create comment: '' (create_comment_body post_id comment_data now1 now2)"

subsection \<open>app/api/comments.py\<close>

definition get_comment_body :: "int \<Rightarrow> CommentResponse db" where
  "get_comment_body comment_id =
     db_bind (db_get_Comment comment_id) (\<lambda>comment.
     case comment of
       None \<Rightarrow> db_raise (HTTPException 404 (''Comment with ID '' @ str_int comment_id @ '' not found''))
     | Some c \<Rightarrow> CommentResponse_of c)"

definition get_comment :: "int \<Rightarrow> CommentResponse db" where
  "get_comment comment_id = try_except_reraise False ''Failed to retrieve comment: '' (get_comment_body comment_id)"

definition update_comment_body :: "int \<Rightarrow> CommentUpdate \<Rightarrow> int \<Rightarrow> CommentResponse db" where
  "update_comment_body comment_id comment_data now =
     db_bind (db_get_Comment comment_id) (\<lambda>comment.
     case comment of
       None \<Rightarrow> db_raise (HTTPException 404 (''Comment with ID '' @ str_int comment_id @ '' not found''))
     | Some c \<Rightarrow>
         db_bind (assign (Update_Comment (Comment_id c) (CommentUpdate_content comment_data) now)) (\<lambda>_.
         db_bind db_commit (\<lambda>_.
         db_bind (db_refresh_Comment (Some (Comment_id c))) (\<lambda>c'.
         CommentResponse_of c'))))"

definition update_comment :: "int \<Rightarrow> CommentUpdate \<Rightarrow> int \<Rightarrow> CommentResponse db" where
  "update_comment comment_id comment_data now =
     try_except_reraise True ''Failed to update comment: '' (update_comment_body comment_id comment_data now)"

definition delete_comment_body :: "int \<Rightarrow> string db" where
  "delete_comment_body comment_id =
     db_bind (db_get_Comment comment_id) (\<lambda>comment.
     case comment of
       None \<Rightarrow> db_raise (HTTPException 404 (''Comment with ID '' @ str_int comment_id @ '' not found''))
     | Some c \<Rightarrow>
         db_bind (db_delete (Delete_Comment (Comment_id c))) (\<lambda>_.
         db_bind db_commit (\<lambda>_.
         db_return (''Comment with ID '' @ str_int comment_id @ '' deleted successfully''))))"

definition delete_comment :: "int \<Rightarrow> string db" where
  "delete_comment comment_id = try_except_reraise True ''Failed to delete comment: '' (delete_comment_body comment_id)"

section \<open>Routes (app/main.py)\<close>

text \<open>
  What the client gets: the handler's value under the status code of its decorator
  (\<open>Success\<close>), the status and detail of an \<open>HTTPException\<close> (\<open>Failure\<close>), or the errors
  of a request body that does not validate, for which FastAPI answers 422 without
  calling the handler (\<open>Unprocessable\<close>). An exception that is not an
  \<open>HTTPException\<close> would leave the application as a bare 500.
\<close>

datatype 'a response = Success int 'a | Failure int string | Unprocessable errors

fun status_code :: "'a response \<Rightarrow> int" where
  "status_code (Success c x) = c"
| "status_code (Failure c d) = c"
| "status_code (Unprocessable es) = 422"

text \<open>The session is closed when the request ends; what remains is the database.\<close>

definition respond :: "int \<Rightarrow> (pyexn + 'a) \<times> Session \<Rightarrow> 'a response \<times> Database" where
  "respond code r =
     (case r of
        (Inr x, s) \<Rightarrow> (Success code x, tables s)
      | (Inl (HTTPException c d), s) \<Rightarrow> (Failure c d, tables s)
      | (Inl (Exception msg), s) \<Rightarrow> (Failure 500 ''Internal Server Error'', tables s))"

definition POST_posts ::
    "PostCreate_body \<Rightarrow> int \<Rightarrow> int \<Rightarrow> (db_call \<Rightarrow> string option) \<Rightarrow> Database \<Rightarrow> PostResponse response \<times> Database" where
  "POST_posts b now1 now2 f d =
     (case PostCreate_validate b of
        Inl es \<Rightarrow> (Unprocessable es, d)
      | Inr post_data \<Rightarrow> respond 201 (create_post post_data now1 now2 (get_db f d)))"

definition GET_posts ::
    "int \<Rightarrow> int \<Rightarrow> (db_call \<Rightarrow> string option) \<Rightarrow> Database \<Rightarrow> PostListResponse response \<times> Database" where
  "GET_posts page limit f d = respond 200 (get_posts page limit (get_db f d))"

definition GET_post ::
    "int \<Rightarrow> (db_call \<Rightarrow> string option) \<Rightarrow> Database \<Rightarrow> PostResponse response \<times> Database" where
  "GET_post post_id f d = respond 200 (get_post post_id (get_db f d))"

definition DELETE_post ::
    "int \<Rightarrow> (db_call \<Rightarrow> string option) \<Rightarrow> Database \<Rightarrow> string response \<times> Database" where
  "DELETE_post post_id f d = respond 200 (delete_post post_id (get_db f d))"

definition GET_post_comments ::
    "int \<Rightarrow> int \<Rightarrow> int \<Rightarrow> (db_call \<Rightarrow> string option) \<Rightarrow> Database \<Rightarrow> CommentListResponse response \<times> Database" where
  "GET_post_comments post_id page limit f d = respond 200 (get_comments post_id page limit (get_db f d))"

definition POST_post_comments ::
    "int \<Rightarrow> CommentCreate_body \<Rightarrow> int \<Rightarrow> int \<Rightarrow> (db_call \<Rightarrow> string option) \<Rightarrow> Database \<Rightarrow>
       CommentResponse response \<times> Database" where
  "POST_post_comments post_id b now1 now2 f d =
     (case CommentCreate_validate b of
        Inl es \<Rightarrow> (Unprocessable es, d)
      | Inr comment_data \<Rightarrow> respond 201 (create_comment post_id comment_data now1 now2 (get_db f d)))"

definition GET_comment ::
    "int \<Rightarrow> (db_call \<Rightarrow> string option) \<Rightarrow> Database \<Rightarrow> CommentResponse response \<times> Database" where
  "GET_comment comment_id f d = respond 200 (get_comment comment_id (get_db f d))"

definition PUT_comment ::
    "int \<Rightarrow> CommentUpdate_body \<Rightarrow> int \<Rightarrow> (db_call \<Rightarrow> string option) \<Rightarrow> Database \<Rightarrow>
       CommentResponse response \<times> Database" where
  "PUT_comment comment_id b now f d =
     (case CommentUpdate_validate b of
        Inl es \<Rightarrow> (Unprocessable es, d)
      | Inr comment_data \<Rightarrow> respond 200 (update_comment comment_id comment_data now (get_db f d)))"

definition DELETE_comment ::
    "int \<Rightarrow> (db_call \<Rightarrow> string option) \<Rightarrow> Database \<Rightarrow> string response \<times> Database" where
  "DELETE_comment comment_id f d = respond 200 (delete_comment comment_id (get_db f d))"

section \<open>Notions used in the statements and proofs\<close>

text \<open>
  \<open>raises_only P m\<close>: every exception the computation \<open>m\<close> raises satisfies \<open>P\<close>.
  \<open>allowed C\<close> holds of every exception that is not an \<open>HTTPException\<close>, and of an
  \<open>HTTPException\<close> whose status code is in \<open>C\<close>.
\<close>
definition raises_only :: "(pyexn \<Rightarrow> bool) \<Rightarrow> 'a db \<Rightarrow> bool" where
  "raises_only P m \<longleftrightarrow> (\<forall>s e s'. m s = (Inl e, s') \<longrightarrow> P e)"

definition allowed :: "int set \<Rightarrow> pyexn \<Rightarrow> bool" where
  "allowed C e = (case e of HTTPException c d \<Rightarrow> c \<in> C | Exception msg \<Rightarrow> True)"

text \<open>
  Example data: two posts; the first has a comment and a reply to that comment.
\<close>

definition example_db :: Database where
  "example_db =
     \<lparr>posts =
        [\<lparr>Post_id = 1, Post_title = lit ''A'', Post_content = lit ''B'', Post_author = Some (lit ''C''),
          Post_created_at = 10, Post_updated_at = 11\<rparr>,
         \<lparr>Post_id = 2, Post_title = lit ''D'', Post_content = lit ''E'', Post_author = Some (lit ''F''),
          Post_created_at = 12, Post_updated_at = 13\<rparr>],
      comments =
        [\<lparr>Comment_id = 1, Comment_content = lit ''x'', Comment_author = Some (lit ''y''), Comment_post_id = 1,
          Comment_parent_comment_id = None, Comment_created_at = 20, Comment_updated_at = 21\<rparr>,
         \<lparr>Comment_id = 2, Comment_content = lit ''reply'', Comment_author = Some (lit ''z''), Comment_post_id = 1,
          Comment_parent_comment_id = Some 1, Comment_created_at = 30, Comment_updated_at = 31\<rparr>]\<rparr>"

text \<open>
  A row passes the validation a response runs on it: \<open>title\<close> and \<open>content\<close> are not empty
  after trimming and \<open>author\<close> is not NULL (for a comment: is not empty after trimming).
  \<open>PostResponse_row\<close> and \<open>CommentResponse_row\<close> are the responses built from such rows.
\<close>

definition Post_valid :: "Post \<Rightarrow> bool" where
  "Post_valid p \<longleftrightarrow> strip (Post_title p) \<noteq> [] \<and> strip (Post_content p) \<noteq> [] \<and> Post_author p \<noteq> None"

definition Comment_valid :: "Comment \<Rightarrow> bool" where
  "Comment_valid c \<longleftrightarrow>
     strip (Comment_content c) \<noteq> [] \<and> (case Comment_author c of None \<Rightarrow> False | Some a \<Rightarrow> strip a \<noteq> [])"

definition PostResponse_row :: "Comment list \<Rightarrow> Post \<Rightarrow> PostResponse" where
  "PostResponse_row cs p =
     \<lparr>PostResponse_id = Post_id p, PostResponse_title = strip (Post_title p),
      PostResponse_content = strip (Post_content p),
      PostResponse_author = (case Post_author p of None \<Rightarrow> [] | Some a \<Rightarrow> a),
      PostResponse_created_at = Post_created_at p, PostResponse_updated_at = Post_updated_at p,
      PostResponse_comments_count = int (length (filter (\<lambda>c. Comment_post_id c = Post_id p) cs))\<rparr>"

definition CommentResponse_row :: "Comment \<Rightarrow> CommentResponse" where
  "CommentResponse_row c =
     \<lparr>CommentResponse_id = Comment_id c, CommentResponse_content = strip (Comment_content c),
      CommentResponse_author = (case Comment_author c of None \<Rightarrow> [] | Some a \<Rightarrow> strip a),
      CommentResponse_post_id = Comment_post_id c,
      CommentResponse_parent_comment_id = Comment_parent_comment_id c,
      CommentResponse_created_at = Comment_created_at c, CommentResponse_updated_at = Comment_updated_at c\<rparr>"

text \<open>
  \<open>same s s'\<close>: the two sessions have the same database, the same pending changes and the
  same storage failures; they may differ in the calls recorded.
\<close>

definition same :: "Session \<Rightarrow> Session \<Rightarrow> bool" where
  "same s s' \<longleftrightarrow> tables s' = tables s \<and> pending s' = pending s \<and> fault s' = fault s"

text \<open>
  \<open>parent_ok cs c\<close>: if the comment \<open>c\<close> has a \<open>parent_comment_id\<close>, a lookup of that key
  among the comments \<open>cs\<close> finds a comment, and that comment is on the same post as \<open>c\<close>.
\<close>

definition parent_ok :: "Comment list \<Rightarrow> Comment \<Rightarrow> bool" where
  "parent_ok cs c =
     (case Comment_parent_comment_id c of
        None \<Rightarrow> True
      | Some i \<Rightarrow>
          (case find (\<lambda>q. Comment_id q = i) cs of
             None \<Rightarrow> False
           | Some q \<Rightarrow> Comment_post_id q = Comment_post_id c))"

definition parents_ok :: "Comment list \<Rightarrow> bool" where
  "parents_ok cs = list_all (parent_ok cs) cs"

text \<open>
  The databases the public operations can produce: from the empty tables, by any request
  to any of the nine routes, under any storage failures.
\<close>

inductive reachable :: "Database \<Rightarrow> bool" where
  empty: "reachable \<lparr>posts = [], comments = []\<rparr>"
| create_post: "reachable d \<Longrightarrow> reachable (snd (POST_posts b now1 now2 f d))"
| get_posts: "reachable d \<Longrightarrow> reachable (snd (GET_posts page limit f d))"
| get_post: "reachable d \<Longrightarrow> reachable (snd (GET_post post_id f d))"
| delete_post: "reachable d \<Longrightarrow> reachable (snd (DELETE_post post_id f d))"
| get_comments: "reachable d \<Longrightarrow> reachable (snd (GET_post_comments post_id page limit f d))"
| create_comment: "reachable d \<Longrightarrow> reachable (snd (POST_post_comments post_id cb now1 now2 f d))"
| get_comment: "reachable d \<Longrightarrow> reachable (snd (GET_comment comment_id f d))"
| update_comment: "reachable d \<Longrightarrow> reachable (snd (PUT_comment comment_id ub now f d))"
| delete_comment: "reachable d \<Longrightarrow> reachable (snd (DELETE_comment comment_id f d))"

definition comments_inv :: "Comment list \<Rightarrow> bool" where
  "comments_inv cs \<longleftrightarrow> parents_ok cs \<and> distinct (map Comment_id cs)"

text \<open>\<open>rows_valid d\<close>: every row of both tables passes the validation a response runs on it.\<close>

definition rows_valid :: "Database \<Rightarrow> bool" where
  "rows_valid d \<longleftrightarrow> list_all Post_valid (posts d) \<and> list_all Comment_valid (comments d)"

text \<open>
  \<open>storage_failed s s0 msg\<close>: among the calls made on the session between \<open>s\<close> and \<open>s0\<close> there
  is one of a kind on which the storage of the session fails, with the text \<open>msg\<close>.
  \<open>reports_failures m\<close>: the computation \<open>m\<close> leaves the storage failures of the session as
  they are and only adds to its log of calls, and when it makes a call on which the
  storage fails, it raises the exception of that failure.
\<close>

definition storage_failed :: "Session \<Rightarrow> Session \<Rightarrow> string \<Rightarrow> bool" where
  "storage_failed s s0 msg \<longleftrightarrow> list_ex (\<lambda>k. fault s k = Some msg) (drop (length (calls s)) (calls s0))"

definition reports_failures :: "'a db \<Rightarrow> bool" where
  "reports_failures m \<longleftrightarrow>
     (\<forall>s r s'. m s = (r, s') \<longrightarrow>
        fault s' = fault s \<and>
        (\<exists>new. calls s' = calls s @ new \<and>
           (\<forall>k\<in>set new. \<forall>msg. fault s k = Some msg \<longrightarrow> r = Inl (Exception msg))))"

section \<open>Auxiliary facts\<close>

subsection \<open>Trimming and validation\<close>

lemma strip_Nil: "strip [] = []"
  by (simp add: strip_def)

lemma strip_first: "strip v \<noteq> [] \<Longrightarrow> \<not> isspace (hd (strip v))"
proof -
  assume ne: "strip v \<noteq> []"
  define u where "u = dropWhile isspace v"
  have "rev (takeWhile isspace (rev u) @ dropWhile isspace (rev u)) = u"
    by (simp only: takeWhile_dropWhile_id rev_rev_ident)
  then have u: "u = strip v @ rev (takeWhile isspace (rev u))"
    by (simp only: rev_append strip_def u_def)
  with ne have "hd u = hd (strip v)" by (metis hd_append2)
  moreover from u ne have "u \<noteq> []" by auto
  then have "\<not> isspace (hd u)" unfolding u_def by (rule hd_dropWhile)
  ultimately show ?thesis by simp
qed

lemma strip_last: "strip v \<noteq> [] \<Longrightarrow> \<not> isspace (last (strip v))"
proof -
  assume ne: "strip v \<noteq> []"
  then have "dropWhile isspace (rev (dropWhile isspace v)) \<noteq> []" by (simp add: strip_def)
  then have "\<not> isspace (hd (dropWhile isspace (rev (dropWhile isspace v))))" by (rule hd_dropWhile)
  then show ?thesis using ne by (simp add: strip_def last_rev)
qed

lemma strip_strip: "strip (strip v) = strip v"
proof (cases "strip v = []")
  case True
  have "strip [] = []" by (simp add: strip_def)
  with True show ?thesis by simp
next
  case False
  have a: "dropWhile isspace (strip v) = strip v"
    using strip_first[OF False] by (simp add: dropWhile_eq_self_iff)
  have "hd (rev (strip v)) = last (strip v)" using False by (simp add: hd_rev)
  then have b: "dropWhile isspace (rev (strip v)) = rev (strip v)"
    using strip_last[OF False] by (simp add: dropWhile_eq_self_iff)
  show ?thesis
    unfolding strip_def[of "strip v"] a b by simp
qed

lemma validated_content:
  "CommentBase_content_must_not_be_empty v = Inr c \<Longrightarrow> CommentBase_content_must_not_be_empty c = Inr c"
  by (auto simp: CommentBase_content_must_not_be_empty_def strip_strip split: if_splits)

lemma validated_author:
  "CommentBase_author_must_not_be_empty v = Inr c \<Longrightarrow> CommentBase_author_must_not_be_empty c = Inr c"
  by (auto simp: CommentBase_author_must_not_be_empty_def strip_strip split: if_splits)

lemma CommentCreate_validated:
  assumes "CommentCreate_validate b = Inr data"
  shows "CommentResponse_init i (CommentCreate_content data) (Some (CommentCreate_author data)) pid par t1 t2 =
     Inr \<lparr>CommentResponse_id = i, CommentResponse_content = CommentCreate_content data,
          CommentResponse_author = CommentCreate_author data,
          CommentResponse_post_id = pid, CommentResponse_parent_comment_id = par,
          CommentResponse_created_at = t1, CommentResponse_updated_at = t2\<rparr>"
  using assms
  by (auto simp: CommentCreate_validate_def CommentResponse_init_def str_field_def Let_def
      validated_content validated_author
      split: option.splits sum.splits)

lemma PostCreate_validate_Inr_iff:
  "PostCreate_validate b = Inr post_data \<longleftrightarrow>
     (\<exists>t x a. body_title b = Some t \<and> strip t \<noteq> [] \<and> body_content b = Some x \<and> strip x \<noteq> [] \<and>
        body_author b = Some a \<and>
        post_data = \<lparr>PostCreate_title = strip t, PostCreate_content = strip x, PostCreate_author = a\<rparr>)"
  by (auto simp: PostCreate_validate_def str_field_def no_validator_def Let_def errors_of_def
      PostBase_title_must_not_be_empty_def PostBase_content_must_not_be_empty_def strip_Nil
      split: option.splits sum.splits if_splits)

lemma CommentCreate_validate_Inr_iff:
  "CommentCreate_validate cb = Inr comment_data \<longleftrightarrow>
     (\<exists>v a. cbody_content cb = Some v \<and> strip v \<noteq> [] \<and> cbody_author cb = Some a \<and> strip a \<noteq> [] \<and>
        comment_data = \<lparr>CommentCreate_content = strip v, CommentCreate_author = strip a,
                        CommentCreate_parent_comment_id = cbody_parent_comment_id cb\<rparr>)"
  by (auto simp: CommentCreate_validate_def str_field_def Let_def errors_of_def
      CommentBase_content_must_not_be_empty_def CommentBase_author_must_not_be_empty_def strip_Nil
      split: option.splits sum.splits if_splits)

lemma CommentUpdate_validate_Inr_iff:
  "CommentUpdate_validate b = Inr comment_data \<longleftrightarrow>
     (\<exists>v. ubody_content b = Some v \<and> strip v \<noteq> [] \<and> comment_data = \<lparr>CommentUpdate_content = strip v\<rparr>)"
  by (auto simp: CommentUpdate_validate_def str_field_def CommentUpdate_content_must_not_be_empty_def strip_Nil
      split: option.splits sum.splits if_splits)

lemma PostResponse_init_stripped:
  assumes "strip t \<noteq> []" "strip x \<noteq> []"
  shows "PostResponse_init i (strip t) (strip x) (Some a) t1 t2 n =
     Inr \<lparr>PostResponse_id = i, PostResponse_title = strip t, PostResponse_content = strip x,
          PostResponse_author = a, PostResponse_created_at = t1, PostResponse_updated_at = t2,
          PostResponse_comments_count = n\<rparr>"
  using assms
  by (auto simp: PostResponse_init_def str_field_def no_validator_def Let_def
      PostBase_title_must_not_be_empty_def PostBase_content_must_not_be_empty_def strip_strip)

subsection \<open>Keys and lookups\<close>

lemma next_id_fresh: "next_id ids \<notin> set ids"
proof (cases "ids = []")
  case True then show ?thesis by simp
next
  case False
  show ?thesis
  proof
    assume "next_id ids \<in> set ids"
    then have "next_id ids \<le> Max (set ids)" by simp
    then show False using False by (simp add: next_id_def)
  qed
qed

lemma find_append_fresh:
  "k \<notin> set (map key xs) \<Longrightarrow> find (\<lambda>x. key x = k) (xs @ [y]) = (if key y = k then Some y else None)"
  by (induction xs) auto

lemma find_append:
  "find P (xs @ ys) = (case find P xs of None \<Rightarrow> find P ys | Some x \<Rightarrow> Some x)"
  by (induction xs) auto

lemma find_map_key:
  assumes "\<And>x. key (g x) = key x"
  shows "find (\<lambda>x. key x = k) (map g xs) = map_option g (find (\<lambda>x. key x = k) xs)"
  by (induction xs) (auto simp: assms)

lemma find_filter_other:
  "k \<noteq> i \<Longrightarrow> find (\<lambda>x. key x = k) (filter (\<lambda>x. key x \<noteq> i) xs) = find (\<lambda>x. key x = k) xs"
  by (induction xs) auto

lemma set_content_fields:
  "Comment_id (set_content i content t c) = Comment_id c"
  "Comment_post_id (set_content i content t c) = Comment_post_id c"
  "Comment_parent_comment_id (set_content i content t c) = Comment_parent_comment_id c"
  by (simp_all add: set_content_def)

lemma null_parent_fields:
  "Comment_id (null_parent i c) = Comment_id c"
  "Comment_post_id (null_parent i c) = Comment_post_id c"
  by (simp_all add: null_parent_def)


lemma flush_single:
  "flush [ch] d None = apply_change ch d"
  by (cases "apply_change ch d") (auto split: option.splits)

subsection \<open>Unfolding the model\<close>

lemmas db_defs = db_bind_def db_return_def db_raise_def db_op_def db_params_def db_get_Post_def db_get_Comment_def
  db_add_def db_delete_def assign_def db_commit_def db_rollback_def db_refresh_Post_def db_refresh_Comment_def
  db_exec_count_Post_def db_exec_select_Post_def db_exec_count_Comment_def db_exec_select_Comment_def
  Post_comments_def validated_def try_except_def try_except_reraise_def except_Exception_def

text \<open>The definitions that evaluate a request on concrete data.\<close>

lemmas eval_defs =
  POST_posts_def GET_posts_def GET_post_def DELETE_post_def GET_post_comments_def POST_post_comments_def
  GET_comment_def PUT_comment_def DELETE_comment_def
  create_post_def create_post_body_def get_posts_def get_posts_body_def get_post_def get_post_body_def
  delete_post_def delete_post_body_def get_comments_def get_comments_body_def
  create_comment_def create_comment_body_def get_comment_def get_comment_body_def
  update_comment_def update_comment_body_def delete_comment_def delete_comment_body_def
  PostCreate_validate_def CommentCreate_validate_def CommentUpdate_validate_def
  PostResponse_of_def PostResponse_init_def CommentResponse_of_def CommentResponse_init_def
  str_field_def no_validator_def errors_of_def
  PostBase_title_must_not_be_empty_def PostBase_content_must_not_be_empty_def
  CommentBase_content_must_not_be_empty_def CommentBase_author_must_not_be_empty_def
  CommentUpdate_content_must_not_be_empty_def
  strip_def isspace_def lit_def next_id_def null_parent_def set_content_def
  order_by_created_at_desc_def order_by_created_at_asc_def offset_limit_def
  db_defs get_db_def no_fault_def respond_def str_exn_def example_db_def sqlite_int_def OverflowError_str_def

lemma get_db_simps: "tables (get_db f d) = d" "pending (get_db f d) = []" "fault (get_db f d) = f"
  "calls (get_db f d) = []"
  by (simp_all add: get_db_def)

lemma snd_respond: "snd (respond code x) = tables (snd x)"
  by (auto simp: respond_def split: prod.splits sum.splits pyexn.splits)

subsection \<open>What one step of a computation can return\<close>

text \<open>
  For every storage failure: what each call on the session returns and how it leaves the
  session, as rules that take a run of a handler apart step by step.
\<close>

lemma same_refl: "same s s"
  by (simp add: same_def)

lemma same_trans: "same s s1 \<Longrightarrow> same s1 s2 \<Longrightarrow> same s s2"
  by (simp add: same_def)

lemma db_bindE:
  assumes "db_bind m f s = (r, s')"
  obtains (fail) e where "m s = (Inl e, s')" "r = Inl e"
        | (ok) x s1 where "m s = (Inr x, s1)" "f x s1 = (r, s')"
  using assms by (auto simp: db_bind_def split: prod.splits sum.splits)

lemma db_returnD: "db_return x s = (r, s') \<Longrightarrow> r = Inr x \<and> s' = s"
  by (auto simp: db_return_def)

lemma db_raiseD: "db_raise e s = (r, s') \<Longrightarrow> r = Inl e \<and> s' = s"
  by (auto simp: db_raise_def)

lemma db_get_PostD:
  "db_get_Post i s = (r, s') \<Longrightarrow>
     same s s' \<and> (r = Inr (find (\<lambda>p. Post_id p = i) (posts (tables s))) \<or> (\<exists>msg. r = Inl (Exception msg)))"
  by (auto simp: db_get_Post_def db_op_def db_params_def same_def Let_def split: option.splits if_splits)

lemma db_get_CommentD:
  "db_get_Comment i s = (r, s') \<Longrightarrow>
     same s s' \<and> (r = Inr (find (\<lambda>c. Comment_id c = i) (comments (tables s))) \<or> (\<exists>msg. r = Inl (Exception msg)))"
  by (auto simp: db_get_Comment_def db_op_def db_params_def same_def Let_def split: option.splits if_splits)

lemma db_addD:
  "db_add ch s = (r, s') \<Longrightarrow>
     tables s' = tables s \<and> fault s' = fault s \<and>
     (r = Inr () \<and> pending s' = pending s @ [ch] \<or> (\<exists>msg. r = Inl (Exception msg)) \<and> pending s' = pending s)"
  by (auto simp: db_add_def db_op_def Let_def split: option.splits)

lemma db_deleteD:
  "db_delete ch s = (r, s') \<Longrightarrow>
     tables s' = tables s \<and> fault s' = fault s \<and>
     (r = Inr () \<and> pending s' = pending s @ [ch] \<or> (\<exists>msg. r = Inl (Exception msg)) \<and> pending s' = pending s)"
  by (auto simp: db_delete_def db_op_def Let_def split: option.splits)

lemma assignD:
  "assign ch s = (r, s') \<Longrightarrow>
     tables s' = tables s \<and> fault s' = fault s \<and> r = Inr () \<and> pending s' = pending s @ [ch]"
  by (auto simp: assign_def)

lemma db_commitD:
  "db_commit s = (r, s') \<Longrightarrow>
     fault s' = fault s \<and>
     ((\<exists>msg. r = Inl (Exception msg)) \<and> tables s' = tables s \<and> pending s' = pending s \<or>
      \<not> isl (flush (pending s) (tables s) None) \<and>
      r = Inr (snd (projr (flush (pending s) (tables s) None))) \<and>
      tables s' = fst (projr (flush (pending s) (tables s) None)) \<and> pending s' = [])"
  by (auto simp: db_commit_def db_op_def Let_def split: option.splits sum.splits)

lemma db_refresh_PostD:
  "db_refresh_Post key s = (r, s') \<Longrightarrow>
     same s s' \<and>
     ((\<exists>msg. r = Inl (Exception msg)) \<or>
      (\<exists>k p. key = Some k \<and> find (\<lambda>p. Post_id p = k) (posts (tables s)) = Some p \<and> r = Inr p))"
  by (auto simp: db_refresh_Post_def db_op_def same_def Let_def split: option.splits)

lemma db_refresh_CommentD:
  "db_refresh_Comment key s = (r, s') \<Longrightarrow>
     same s s' \<and>
     ((\<exists>msg. r = Inl (Exception msg)) \<or>
      (\<exists>k c. key = Some k \<and> find (\<lambda>c. Comment_id c = k) (comments (tables s)) = Some c \<and> r = Inr c))"
  by (auto simp: db_refresh_Comment_def db_op_def same_def Let_def split: option.splits)

lemma CommentResponse_ofD:
  "CommentResponse_of c s = (r, s') \<Longrightarrow>
     s' = s \<and> ((\<exists>msg. r = Inl (Exception msg)) \<or> Comment_valid c \<and> r = Inr (CommentResponse_row c))"
  by (auto simp: CommentResponse_of_def CommentResponse_init_def CommentResponse_row_def Comment_valid_def
      validated_def db_return_def db_raise_def str_field_def Let_def
      CommentBase_content_must_not_be_empty_def CommentBase_author_must_not_be_empty_def strip_Nil
      split: option.splits sum.splits if_splits)

lemma PostResponse_ofD:
  "PostResponse_of p s = (r, s') \<Longrightarrow>
     same s s' \<and>
     ((\<exists>msg. r = Inl (Exception msg)) \<or> Post_valid p \<and> r = Inr (PostResponse_row (comments (tables s)) p))"
  by (auto simp: PostResponse_of_def PostResponse_init_def PostResponse_row_def Post_valid_def
      Post_comments_def db_op_def db_bind_def same_def
      validated_def db_return_def db_raise_def str_field_def no_validator_def Let_def
      PostBase_title_must_not_be_empty_def PostBase_content_must_not_be_empty_def strip_Nil
      split: option.splits sum.splits if_splits)

lemma try_exceptD:
  "try_except rb prefix body s = (r, s') \<Longrightarrow>
     (\<exists>x. body s = (Inr x, s') \<and> r = Inr x) \<or>
     (\<exists>e s0. body s = (Inl e, s0) \<and> r = Inl (HTTPException 500 (prefix @ str_exn e)) \<and>
        s' = (if rb then s0\<lparr>calls := calls s0 @ [Rollback], pending := []\<rparr> else s0))"
  by (cases rb) (auto simp: try_except_def except_Exception_def db_rollback_def Let_def split: prod.splits sum.splits)

lemma try_except_reraiseD:
  "try_except_reraise rb prefix body s = (r, s') \<Longrightarrow>
     (\<exists>x. body s = (Inr x, s') \<and> r = Inr x) \<or>
     (\<exists>c d. body s = (Inl (HTTPException c d), s') \<and> r = Inl (HTTPException c d)) \<or>
     (\<exists>msg s0. body s = (Inl (Exception msg), s0) \<and> r = Inl (HTTPException 500 (prefix @ msg)) \<and>
        s' = (if rb then s0\<lparr>calls := calls s0 @ [Rollback], pending := []\<rparr> else s0))"
  by (cases rb) (auto simp: try_except_reraise_def except_Exception_def db_rollback_def Let_def str_exn_def
      split: prod.splits sum.splits pyexn.splits)

lemma db_mapM_same:
  assumes "\<And>x s r s'. f x s = (r, s') \<Longrightarrow> same s s'"
  shows "db_mapM f xs s = (r, s') \<Longrightarrow> same s s'"
proof (induction xs arbitrary: s r s')
  case Nil
  then show ?case by (auto dest!: db_returnD simp: same_refl)
next
  case (Cons x xs)
  from Cons.prems show ?case
    by (auto elim!: db_bindE dest!: db_returnD dest: assms Cons.IH intro: same_trans)
qed

lemma PostResponse_of_same: "PostResponse_of p s = (r, s') \<Longrightarrow> same s s'"
  by (drule PostResponse_ofD) simp

lemma CommentResponse_of_same: "CommentResponse_of c s = (r, s') \<Longrightarrow> same s s'"
  by (drule CommentResponse_ofD) (simp add: same_refl)

lemma mapM_PostResponse_of_same: "db_mapM PostResponse_of ps s = (r, s') \<Longrightarrow> same s s'"
  by (rule db_mapM_same[of PostResponse_of]) (rule PostResponse_of_same)

lemma mapM_CommentResponse_of_same: "db_mapM CommentResponse_of cs s = (r, s') \<Longrightarrow> same s s'"
  by (rule db_mapM_same[of CommentResponse_of]) (rule CommentResponse_of_same)

lemma db_exec_count_PostD:
  "db_exec_count_Post s = (r, s') \<Longrightarrow>
     same s s' \<and> (r = Inr (int (length (posts (tables s)))) \<or> (\<exists>msg. r = Inl (Exception msg)))"
  by (auto simp: db_exec_count_Post_def db_op_def same_def Let_def split: option.splits)

lemma db_exec_select_PostD:
  "db_exec_select_Post offset limit s = (r, s') \<Longrightarrow>
     same s s' \<and>
     (r = Inr (offset_limit offset limit (order_by_created_at_desc (posts (tables s)))) \<or>
      (\<exists>msg. r = Inl (Exception msg)))"
  by (auto simp: db_exec_select_Post_def db_op_def db_params_def same_def Let_def split: option.splits if_splits)

lemma db_exec_count_CommentD:
  "db_exec_count_Comment post_id s = (r, s') \<Longrightarrow>
     same s s' \<and>
     (r = Inr (int (length (filter (\<lambda>c. Comment_post_id c = post_id) (comments (tables s))))) \<or>
      (\<exists>msg. r = Inl (Exception msg)))"
  by (auto simp: db_exec_count_Comment_def db_op_def db_params_def same_def Let_def split: option.splits if_splits)

lemma db_exec_select_CommentD:
  "db_exec_select_Comment post_id offset limit s = (r, s') \<Longrightarrow>
     same s s' \<and>
     (r = Inr (offset_limit offset limit
        (order_by_created_at_asc (filter (\<lambda>c. Comment_post_id c = post_id) (comments (tables s))))) \<or>
      (\<exists>msg. r = Inl (Exception msg)))"
  by (auto simp: db_exec_select_Comment_def db_op_def db_params_def same_def Let_def split: option.splits if_splits)

lemma try_except_tables:
  "try_except rb prefix body s = (r, s') \<Longrightarrow> \<exists>r0 s0. body s = (r0, s0) \<and> tables s' = tables s0"
  by (drule try_exceptD) (auto split: if_splits)

lemma try_except_reraise_tables:
  "try_except_reraise rb prefix body s = (r, s') \<Longrightarrow> \<exists>r0 s0. body s = (r0, s0) \<and> tables s' = tables s0"
  by (drule try_except_reraiseD) (auto split: if_splits)

lemma try_except_Inr: "try_except rb prefix body s = (Inr r, s') \<Longrightarrow> body s = (Inr r, s')"
  by (drule try_exceptD) auto

lemma try_except_reraise_Inr: "try_except_reraise rb prefix body s = (Inr r, s') \<Longrightarrow> body s = (Inr r, s')"
  by (drule try_except_reraiseD) auto

lemma respond_SuccessD:
  "respond c0 x = (Success code r, d') \<Longrightarrow> code = c0 \<and> (\<exists>s'. x = (Inr r, s') \<and> tables s' = d')"
  by (auto simp: respond_def split: prod.splits sum.splits pyexn.splits)

subsection \<open>Which exceptions a computation raises\<close>

lemma raises_only_return: "raises_only P (db_return x)"
  by (simp add: raises_only_def db_return_def)

lemma raises_only_raise: "P e \<Longrightarrow> raises_only P (db_raise e)"
  by (simp add: raises_only_def db_raise_def)

lemma raises_only_bind:
  "raises_only P m \<Longrightarrow> (\<And>x. raises_only P (f x)) \<Longrightarrow> raises_only P (db_bind m f)"
  unfolding raises_only_def db_bind_def
  by (auto split: prod.splits sum.splits)

lemma raises_only_op:
  "(\<And>msg. P (Exception msg)) \<Longrightarrow> raises_only P m \<Longrightarrow> raises_only P (db_op k m)"
  unfolding raises_only_def db_op_def
  by (auto simp: Let_def split: option.splits)

lemma raises_only_mapM:
  "(\<And>x. raises_only P (f x)) \<Longrightarrow> raises_only P (db_mapM f xs)"
  by (induction xs) (auto intro!: raises_only_return raises_only_bind)

lemma raises_only_validated: "(\<And>msg. P (Exception msg)) \<Longrightarrow> raises_only P (validated cls r)"
  by (auto simp: validated_def intro: raises_only_return raises_only_raise split: sum.splits)

lemma allowed_Exception: "allowed C (Exception msg)"
  by (simp add: allowed_def)

lemma raises_only_pure: "raises_only P (\<lambda>s. (Inr (g s), h s))"
  by (simp add: raises_only_def)

lemmas raises_intros = raises_only_return raises_only_bind raises_only_op raises_only_mapM
  raises_only_validated allowed_Exception raises_only_pure

lemma raises_only_D: "(\<And>s r s'. m s = (r, s') \<Longrightarrow> (\<exists>x. r = Inr x) \<or> (\<exists>msg. r = Inl (Exception msg))) \<Longrightarrow>
    raises_only (allowed C) m"
  unfolding raises_only_def allowed_def by (fastforce split: pyexn.splits)

lemma raises_get_Post: "raises_only (allowed C) (db_get_Post i)"
  by (rule raises_only_D) (auto dest!: db_get_PostD)

lemma raises_get_Comment: "raises_only (allowed C) (db_get_Comment i)"
  by (rule raises_only_D) (auto dest!: db_get_CommentD)

lemma raises_add: "raises_only (allowed C) (db_add ch)"
  by (rule raises_only_D) (auto dest!: db_addD)

lemma raises_delete: "raises_only (allowed C) (db_delete ch)"
  by (rule raises_only_D) (auto dest!: db_deleteD)

lemma raises_assign: "raises_only (allowed C) (assign ch)"
  by (rule raises_only_D) (auto dest!: assignD)

lemma raises_commit: "raises_only (allowed C) db_commit"
  by (rule raises_only_D) (auto dest!: db_commitD)

lemma raises_refresh_Post: "raises_only (allowed C) (db_refresh_Post key)"
  by (rule raises_only_D) (auto dest!: db_refresh_PostD)

lemma raises_refresh_Comment: "raises_only (allowed C) (db_refresh_Comment key)"
  by (rule raises_only_D) (auto dest!: db_refresh_CommentD)

lemma raises_PostResponse_of: "raises_only (allowed C) (PostResponse_of p)"
  by (rule raises_only_D) (auto dest!: PostResponse_ofD)

lemma raises_CommentResponse_of: "raises_only (allowed C) (CommentResponse_of c)"
  by (rule raises_only_D) (auto dest!: CommentResponse_ofD)

lemma raises_exec_count_Post: "raises_only (allowed C) db_exec_count_Post"
  by (rule raises_only_D) (auto dest!: db_exec_count_PostD)

lemma raises_exec_select_Post: "raises_only (allowed C) (db_exec_select_Post offset limit)"
  by (rule raises_only_D) (auto dest!: db_exec_select_PostD)

lemma raises_exec_count_Comment: "raises_only (allowed C) (db_exec_count_Comment post_id)"
  by (rule raises_only_D) (auto dest!: db_exec_count_CommentD)

lemma raises_exec_select_Comment: "raises_only (allowed C) (db_exec_select_Comment post_id offset limit)"
  by (rule raises_only_D) (auto dest!: db_exec_select_CommentD)

lemmas raises_prims = raises_get_Post raises_get_Comment raises_add raises_delete raises_assign raises_commit
  raises_refresh_Post raises_refresh_Comment raises_PostResponse_of raises_CommentResponse_of
  raises_exec_count_Post raises_exec_select_Post raises_exec_count_Comment raises_exec_select_Comment
  raises_only_return raises_only_bind raises_only_mapM

lemma create_post_body_raises: "raises_only (allowed {}) (create_post_body post_data now1 now2)"
  unfolding create_post_body_def by (intro raises_prims)

lemma get_posts_body_raises: "raises_only (allowed {}) (get_posts_body page limit)"
  unfolding get_posts_body_def Let_def by (intro raises_prims)

lemma get_post_body_raises: "raises_only (allowed {404}) (get_post_body post_id)"
  unfolding get_post_body_def
  by (auto intro!: raises_prims raises_only_raise simp: allowed_def split: option.splits)

lemma delete_post_body_raises: "raises_only (allowed {404}) (delete_post_body post_id)"
  unfolding delete_post_body_def
  by (auto intro!: raises_prims raises_only_raise simp: allowed_def split: option.splits)

lemma get_comments_body_raises: "raises_only (allowed {404}) (get_comments_body post_id page limit)"
  unfolding get_comments_body_def Let_def
  by (auto intro!: raises_prims raises_only_raise simp: allowed_def split: option.splits)

lemma create_comment_body_raises:
  "raises_only (allowed {404, 400}) (create_comment_body post_id comment_data now1 now2)"
  unfolding create_comment_body_def
  by (auto intro!: raises_prims raises_only_raise simp: allowed_def split: option.splits)

lemma get_comment_body_raises: "raises_only (allowed {404}) (get_comment_body comment_id)"
  unfolding get_comment_body_def
  by (auto intro!: raises_prims raises_only_raise simp: allowed_def split: option.splits)

lemma update_comment_body_raises: "raises_only (allowed {404}) (update_comment_body comment_id update_data now)"
  unfolding update_comment_body_def
  by (auto intro!: raises_prims raises_only_raise simp: allowed_def split: option.splits)

lemma delete_comment_body_raises: "raises_only (allowed {404}) (delete_comment_body comment_id)"
  unfolding delete_comment_body_def
  by (auto intro!: raises_prims raises_only_raise simp: allowed_def split: option.splits)

lemma try_except_500: "fst (try_except rb prefix body s) = Inl e \<Longrightarrow> \<exists>d. e = HTTPException 500 d"
  by (auto simp: try_except_def except_Exception_def Let_def split: prod.splits sum.splits)

lemma try_except_reraise_cases:
  "fst (try_except_reraise rb prefix body s) = Inl e \<Longrightarrow>
     (\<exists>d. e = HTTPException 500 d) \<or> (\<exists>c d s'. e = HTTPException c d \<and> body s = (Inl e, s'))"
  by (auto simp: try_except_reraise_def except_Exception_def Let_def split: prod.splits sum.splits pyexn.splits)

lemma try_except_reraise_500:
  assumes "raises_only (allowed C) body" "500 \<notin> C"
    and "try_except_reraise rb prefix body s = (Inl (HTTPException 500 detail), s')"
  shows "\<exists>msg s0. body s = (Inl (Exception msg), s0) \<and> detail = prefix @ msg \<and>
     s' = (if rb then s0\<lparr>calls := calls s0 @ [Rollback], pending := []\<rparr> else s0)"
proof -
  from try_except_reraiseD[OF assms(3)] consider
    (reraised) "body s = (Inl (HTTPException 500 detail), s')"
    | (caught) msg s0 where "body s = (Inl (Exception msg), s0)" "detail = prefix @ msg"
        "s' = (if rb then s0\<lparr>calls := calls s0 @ [Rollback], pending := []\<rparr> else s0)"
    by auto
  then show ?thesis
  proof cases
    case reraised
    with assms(1) have "allowed C (HTTPException 500 detail)" unfolding raises_only_def by blast
    with assms(2) show ?thesis by (simp add: allowed_def)
  next
    case caught
    then show ?thesis by blast
  qed
qed

lemma try_except_500_raw:
  assumes "raises_only (allowed {}) body"
    and "try_except rb prefix body s = (Inl (HTTPException 500 detail), s')"
  shows "\<exists>msg s0. body s = (Inl (Exception msg), s0) \<and> detail = prefix @ msg \<and>
     s' = (if rb then s0\<lparr>calls := calls s0 @ [Rollback], pending := []\<rparr> else s0)"
proof -
  from try_exceptD[OF assms(2)] obtain e s0 where
    b: "body s = (Inl e, s0)" and d: "detail = prefix @ str_exn e"
    and s: "s' = (if rb then s0\<lparr>calls := calls s0 @ [Rollback], pending := []\<rparr> else s0)"
    by auto
  from assms(1) b have "allowed {} e" unfolding raises_only_def by blast
  then obtain msg where "e = Exception msg" by (cases e) (auto simp: allowed_def)
  with b d s show ?thesis by (auto simp: str_exn_def)
qed

subsection \<open>Storage failures reach the \<open>except\<close> clause\<close>

text \<open>
  No call of a handler hides a storage failure: the exception of the failure is what
  the \<open>try\<close> body raises, and the \<open>except Exception\<close> clause turns it into the 500.
\<close>

lemma reports_return: "reports_failures (db_return x)"
  by (simp add: reports_failures_def db_return_def)

lemma reports_raise: "reports_failures (db_raise e)"
  by (simp add: reports_failures_def db_raise_def)

lemma reports_bind:
  assumes "reports_failures m" "\<And>x. reports_failures (f x)"
  shows "reports_failures (db_bind m f)"
  unfolding reports_failures_def
proof (intro allI impI)
  fix s r s' assume a: "db_bind m f s = (r, s')"
  obtain r1 s1 where m: "m s = (r1, s1)" by (cases "m s")
  from assms(1) m obtain new1 where f1: "fault s1 = fault s" and c1: "calls s1 = calls s @ new1"
    and k1: "\<forall>k\<in>set new1. \<forall>msg. fault s k = Some msg \<longrightarrow> r1 = Inl (Exception msg)"
    unfolding reports_failures_def by blast
  show "fault s' = fault s \<and>
        (\<exists>new. calls s' = calls s @ new \<and>
           (\<forall>k\<in>set new. \<forall>msg. fault s k = Some msg \<longrightarrow> r = Inl (Exception msg)))"
  proof (cases r1)
    case (Inl e)
    with a m have "r = Inl e" "s' = s1" by (simp_all add: db_bind_def)
    with f1 c1 k1 Inl show ?thesis by auto
  next
    case (Inr x)
    with a m have fx: "f x s1 = (r, s')" by (simp add: db_bind_def)
    from assms(2)[of x] fx obtain new2 where f2: "fault s' = fault s1" and c2: "calls s' = calls s1 @ new2"
      and k2: "\<forall>k\<in>set new2. \<forall>msg. fault s1 k = Some msg \<longrightarrow> r = Inl (Exception msg)"
      unfolding reports_failures_def by blast
    from k1 Inr have n1: "\<forall>k\<in>set new1. fault s k = None" by (metis Inl_Inr_False option.exhaust)
    have "calls s' = calls s @ (new1 @ new2)" using c1 c2 by simp
    moreover have "\<forall>k\<in>set (new1 @ new2). \<forall>msg. fault s k = Some msg \<longrightarrow> r = Inl (Exception msg)"
      using n1 k2 f1 by auto
    ultimately show ?thesis using f1 f2 by metis
  qed
qed

lemma reports_op:
  assumes "\<And>s r s'. m s = (r, s') \<Longrightarrow> calls s' = calls s \<and> fault s' = fault s"
  shows "reports_failures (db_op k m)"
  unfolding reports_failures_def
proof (intro allI impI)
  fix s r s' assume a: "db_op k m s = (r, s')"
  show "fault s' = fault s \<and>
        (\<exists>new. calls s' = calls s @ new \<and>
           (\<forall>k\<in>set new. \<forall>msg. fault s k = Some msg \<longrightarrow> r = Inl (Exception msg)))"
  proof (cases "fault s k")
    case None
    with a have "m (s\<lparr>calls := calls s @ [k]\<rparr>) = (r, s')" by (simp add: db_op_def Let_def)
    from assms[OF this] have "calls s' = calls s @ [k]" "fault s' = fault s" by simp_all
    with None show ?thesis by auto
  next
    case (Some msg)
    with a have "r = Inl (Exception msg)" "s' = s\<lparr>calls := calls s @ [k]\<rparr>" by (simp_all add: db_op_def Let_def)
    with Some show ?thesis by auto
  qed
qed

lemma reports_quiet:
  assumes "\<And>s r s'. m s = (r, s') \<Longrightarrow> calls s' = calls s \<and> fault s' = fault s"
  shows "reports_failures m"
  unfolding reports_failures_def using assms by auto

lemma reports_mapM: "(\<And>x. reports_failures (f x)) \<Longrightarrow> reports_failures (db_mapM f xs)"
  by (induction xs) (auto intro!: reports_bind reports_return)

lemma reports_validated: "reports_failures (validated cls r)"
  by (rule reports_quiet) (auto simp: validated_def db_raise_def db_return_def split: sum.splits)

lemma reports_assign: "reports_failures (assign ch)"
  by (rule reports_quiet) (auto simp: assign_def)

lemma reports_get_Post: "reports_failures (db_get_Post i)"
  unfolding db_get_Post_def by (rule reports_op) (auto simp: db_params_def split: if_splits)

lemma reports_get_Comment: "reports_failures (db_get_Comment i)"
  unfolding db_get_Comment_def by (rule reports_op) (auto simp: db_params_def split: if_splits)

lemma reports_add: "reports_failures (db_add ch)"
  unfolding db_add_def by (rule reports_op) auto

lemma reports_delete: "reports_failures (db_delete ch)"
  unfolding db_delete_def by (rule reports_op) auto

lemma reports_commit: "reports_failures db_commit"
  unfolding db_commit_def by (rule reports_op) (auto split: sum.splits)

lemma reports_refresh_Post: "reports_failures (db_refresh_Post key)"
  unfolding db_refresh_Post_def by (rule reports_op) (auto split: option.splits)

lemma reports_refresh_Comment: "reports_failures (db_refresh_Comment key)"
  unfolding db_refresh_Comment_def by (rule reports_op) (auto split: option.splits)

lemma reports_exec_count_Post: "reports_failures db_exec_count_Post"
  unfolding db_exec_count_Post_def by (rule reports_op) auto

lemma reports_exec_select_Post: "reports_failures (db_exec_select_Post offset limit)"
  unfolding db_exec_select_Post_def by (rule reports_op) (auto simp: db_params_def split: if_splits)

lemma reports_exec_count_Comment: "reports_failures (db_exec_count_Comment post_id)"
  unfolding db_exec_count_Comment_def by (rule reports_op) (auto simp: db_params_def split: if_splits)

lemma reports_exec_select_Comment: "reports_failures (db_exec_select_Comment post_id offset limit)"
  unfolding db_exec_select_Comment_def by (rule reports_op) (auto simp: db_params_def split: if_splits)

lemma reports_Post_comments: "reports_failures (Post_comments p)"
  unfolding Post_comments_def by (rule reports_op) auto

lemma reports_PostResponse_of: "reports_failures (PostResponse_of p)"
  unfolding PostResponse_of_def by (intro reports_bind reports_Post_comments reports_validated)

lemma reports_CommentResponse_of: "reports_failures (CommentResponse_of c)"
  unfolding CommentResponse_of_def by (rule reports_validated)

lemmas reports_prims = reports_return reports_raise reports_bind reports_mapM reports_validated reports_assign
  reports_get_Post reports_get_Comment reports_add reports_delete reports_commit reports_refresh_Post
  reports_refresh_Comment reports_exec_count_Post reports_exec_select_Post reports_exec_count_Comment
  reports_exec_select_Comment reports_PostResponse_of reports_CommentResponse_of

lemma create_post_body_reports: "reports_failures (create_post_body post_data now1 now2)"
  unfolding create_post_body_def by (intro reports_prims)

lemma get_posts_body_reports: "reports_failures (get_posts_body page limit)"
  unfolding get_posts_body_def Let_def by (intro reports_prims)

lemma get_post_body_reports: "reports_failures (get_post_body post_id)"
  unfolding get_post_body_def by (auto intro!: reports_prims split: option.splits)

lemma delete_post_body_reports: "reports_failures (delete_post_body post_id)"
  unfolding delete_post_body_def by (auto intro!: reports_prims split: option.splits)

lemma get_comments_body_reports: "reports_failures (get_comments_body post_id page limit)"
  unfolding get_comments_body_def Let_def by (auto intro!: reports_prims split: option.splits)

lemma create_comment_body_reports: "reports_failures (create_comment_body post_id comment_data now1 now2)"
  unfolding create_comment_body_def by (auto intro!: reports_prims split: option.splits)

lemma get_comment_body_reports: "reports_failures (get_comment_body comment_id)"
  unfolding get_comment_body_def by (auto intro!: reports_prims split: option.splits)

lemma update_comment_body_reports: "reports_failures (update_comment_body comment_id update_data now)"
  unfolding update_comment_body_def by (auto intro!: reports_prims split: option.splits)

lemma delete_comment_body_reports: "reports_failures (delete_comment_body comment_id)"
  unfolding delete_comment_body_def by (auto intro!: reports_prims split: option.splits)

lemma storage_failed_raises:
  assumes "reports_failures body" "body s = (r0, s0)" "storage_failed s s0 msg"
  shows "r0 = Inl (Exception msg)"
proof -
  from assms(1,2) obtain new where c: "calls s0 = calls s @ new"
    and k: "\<forall>k\<in>set new. \<forall>msg. fault s k = Some msg \<longrightarrow> r0 = Inl (Exception msg)"
    unfolding reports_failures_def by blast
  from assms(3) c obtain k where "k \<in> set new" "fault s k = Some msg"
    by (auto simp: storage_failed_def list_ex_iff)
  with k show ?thesis by blast
qed

lemma try_except_caught:
  "body s = (Inl (Exception msg), s0) \<Longrightarrow>
   try_except rb prefix body s =
     (Inl (HTTPException 500 (prefix @ msg)),
      if rb then s0\<lparr>calls := calls s0 @ [Rollback], pending := []\<rparr> else s0)"
  by (simp add: try_except_def except_Exception_def db_rollback_def str_exn_def)

lemma try_except_reraise_caught:
  "body s = (Inl (Exception msg), s0) \<Longrightarrow>
   try_except_reraise rb prefix body s =
     (Inl (HTTPException 500 (prefix @ msg)),
      if rb then s0\<lparr>calls := calls s0 @ [Rollback], pending := []\<rparr> else s0)"
  by (simp add: try_except_reraise_def except_Exception_def db_rollback_def str_exn_def)

lemma try_except_500_iff:
  assumes "raises_only (allowed {}) body"
  shows "try_except rb prefix body s = (Inl (HTTPException 500 detail), s') \<longleftrightarrow>
     (\<exists>msg s0. body s = (Inl (Exception msg), s0) \<and> detail = prefix @ msg \<and>
        s' = (if rb then s0\<lparr>calls := calls s0 @ [Rollback], pending := []\<rparr> else s0))"
  using try_except_500_raw[OF assms] try_except_caught[of body s _ _ rb prefix] by fastforce

lemma try_except_reraise_500_iff:
  assumes "raises_only (allowed C) body" "500 \<notin> C"
  shows "try_except_reraise rb prefix body s = (Inl (HTTPException 500 detail), s') \<longleftrightarrow>
     (\<exists>msg s0. body s = (Inl (Exception msg), s0) \<and> detail = prefix @ msg \<and>
        s' = (if rb then s0\<lparr>calls := calls s0 @ [Rollback], pending := []\<rparr> else s0))"
  using try_except_reraise_500[OF assms] try_except_reraise_caught[of body s _ _ rb prefix] by fastforce

lemma try_except_failed:
  assumes "reports_failures body" "storage_failed s (snd (body s)) msg"
  shows "try_except rb prefix body s =
     (Inl (HTTPException 500 (prefix @ msg)),
      if rb then (snd (body s))\<lparr>calls := calls (snd (body s)) @ [Rollback], pending := []\<rparr> else snd (body s))"
proof -
  obtain r0 s0 where b: "body s = (r0, s0)" by (cases "body s")
  with assms have "r0 = Inl (Exception msg)" by (auto dest: storage_failed_raises)
  with b show ?thesis by (simp add: try_except_caught)
qed

lemma try_except_reraise_failed:
  assumes "reports_failures body" "storage_failed s (snd (body s)) msg"
  shows "try_except_reraise rb prefix body s =
     (Inl (HTTPException 500 (prefix @ msg)),
      if rb then (snd (body s))\<lparr>calls := calls (snd (body s)) @ [Rollback], pending := []\<rparr> else snd (body s))"
proof -
  obtain r0 s0 where b: "body s = (r0, s0)" by (cases "body s")
  with assms have "r0 = Inl (Exception msg)" by (auto dest: storage_failed_raises)
  with b show ?thesis by (simp add: try_except_reraise_caught)
qed

lemma get_posts_500_iff:
  "get_posts page limit s = (Inl (HTTPException 500 detail), s') \<longleftrightarrow>
     1 \<le> page \<and> 1 \<le> limit \<and> limit \<le> 100 \<and>
     (\<exists>msg s0. get_posts_body page limit s = (Inl (Exception msg), s0) \<and>
        detail = ''Failed to fetch posts: '' @ msg \<and> s' = s0)"
  using try_except_500_iff[OF get_posts_body_raises, where rb = False and prefix = "''Failed to fetch posts: ''"
      and s = s and detail = detail and s' = s' and page1 = page and limit1 = limit]
  by (auto simp: get_posts_def db_raise_def)

lemma get_comments_500_iff:
  "get_comments post_id page limit s = (Inl (HTTPException 500 detail), s') \<longleftrightarrow>
     1 \<le> page \<and> 1 \<le> limit \<and> limit \<le> 100 \<and>
     (\<exists>msg s0. get_comments_body post_id page limit s = (Inl (Exception msg), s0) \<and>
        detail = ''Failed to fetch comments: '' @ msg \<and> s' = s0)"
  using try_except_reraise_500_iff[OF get_comments_body_raises, where rb = False
      and prefix = "''Failed to fetch comments: ''" and s = s and detail = detail and s' = s'
      and post_id1 = post_id and page1 = page and limit1 = limit]
  by (auto simp: get_comments_def db_raise_def)

subsection \<open>What a handler can do to the database\<close>

lemma create_post_body_tables:
  assumes "create_post_body post_data now1 now2 s = (r, s')" "pending s = []"
  shows "comments (tables s') = comments (tables s) \<and> pending s' = [] \<or> pending s' \<noteq> [] \<and> tables s' = tables s"
  using assms unfolding create_post_body_def
  by (auto elim!: db_bindE dest!: db_addD db_commitD db_refresh_PostD PostResponse_ofD
      simp: same_def flush_single Let_def)

lemma create_post_body_posts:
  assumes "create_post_body post_data now1 now2 s = (r, s')" "pending s = []"
  shows "tables s' = tables s \<or>
     tables s' = (tables s)\<lparr>posts := posts (tables s) @
        [\<lparr>Post_id = next_id (map Post_id (posts (tables s))), Post_title = PostCreate_title post_data,
          Post_content = PostCreate_content post_data, Post_author = Some (PostCreate_author post_data),
          Post_created_at = now1, Post_updated_at = now2\<rparr>]\<rparr>"
  using assms unfolding create_post_body_def
  by (auto elim!: db_bindE dest!: db_addD db_commitD db_refresh_PostD PostResponse_ofD
      simp: same_def flush_single Let_def)

lemma create_post_body_Inr:
  assumes "create_post_body post_data now1 now2 s = (Inr r, s')"
  shows "\<exists>p. r = PostResponse_row (comments (tables s')) p"
proof -
  from assms obtain p s1 where 1: "PostResponse_of p s1 = (Inr r, s')"
    unfolding create_post_body_def
    by (auto elim!: db_bindE)
  from PostResponse_ofD[OF 1] have "r = PostResponse_row (comments (tables s')) p"
    by (auto simp: same_def)
  then show ?thesis ..
qed

lemma delete_post_body_tables:
  assumes "delete_post_body post_id s = (r, s')" "pending s = []"
  shows "comments (tables s') = comments (tables s)"
  using assms unfolding delete_post_body_def
  by (auto elim!: db_bindE dest!: db_get_PostD db_deleteD db_commitD db_returnD db_raiseD
      simp: same_def flush_single Let_def split: option.splits if_splits)

lemma delete_post_body_posts:
  assumes "delete_post_body post_id s = (r, s')" "pending s = []"
  shows "tables s' = tables s \<or>
     tables s' = (tables s)\<lparr>posts := filter (\<lambda>p. Post_id p \<noteq> post_id) (posts (tables s))\<rparr>"
  using assms unfolding delete_post_body_def
  by (auto elim!: db_bindE dest!: db_get_PostD db_deleteD db_commitD db_returnD db_raiseD
      simp: same_def flush_single Let_def find_Some_iff split: option.splits if_splits)

lemma get_post_body_same:
  "get_post_body post_id s = (r, s') \<Longrightarrow> same s s'"
  unfolding get_post_body_def
  by (auto elim!: db_bindE dest!: db_get_PostD PostResponse_ofD db_raiseD
      simp: same_def split: option.splits)

lemma get_post_body_Inr:
  assumes "get_post_body post_id s = (Inr r, s')"
  shows "\<exists>p. r = PostResponse_row (comments (tables s')) p"
proof -
  from assms obtain p s1 where 1: "PostResponse_of p s1 = (Inr r, s')"
    unfolding get_post_body_def
    by (auto elim!: db_bindE dest!: db_raiseD split: option.splits)
  from PostResponse_ofD[OF 1] have "r = PostResponse_row (comments (tables s')) p"
    by (auto simp: same_def)
  then show ?thesis ..
qed

lemma get_comment_body_same:
  "get_comment_body comment_id s = (r, s') \<Longrightarrow> same s s'"
  unfolding get_comment_body_def
  by (auto elim!: db_bindE dest!: db_get_CommentD CommentResponse_ofD db_raiseD
      simp: same_def split: option.splits)

lemma get_posts_body_same:
  "get_posts_body page limit s = (r, s') \<Longrightarrow> same s s'"
  unfolding get_posts_body_def Let_def
  by (auto elim!: db_bindE dest!: db_exec_count_PostD db_exec_select_PostD db_returnD
      mapM_PostResponse_of_same
      simp: same_def)

lemma mapM_PostResponse_of_Inr:
  "db_mapM PostResponse_of ps s = (Inr rs, s') \<Longrightarrow> rs = map (PostResponse_row (comments (tables s))) ps"
proof (induction ps arbitrary: s rs s')
  case Nil
  then show ?case by (auto dest!: db_returnD)
next
  case (Cons p ps)
  from Cons.prems obtain r s1 rs' where
    1: "PostResponse_of p s = (Inr r, s1)" and 2: "db_mapM PostResponse_of ps s1 = (Inr rs', s')"
    and 3: "rs = r # rs'"
    by (auto elim!: db_bindE dest!: db_returnD)
  from PostResponse_ofD[OF 1] have r: "r = PostResponse_row (comments (tables s)) p" and t: "tables s1 = tables s"
    by (auto simp: same_def)
  from Cons.IH[OF 2] t have "rs' = map (PostResponse_row (comments (tables s))) ps" by simp
  with r 3 show ?case by simp
qed

lemma get_posts_body_Inr:
  assumes "get_posts_body page limit s = (Inr r, s')"
  shows "\<exists>ps. PostListResponse_posts r = map (PostResponse_row (comments (tables s'))) ps"
proof -
  from assms obtain ps s1 rs where
    1: "db_mapM PostResponse_of ps s1 = (Inr rs, s')" and 2: "PostListResponse_posts r = rs"
    unfolding get_posts_body_def Let_def
    by (auto elim!: db_bindE dest!: db_returnD)
  from mapM_PostResponse_of_same[OF 1] have "tables s' = tables s1" by (simp add: same_def)
  with mapM_PostResponse_of_Inr[OF 1] 2 show ?thesis by auto
qed

lemma get_comments_body_same:
  "get_comments_body post_id page limit s = (r, s') \<Longrightarrow> same s s'"
  unfolding get_comments_body_def Let_def
  by (auto elim!: db_bindE dest!: db_get_PostD db_exec_count_CommentD db_exec_select_CommentD db_returnD db_raiseD
      mapM_CommentResponse_of_same
      simp: same_def split: option.splits)

lemma update_comment_body_tables:
  assumes "update_comment_body comment_id comment_data now s = (r, s')" "pending s = []"
  shows "tables s' = tables s \<or>
     tables s' = (tables s)\<lparr>comments :=
        map (set_content comment_id (CommentUpdate_content comment_data) now) (comments (tables s))\<rparr>"
  using assms unfolding update_comment_body_def
  by (auto elim!: db_bindE dest!: db_get_CommentD assignD db_commitD db_refresh_CommentD CommentResponse_ofD db_raiseD
      simp: same_def flush_single Let_def find_Some_iff split: option.splits)


lemma delete_comment_body_tables:
  assumes "delete_comment_body comment_id s = (r, s')" "pending s = []"
  shows "tables s' = tables s \<or>
     tables s' = (tables s)\<lparr>comments :=
        map (null_parent comment_id) (filter (\<lambda>c. Comment_id c \<noteq> comment_id) (comments (tables s)))\<rparr>"
  using assms unfolding delete_comment_body_def
  by (auto elim!: db_bindE dest!: db_get_CommentD db_deleteD db_commitD db_returnD db_raiseD
      simp: same_def flush_single Let_def find_Some_iff split: option.splits)

lemma create_comment_body_tables:
  assumes "create_comment_body post_id comment_data now1 now2 s = (r, s')" "pending s = []"
  shows "tables s' = tables s \<or>
   tables s' =
     (tables s)\<lparr>comments := comments (tables s) @
        [\<lparr>Comment_id = next_id (map Comment_id (comments (tables s))),
          Comment_content = CommentCreate_content comment_data,
          Comment_author = Some (CommentCreate_author comment_data),
          Comment_post_id = post_id,
          Comment_parent_comment_id = CommentCreate_parent_comment_id comment_data,
          Comment_created_at = now1, Comment_updated_at = now2\<rparr>]\<rparr> \<and>
   (case CommentCreate_parent_comment_id comment_data of
      None \<Rightarrow> True
    | Some parent_id \<Rightarrow>
        (case find (\<lambda>c. Comment_id c = parent_id) (comments (tables s)) of
           None \<Rightarrow> False
         | Some pc \<Rightarrow> Comment_post_id pc = post_id))"
  using assms unfolding create_comment_body_def
  by (auto elim!: db_bindE dest!: db_get_PostD db_get_CommentD db_addD db_commitD db_refresh_CommentD
      CommentResponse_ofD db_returnD db_raiseD simp: same_def flush_single Let_def split: option.splits if_splits)

subsection \<open>What a request can do to the database\<close>

lemma POST_posts_comments: "comments (snd (POST_posts b now1 now2 f d)) = comments d"
proof (cases "PostCreate_validate b")
  case (Inl es)
  then show ?thesis by (simp add: POST_posts_def)
next
  case (Inr post_data)
  obtain r s' where h: "create_post post_data now1 now2 (get_db f d) = (r, s')" by fastforce
  from try_except_tables[OF h[unfolded create_post_def]] obtain r0 s0 where
    b: "create_post_body post_data now1 now2 (get_db f d) = (r0, s0)" and t: "tables s' = tables s0" by blast
  from create_post_body_tables[OF b] have "comments (tables s0) = comments d"
    by (auto simp: get_db_simps)
  with t h Inr show ?thesis by (simp add: POST_posts_def snd_respond)
qed

lemma POST_posts_effect:
  "snd (POST_posts b now1 now2 f d) = d \<or>
   (\<exists>p. snd (POST_posts b now1 now2 f d) = d\<lparr>posts := posts d @ [p]\<rparr> \<and> Post_valid p)"
proof (cases "PostCreate_validate b")
  case (Inl es)
  then show ?thesis by (simp add: POST_posts_def)
next
  case (Inr post_data)
  then obtain t x a where v: "strip t \<noteq> []" "strip x \<noteq> []"
    "post_data = \<lparr>PostCreate_title = strip t, PostCreate_content = strip x, PostCreate_author = a\<rparr>"
    unfolding PostCreate_validate_Inr_iff by blast
  obtain r s' where h: "create_post post_data now1 now2 (get_db f d) = (r, s')" by fastforce
  from try_except_tables[OF h[unfolded create_post_def]] obtain r0 s0 where
    b: "create_post_body post_data now1 now2 (get_db f d) = (r0, s0)" and t: "tables s' = tables s0" by blast
  have s: "snd (POST_posts b now1 now2 f d) = tables s0"
    using Inr h t by (simp add: POST_posts_def snd_respond)
  from create_post_body_posts[OF b] v show ?thesis
    unfolding s by (auto simp: get_db_simps Post_valid_def strip_strip)
qed

lemma GET_posts_snd: "snd (GET_posts page limit f d) = d"
proof -
  obtain r s' where h: "get_posts page limit (get_db f d) = (r, s')" by fastforce
  have "tables s' = d"
  proof (cases "page < 1 \<or> limit < 1 \<or> limit > 100")
    case True
    with h show ?thesis by (auto simp: get_posts_def get_db_simps db_raise_def split: if_splits)
  next
    case False
    with h have "try_except False ''Failed to fetch posts: '' (get_posts_body page limit) (get_db f d) = (r, s')"
      by (simp add: get_posts_def)
    from try_except_tables[OF this] show ?thesis
      by (auto dest!: get_posts_body_same simp: same_def get_db_simps)
  qed
  with h show ?thesis by (simp add: GET_posts_def snd_respond)
qed

lemma GET_post_snd: "snd (GET_post post_id f d) = d"
proof -
  obtain r s' where h: "get_post post_id (get_db f d) = (r, s')" by fastforce
  from try_except_reraise_tables[OF h[unfolded get_post_def]] have "tables s' = d"
    by (auto dest!: get_post_body_same simp: same_def get_db_simps)
  with h show ?thesis by (simp add: GET_post_def snd_respond)
qed

lemma GET_comment_snd: "snd (GET_comment comment_id f d) = d"
proof -
  obtain r s' where h: "get_comment comment_id (get_db f d) = (r, s')" by fastforce
  from try_except_reraise_tables[OF h[unfolded get_comment_def]] have "tables s' = d"
    by (auto dest!: get_comment_body_same simp: same_def get_db_simps)
  with h show ?thesis by (simp add: GET_comment_def snd_respond)
qed

lemma GET_post_comments_snd: "snd (GET_post_comments post_id page limit f d) = d"
proof -
  obtain r s' where h: "get_comments post_id page limit (get_db f d) = (r, s')" by fastforce
  have "tables s' = d"
  proof (cases "page < 1 \<or> limit < 1 \<or> limit > 100")
    case True
    with h show ?thesis by (auto simp: get_comments_def get_db_simps db_raise_def split: if_splits)
  next
    case False
    with h have "try_except_reraise False ''Failed to fetch comments: '' (get_comments_body post_id page limit)
        (get_db f d) = (r, s')"
      by (simp add: get_comments_def)
    from try_except_reraise_tables[OF this] show ?thesis
      by (auto dest!: get_comments_body_same simp: same_def get_db_simps)
  qed
  with h show ?thesis by (simp add: GET_post_comments_def snd_respond)
qed

lemma DELETE_post_comments: "comments (snd (DELETE_post post_id f d)) = comments d"
proof -
  obtain r s' where h: "delete_post post_id (get_db f d) = (r, s')" by fastforce
  from try_except_reraise_tables[OF h[unfolded delete_post_def]] obtain r0 s0 where
    b: "delete_post_body post_id (get_db f d) = (r0, s0)" and t: "tables s' = tables s0" by blast
  from delete_post_body_tables[OF b] t h show ?thesis
    by (simp add: DELETE_post_def snd_respond get_db_simps)
qed

lemma DELETE_post_effect:
  "snd (DELETE_post post_id f d) = d \<or>
   snd (DELETE_post post_id f d) = d\<lparr>posts := filter (\<lambda>p. Post_id p \<noteq> post_id) (posts d)\<rparr>"
proof -
  obtain r s' where h: "delete_post post_id (get_db f d) = (r, s')" by fastforce
  from try_except_reraise_tables[OF h[unfolded delete_post_def]] obtain r0 s0 where
    b: "delete_post_body post_id (get_db f d) = (r0, s0)" and t: "tables s' = tables s0" by blast
  have s: "snd (DELETE_post post_id f d) = tables s0"
    using h t by (simp add: DELETE_post_def snd_respond)
  from delete_post_body_posts[OF b] show ?thesis
    unfolding s by (auto simp: get_db_simps)
qed

lemma POST_post_comments_effect:
  "snd (POST_post_comments post_id cb now1 now2 f d) = d \<or>
   (\<exists>c. snd (POST_post_comments post_id cb now1 now2 f d) = d\<lparr>comments := comments d @ [c]\<rparr> \<and>
        Comment_id c = next_id (map Comment_id (comments d)) \<and> parent_ok (comments d) c)"
proof (cases "CommentCreate_validate cb")
  case (Inl es)
  then show ?thesis by (simp add: POST_post_comments_def)
next
  case (Inr comment_data)
  obtain r s' where h: "create_comment post_id comment_data now1 now2 (get_db f d) = (r, s')" by fastforce
  from try_except_reraise_tables[OF h[unfolded create_comment_def]] obtain r0 s0 where
    b: "create_comment_body post_id comment_data now1 now2 (get_db f d) = (r0, s0)"
    and t: "tables s' = tables s0" by blast
  have s: "snd (POST_post_comments post_id cb now1 now2 f d) = tables s0"
    using Inr h t by (simp add: POST_post_comments_def snd_respond)
  from create_comment_body_tables[OF b] show ?thesis
    unfolding s by (auto simp: get_db_simps parent_ok_def split: option.splits)
qed

lemma POST_post_comments_valid:
  "snd (POST_post_comments post_id cb now1 now2 f d) = d \<or>
   (\<exists>c. snd (POST_post_comments post_id cb now1 now2 f d) = d\<lparr>comments := comments d @ [c]\<rparr> \<and>
        Comment_valid c)"
proof (cases "CommentCreate_validate cb")
  case (Inl es)
  then show ?thesis by (simp add: POST_post_comments_def)
next
  case (Inr comment_data)
  then obtain v a where v: "strip v \<noteq> []" "strip a \<noteq> []"
    "CommentCreate_content comment_data = strip v" "CommentCreate_author comment_data = strip a"
    unfolding CommentCreate_validate_Inr_iff by auto
  obtain r s' where h: "create_comment post_id comment_data now1 now2 (get_db f d) = (r, s')" by fastforce
  from try_except_reraise_tables[OF h[unfolded create_comment_def]] obtain r0 s0 where
    b: "create_comment_body post_id comment_data now1 now2 (get_db f d) = (r0, s0)"
    and t: "tables s' = tables s0" by blast
  have s: "snd (POST_post_comments post_id cb now1 now2 f d) = tables s0"
    using Inr h t by (simp add: POST_post_comments_def snd_respond)
  from create_comment_body_tables[OF b] v show ?thesis
    unfolding s by (auto simp: get_db_simps Comment_valid_def strip_strip)
qed

lemma PUT_comment_effect:
  "snd (PUT_comment comment_id ub now f d) = d \<or>
   (\<exists>content. snd (PUT_comment comment_id ub now f d) =
      d\<lparr>comments := map (set_content comment_id content now) (comments d)\<rparr>)"
proof (cases "CommentUpdate_validate ub")
  case (Inl es)
  then show ?thesis by (simp add: PUT_comment_def)
next
  case (Inr comment_data)
  obtain r s' where h: "update_comment comment_id comment_data now (get_db f d) = (r, s')" by fastforce
  from try_except_reraise_tables[OF h[unfolded update_comment_def]] obtain r0 s0 where
    b: "update_comment_body comment_id comment_data now (get_db f d) = (r0, s0)"
    and t: "tables s' = tables s0" by blast
  have s: "snd (PUT_comment comment_id ub now f d) = tables s0"
    using Inr h t by (simp add: PUT_comment_def snd_respond)
  from update_comment_body_tables[OF b] show ?thesis
    unfolding s by (auto simp: get_db_simps)
qed

lemma PUT_comment_valid:
  "snd (PUT_comment comment_id ub now f d) = d \<or>
   (\<exists>v. strip v \<noteq> [] \<and> snd (PUT_comment comment_id ub now f d) =
      d\<lparr>comments := map (set_content comment_id (strip v) now) (comments d)\<rparr>)"
proof (cases "CommentUpdate_validate ub")
  case (Inl es)
  then show ?thesis by (simp add: PUT_comment_def)
next
  case (Inr comment_data)
  then obtain v where v: "strip v \<noteq> []" "comment_data = \<lparr>CommentUpdate_content = strip v\<rparr>"
    unfolding CommentUpdate_validate_Inr_iff by blast
  obtain r s' where h: "update_comment comment_id comment_data now (get_db f d) = (r, s')" by fastforce
  from try_except_reraise_tables[OF h[unfolded update_comment_def]] obtain r0 s0 where
    b: "update_comment_body comment_id comment_data now (get_db f d) = (r0, s0)"
    and t: "tables s' = tables s0" by blast
  have s: "snd (PUT_comment comment_id ub now f d) = tables s0"
    using Inr h t by (simp add: PUT_comment_def snd_respond)
  from update_comment_body_tables[OF b] v show ?thesis
    unfolding s by (auto simp: get_db_simps)
qed

lemma DELETE_comment_effect:
  "snd (DELETE_comment comment_id f d) = d \<or>
   snd (DELETE_comment comment_id f d) =
     d\<lparr>comments := map (null_parent comment_id) (filter (\<lambda>c. Comment_id c \<noteq> comment_id) (comments d))\<rparr>"
proof -
  obtain r s' where h: "delete_comment comment_id (get_db f d) = (r, s')" by fastforce
  from try_except_reraise_tables[OF h[unfolded delete_comment_def]] obtain r0 s0 where
    b: "delete_comment_body comment_id (get_db f d) = (r0, s0)"
    and t: "tables s' = tables s0" by blast
  have s: "snd (DELETE_comment comment_id f d) = tables s0"
    using h t by (simp add: DELETE_comment_def snd_respond)
  from delete_comment_body_tables[OF b] show ?thesis
    unfolding s by (auto simp: get_db_simps)
qed

subsection \<open>The databases the operations can reach\<close>

lemma parents_ok_append:
  assumes "parents_ok cs" "parent_ok cs c"
  shows "parents_ok (cs @ [c])"
proof -
  have "parent_ok (cs @ [c]) x" if "parent_ok cs x" for x
    using that by (auto simp: parent_ok_def find_append split: option.splits)
  with assms show ?thesis by (auto simp: parents_ok_def list_all_iff)
qed

lemma parents_ok_set_content:
  assumes "parents_ok cs"
  shows "parents_ok (map (set_content i content t) cs)"
proof -
  have "parent_ok (map (set_content i content t) cs) (set_content i content t x)" if "parent_ok cs x" for x
    using that
    by (auto simp: parent_ok_def set_content_fields find_map_key[of Comment_id, OF set_content_fields(1)]
        split: option.splits)
  with assms show ?thesis by (auto simp: parents_ok_def list_all_iff)
qed

lemma parents_ok_delete:
  assumes "parents_ok cs"
  shows "parents_ok (map (null_parent i) (filter (\<lambda>c. Comment_id c \<noteq> i) cs))"
proof -
  let ?cs' = "map (null_parent i) (filter (\<lambda>c. Comment_id c \<noteq> i) cs)"
  have "parent_ok ?cs' (null_parent i x)" if "parent_ok cs x" for x
  proof (cases "Comment_parent_comment_id (null_parent i x)")
    case None
    then show ?thesis by (simp add: parent_ok_def)
  next
    case (Some k)
    then have k: "Comment_parent_comment_id x = Some k" "k \<noteq> i"
      by (auto simp: null_parent_def split: if_splits)
    with that obtain q where q: "find (\<lambda>q. Comment_id q = k) cs = Some q" "Comment_post_id q = Comment_post_id x"
      by (auto simp: parent_ok_def split: option.splits)
    have "find (\<lambda>q. Comment_id q = k) ?cs' = Some (null_parent i q)"
      using q(1) k(2)
      by (simp add: find_map_key[of Comment_id, OF null_parent_fields(1)] find_filter_other[of k i Comment_id])
    then show ?thesis using Some q(2) by (simp add: parent_ok_def null_parent_fields)
  qed
  with assms show ?thesis by (auto simp: parents_ok_def list_all_iff)
qed

lemma distinct_ids_append:
  "distinct (map Comment_id cs) \<Longrightarrow> Comment_id c = next_id (map Comment_id cs) \<Longrightarrow>
     distinct (map Comment_id (cs @ [c]))"
  using next_id_fresh[of "map Comment_id cs"] by simp

lemma map_id_set_content: "map Comment_id (map (set_content i content t) cs) = map Comment_id cs"
  by (simp add: set_content_fields comp_def)

lemma distinct_ids_delete:
  "distinct (map Comment_id cs) \<Longrightarrow>
     distinct (map Comment_id (map (null_parent i) (filter (\<lambda>c. Comment_id c \<noteq> i) cs)))"
  by (simp add: null_parent_fields comp_def distinct_map_filter)

lemma reachable_inv: "reachable d \<Longrightarrow> comments_inv (comments d)"
proof (induction rule: reachable.induct)
  case empty
  then show ?case by (simp add: comments_inv_def parents_ok_def)
next
  case (create_post d b now1 now2 f)
  then show ?case by (simp add: POST_posts_comments)
next
  case (get_posts d page limit f)
  then show ?case by (simp add: GET_posts_snd)
next
  case (get_post d post_id f)
  then show ?case by (simp add: GET_post_snd)
next
  case (delete_post d post_id f)
  then show ?case by (simp add: DELETE_post_comments)
next
  case (get_comments d post_id page limit f)
  then show ?case by (simp add: GET_post_comments_snd)
next
  case (create_comment d post_id cb now1 now2 f)
  with POST_post_comments_effect[of post_id cb now1 now2 f d] show ?case
    using distinct_ids_append[of "comments d"]
    by (auto simp: comments_inv_def simp del: map_append distinct_append intro: parents_ok_append)
next
  case (get_comment d comment_id f)
  then show ?case by (simp add: GET_comment_snd)
next
  case (update_comment d comment_id ub now f)
  with PUT_comment_effect[of comment_id ub now f d] show ?case
    by (auto simp: comments_inv_def map_id_set_content simp del: map_map intro: parents_ok_set_content)
next
  case (delete_comment d comment_id f)
  with DELETE_comment_effect[of comment_id f d] show ?case
    using distinct_ids_delete[of "comments d" comment_id]
    by (auto simp: comments_inv_def simp del: map_map intro: parents_ok_delete)
qed

lemma parents_okD:
  assumes "parents_ok cs" "c \<in> set cs" "Comment_parent_comment_id c = Some i"
  shows "\<exists>q\<in>set cs. Comment_id q = i \<and> Comment_post_id q = Comment_post_id c"
proof -
  from assms(1,2) have "parent_ok cs c" by (simp add: parents_ok_def list_all_iff)
  with assms(3) obtain q where q: "find (\<lambda>q. Comment_id q = i) cs = Some q" "Comment_post_id q = Comment_post_id c"
    by (auto simp: parent_ok_def split: option.splits)
  from q(1) have "q \<in> set cs" "Comment_id q = i" by (auto simp: find_Some_iff)
  with q(2) show ?thesis by blast
qed

lemma Comment_valid_set_content:
  "strip v \<noteq> [] \<Longrightarrow> Comment_valid c \<Longrightarrow> Comment_valid (set_content i (strip v) t c)"
  by (simp add: Comment_valid_def set_content_def strip_strip)

lemma Comment_valid_null_parent: "Comment_valid c \<Longrightarrow> Comment_valid (null_parent i c)"
  by (simp add: Comment_valid_def null_parent_def)

lemma reachable_rows_valid: "reachable d \<Longrightarrow> rows_valid d"
proof (induction rule: reachable.induct)
  case empty
  then show ?case by (simp add: rows_valid_def)
next
  case (create_post d b now1 now2 f)
  with POST_posts_effect[of b now1 now2 f d] show ?case
    by (auto simp: rows_valid_def)
next
  case (get_posts d page limit f)
  then show ?case by (simp add: GET_posts_snd)
next
  case (get_post d post_id f)
  then show ?case by (simp add: GET_post_snd)
next
  case (delete_post d post_id f)
  with DELETE_post_effect[of post_id f d] show ?case
    by (auto simp: rows_valid_def list_all_iff)
next
  case (get_comments d post_id page limit f)
  then show ?case by (simp add: GET_post_comments_snd)
next
  case (create_comment d post_id cb now1 now2 f)
  with POST_post_comments_valid[of post_id cb now1 now2 f d] show ?case
    by (auto simp: rows_valid_def)
next
  case (get_comment d comment_id f)
  then show ?case by (simp add: GET_comment_snd)
next
  case (update_comment d comment_id ub now f)
  with PUT_comment_valid[of comment_id ub now f d] show ?case
    by (auto simp: rows_valid_def list_all_iff intro!: Comment_valid_set_content)
next
  case (delete_comment d comment_id f)
  with DELETE_comment_effect[of comment_id f d] show ?case
    by (auto simp: rows_valid_def list_all_iff intro!: Comment_valid_null_parent)
qed

lemma example_db_reachable: "reachable example_db"
proof -
  let ?d0 = "\<lparr>posts = [], comments = []\<rparr>"
  let ?b1 = "\<lparr>body_title = Some (lit ''A''), body_content = Some (lit ''B''), body_author = Some (lit ''C'')\<rparr>"
  let ?b2 = "\<lparr>body_title = Some (lit ''D''), body_content = Some (lit ''E''), body_author = Some (lit ''F'')\<rparr>"
  let ?c1 = "\<lparr>cbody_content = Some (lit ''x''), cbody_author = Some (lit ''y''), cbody_parent_comment_id = None\<rparr>"
  let ?c2 = "\<lparr>cbody_content = Some (lit ''reply''), cbody_author = Some (lit ''z''),
              cbody_parent_comment_id = Some 1\<rparr>"
  let ?d1 = "snd (POST_posts ?b1 10 11 no_fault ?d0)"
  let ?d2 = "snd (POST_posts ?b2 12 13 no_fault ?d1)"
  let ?d3 = "snd (POST_post_comments 1 ?c1 20 21 no_fault ?d2)"
  let ?d4 = "snd (POST_post_comments 1 ?c2 30 31 no_fault ?d3)"
  have "reachable ?d4"
    by (intro reachable.create_comment reachable.create_post reachable.empty)
  moreover have "?d4 = example_db"
    by (simp add: eval_defs)
  ultimately show ?thesis by simp
qed

lemma example_db_valid:
  "list_all Post_valid (posts example_db)" "list_all Comment_valid (comments example_db)"
  by (simp_all add: example_db_def Post_valid_def Comment_valid_def strip_def isspace_def lit_def)

subsection \<open>Requests when the storage does not fail\<close>

lemma PostResponse_of_no_fault:
  assumes "fault s = no_fault" "Post_valid p"
  shows "PostResponse_of p s = (Inr (PostResponse_row (comments (tables s)) p), s\<lparr>calls := calls s @ [LoadComments]\<rparr>)"
  using assms
  by (auto simp: PostResponse_of_def PostResponse_init_def PostResponse_row_def Post_valid_def db_defs
      str_field_def no_validator_def Let_def no_fault_def
      PostBase_title_must_not_be_empty_def PostBase_content_must_not_be_empty_def strip_Nil)

lemma CommentResponse_of_valid:
  assumes "Comment_valid c"
  shows "CommentResponse_of c s = (Inr (CommentResponse_row c), s)"
  using assms
  by (auto simp: CommentResponse_of_def CommentResponse_init_def CommentResponse_row_def Comment_valid_def db_defs
      str_field_def Let_def
      CommentBase_content_must_not_be_empty_def CommentBase_author_must_not_be_empty_def strip_Nil
      split: option.splits)

lemma mapM_PostResponse_of_no_fault:
  "fault s = no_fault \<Longrightarrow> list_all Post_valid ps \<Longrightarrow>
     db_mapM PostResponse_of ps s =
       (Inr (map (PostResponse_row (comments (tables s))) ps),
        s\<lparr>calls := calls s @ replicate (length ps) LoadComments\<rparr>)"
proof (induction ps arbitrary: s)
  case Nil
  then show ?case by (simp add: db_return_def)
next
  case (Cons p ps)
  let ?s1 = "s\<lparr>calls := calls s @ [LoadComments]\<rparr>"
  from Cons.prems have p: "Post_valid p" and ps: "list_all Post_valid ps" by simp_all
  have f1: "fault ?s1 = no_fault" using Cons.prems by simp
  show ?case
    by (simp add: PostResponse_of_no_fault[OF Cons.prems(1) p] Cons.IH[OF f1 ps] db_bind_def db_return_def
        replicate_app_Cons_same)
qed

lemma mapM_CommentResponse_of_valid:
  "list_all Comment_valid cs \<Longrightarrow> db_mapM CommentResponse_of cs s = (Inr (map CommentResponse_row cs), s)"
  by (induction cs arbitrary: s) (simp_all add: db_return_def db_bind_def CommentResponse_of_valid)

lemma list_all_offset_limit: "list_all P xs \<Longrightarrow> list_all P (offset_limit offset limit xs)"
  unfolding offset_limit_def list_all_iff
  by (meson in_set_dropD in_set_takeD)

lemma list_all_order_desc: "list_all P xs \<Longrightarrow> list_all P (order_by_created_at_desc xs)"
  by (simp add: order_by_created_at_desc_def list_all_iff)

lemma list_all_order_asc: "list_all P xs \<Longrightarrow> list_all P (order_by_created_at_asc xs)"
  by (simp add: order_by_created_at_asc_def list_all_iff)

lemma list_all_filter: "list_all P xs \<Longrightarrow> list_all P (filter Q xs)"
  by (simp add: list_all_iff)

lemma GET_posts_no_fault:
  assumes "1 \<le> page" "1 \<le> limit" "limit \<le> 100" "sqlite_int ((page - 1) * limit)"
    and "list_all Post_valid (offset_limit ((page - 1) * limit) limit (order_by_created_at_desc (posts d)))"
  shows "GET_posts page limit no_fault d =
     (Success 200
        \<lparr>PostListResponse_posts =
           map (PostResponse_row (comments d))
             (offset_limit ((page - 1) * limit) limit (order_by_created_at_desc (posts d))),
         PostListResponse_total = int (length (posts d)),
         PostListResponse_page = page, PostListResponse_limit = limit,
         PostListResponse_total_pages = (int (length (posts d)) + limit - 1) div limit\<rparr>, d)"
  using assms
  by (simp add: GET_posts_def get_posts_def get_posts_body_def try_except_def db_bind_def db_return_def
      db_op_def db_params_def sqlite_int_def db_exec_count_Post_def db_exec_select_Post_def get_db_def
      no_fault_def respond_def Let_def mapM_PostResponse_of_no_fault)

lemma GET_post_comments_no_fault:
  assumes "1 \<le> page" "1 \<le> limit" "limit \<le> 100" "sqlite_int post_id" "sqlite_int ((page - 1) * limit)"
    and "find (\<lambda>p. Post_id p = post_id) (posts d) = Some p"
    and "list_all Comment_valid (offset_limit ((page - 1) * limit) limit
           (order_by_created_at_asc (filter (\<lambda>c. Comment_post_id c = post_id) (comments d))))"
  shows "GET_post_comments post_id page limit no_fault d =
     (Success 200
        \<lparr>CommentListResponse_comments =
           map CommentResponse_row
             (offset_limit ((page - 1) * limit) limit
                (order_by_created_at_asc (filter (\<lambda>c. Comment_post_id c = post_id) (comments d)))),
         CommentListResponse_total = int (length (filter (\<lambda>c. Comment_post_id c = post_id) (comments d))),
         CommentListResponse_page = page, CommentListResponse_limit = limit,
         CommentListResponse_total_pages =
           (int (length (filter (\<lambda>c. Comment_post_id c = post_id) (comments d))) + limit - 1) div limit\<rparr>, d)"
  using assms
  by (simp add: GET_post_comments_def get_comments_def get_comments_body_def try_except_reraise_def
      db_bind_def db_return_def db_get_Post_def
      db_op_def db_params_def sqlite_int_def db_exec_count_Comment_def db_exec_select_Comment_def get_db_def
      no_fault_def respond_def Let_def mapM_CommentResponse_of_valid)

lemma create_post_no_fault:
  assumes "body_title b = Some t" "strip t \<noteq> []" "body_content b = Some x" "strip x \<noteq> []"
    "body_author b = Some a"
  shows "POST_posts b now1 now2 no_fault d =
     (Success 201
        \<lparr>PostResponse_id = next_id (map Post_id (posts d)), PostResponse_title = strip t,
         PostResponse_content = strip x, PostResponse_author = a,
         PostResponse_created_at = now1, PostResponse_updated_at = now2,
         PostResponse_comments_count =
           int (length (filter (\<lambda>c. Comment_post_id c = next_id (map Post_id (posts d))) (comments d)))\<rparr>,
      d\<lparr>posts := posts d @
          [\<lparr>Post_id = next_id (map Post_id (posts d)), Post_title = strip t, Post_content = strip x,
            Post_author = Some a, Post_created_at = now1, Post_updated_at = now2\<rparr>]\<rparr>)"
proof -
  have v: "PostCreate_validate b =
      Inr \<lparr>PostCreate_title = strip t, PostCreate_content = strip x, PostCreate_author = a\<rparr>"
    using assms by (simp add: PostCreate_validate_Inr_iff)
  show ?thesis
    using next_id_fresh[of "map Post_id (posts d)"] PostResponse_init_stripped[OF assms(2,4)]
    by (simp add: POST_posts_def v create_post_def create_post_body_def db_defs get_db_def no_fault_def
        respond_def PostResponse_of_def Let_def find_append_fresh)
qed


text \<open>
  When the storage does not fail, a post that has a comment is not deleted: the flush is
  refused and the handler answers 500. A post with no comment is deleted.
\<close>

lemma delete_post_with_comments:
  assumes "find (\<lambda>p. Post_id p = post_id) (posts d) = Some p"
    and "filter (\<lambda>c. Comment_post_id c = post_id) (comments d) \<noteq> []"
    and "sqlite_int post_id"
  shows "DELETE_post post_id no_fault d =
     (Failure 500 ''Failed to delete post: (sqlite3.IntegrityError) NOT NULL constraint failed: comments.post_id'', d)"
proof -
  from assms(1) have "Post_id p = post_id" by (auto simp: find_Some_iff)
  with assms show ?thesis
    by (simp add: DELETE_post_def delete_post_def delete_post_body_def db_defs get_db_def no_fault_def
        respond_def str_exn_def)
qed

lemma delete_post_without_comments:
  assumes "find (\<lambda>p. Post_id p = post_id) (posts d) = Some p"
    and "filter (\<lambda>c. Comment_post_id c = post_id) (comments d) = []"
    and "sqlite_int post_id"
  shows "DELETE_post post_id no_fault d =
     (Success 200 (''Post with ID '' @ str_int post_id @ '' deleted successfully''),
      d\<lparr>posts := filter (\<lambda>p. Post_id p \<noteq> post_id) (posts d)\<rparr>)"
proof -
  from assms(1) have "Post_id p = post_id" by (auto simp: find_Some_iff)
  with assms show ?thesis
    by (simp add: DELETE_post_def delete_post_def delete_post_body_def db_defs get_db_def no_fault_def
        respond_def str_exn_def)
qed

subsection \<open>Pages and order\<close>

lemma div_bounds:
  assumes "0 < (l::int)"
  shows "((t + l - 1) div l - 1) * l < t" and "t \<le> (t + l - 1) div l * l"
proof -
  define q where "q = (t + l - 1) div l"
  have eq: "q * l + (t + l - 1) mod l = t + l - 1" unfolding q_def by (rule div_mult_mod_eq)
  have m: "0 \<le> (t + l - 1) mod l" "(t + l - 1) mod l < l" using assms by simp_all
  have d: "(q - 1) * l = q * l - l" by (simp add: left_diff_distrib)
  show "((t + l - 1) div l - 1) * l < t" using eq m d unfolding q_def by linarith
  show "t \<le> (t + l - 1) div l * l" using eq m unfolding q_def by linarith
qed

lemma ceil_div:
  assumes "0 < (l::int)"
  shows "(t + l - 1) div l = \<lceil>real_of_int t / real_of_int l\<rceil>"
proof -
  define q where "q = (t + l - 1) div l"
  have lo: "(q - 1) * l < t" and hi: "t \<le> q * l"
    using div_bounds[OF assms, of t] by (simp_all add: q_def)
  have "real_of_int ((q - 1) * l) < real_of_int t" using lo by (simp only: of_int_less_iff)
  then have "(real_of_int q - 1) * real_of_int l < real_of_int t" by simp
  then have 1: "real_of_int q - 1 < real_of_int t / real_of_int l"
    using assms by (simp add: pos_less_divide_eq)
  have "real_of_int t \<le> real_of_int (q * l)" using hi by (simp only: of_int_le_iff)
  then have "real_of_int t \<le> real_of_int q * real_of_int l" by simp
  then have 2: "real_of_int t / real_of_int l \<le> real_of_int q"
    using assms by (simp add: pos_divide_le_eq)
  from 1 2 have "\<lceil>real_of_int t / real_of_int l\<rceil> = q" by (intro ceiling_unique) simp_all
  then show ?thesis by (simp add: q_def)
qed

lemma beyond_last_page:
  assumes "0 < (l::int)" "(int (length xs) + l - 1) div l < page"
  shows "offset_limit ((page - 1) * l) l' xs = []"
proof -
  define q where "q = (int (length xs) + l - 1) div l"
  have hi: "int (length xs) \<le> q * l" using div_bounds(2)[OF assms(1)] by (simp add: q_def)
  have "q \<le> page - 1" using assms by (simp add: q_def)
  then have "q * l \<le> (page - 1) * l" using assms(1) by (simp add: mult_right_mono)
  with hi have "int (length xs) \<le> (page - 1) * l" by simp
  then have "length xs \<le> nat ((page - 1) * l)" by simp
  then show ?thesis by (simp add: offset_limit_def)
qed

lemma order_desc_sorted:
  "sorted_wrt (\<lambda>a b. Post_created_at b \<le> Post_created_at a) (order_by_created_at_desc ps)"
proof -
  have "sorted (map (\<lambda>p. - Post_created_at p) (sort_key (\<lambda>p. - Post_created_at p) ps))"
    by (rule sorted_sort_key)
  then show ?thesis by (simp add: order_by_created_at_desc_def sorted_map)
qed

lemma order_asc_sorted:
  "sorted_wrt (\<lambda>a b. Comment_created_at a \<le> Comment_created_at b) (order_by_created_at_asc cs)"
proof -
  have "sorted (map Comment_created_at (sort_key Comment_created_at cs))"
    by (rule sorted_sort_key)
  then show ?thesis by (simp add: order_by_created_at_asc_def sorted_map)
qed

lemma sorted_wrt_offset_limit: "sorted_wrt R xs \<Longrightarrow> sorted_wrt R (offset_limit offset limit xs)"
  by (simp add: offset_limit_def sorted_wrt_take sorted_wrt_drop)

section \<open>The claims\<close>

subsection \<open>C1: deleting a post that has comments\<close>

text \<open>
  Claim C1, at the example data: post 1 has two comments. \<open>DELETE /posts/1\<close> answers 500
  and leaves the database as it was; afterwards \<open>GET /comments/1\<close> and \<open>GET /posts/1\<close>
  still answer 200.
\<close>

theorem delete_post_keeps_comments:
  "DELETE_post 1 no_fault example_db =
     (Failure 500 ''Failed to delete post: (sqlite3.IntegrityError) NOT NULL constraint failed: comments.post_id'',
      example_db) \<and>
   GET_comment 1 no_fault (snd (DELETE_post 1 no_fault example_db)) =
     (Success 200
        \<lparr>CommentResponse_id = 1, CommentResponse_content = lit ''x'', CommentResponse_author = lit ''y'',
         CommentResponse_post_id = 1, CommentResponse_parent_comment_id = None,
         CommentResponse_created_at = 20, CommentResponse_updated_at = 21\<rparr>, example_db) \<and>
   GET_post 1 no_fault (snd (DELETE_post 1 no_fault example_db)) =
     (Success 200
        \<lparr>PostResponse_id = 1, PostResponse_title = lit ''A'', PostResponse_content = lit ''B'',
         PostResponse_author = lit ''C'', PostResponse_created_at = 10, PostResponse_updated_at = 11,
         PostResponse_comments_count = 2\<rparr>, example_db)"
  by (simp add: DELETE_post_def delete_post_def delete_post_body_def GET_comment_def get_comment_def
      get_comment_body_def GET_post_def get_post_def get_post_body_def PostResponse_of_def PostResponse_init_def
      CommentResponse_of_def CommentResponse_init_def str_field_def no_validator_def
      PostBase_title_must_not_be_empty_def PostBase_content_must_not_be_empty_def
      CommentBase_content_must_not_be_empty_def CommentBase_author_must_not_be_empty_def
      strip_def isspace_def lit_def sqlite_int_def
      db_defs get_db_def no_fault_def respond_def str_exn_def example_db_def)

subsection \<open>C2: validation of a new post\<close>

text \<open>
  Claim C2, as stated, fails: a body whose author is two spaces is accepted, and the post
  is stored with that author.
\<close>

theorem create_post_blank_author:
  "POST_posts \<lparr>body_title = Some (lit ''A''), body_content = Some (lit ''B''), body_author = Some (lit ''  '')\<rparr>
      10 11 no_fault \<lparr>posts = [], comments = []\<rparr> =
     (Success 201
        \<lparr>PostResponse_id = 1, PostResponse_title = lit ''A'', PostResponse_content = lit ''B'',
         PostResponse_author = lit ''  '', PostResponse_created_at = 10, PostResponse_updated_at = 11,
         PostResponse_comments_count = 0\<rparr>,
      \<lparr>posts = [\<lparr>Post_id = 1, Post_title = lit ''A'', Post_content = lit ''B'',
                  Post_author = Some (lit ''  ''), Post_created_at = 10, Post_updated_at = 11\<rparr>],
       comments = []\<rparr>)"
  by (simp add: POST_posts_def PostCreate_validate_def create_post_def create_post_body_def
      PostResponse_of_def PostResponse_init_def str_field_def no_validator_def
      PostBase_title_must_not_be_empty_def PostBase_content_must_not_be_empty_def
      strip_def isspace_def lit_def next_id_def
      db_defs get_db_def no_fault_def respond_def)

text \<open>
  Claim C2, amended. Whatever the storage does, a post is created only if the body has a
  title and a content that are not empty after trimming, and has an author. A body whose
  title or content is empty after trimming is answered 422 and the database is
  unchanged. When the storage does not fail, a body with such a title and content and
  any author, empty or blank included, is answered 201: the post is stored with title
  and content trimmed and the author as given.
\<close>

theorem create_post_validation:
  "(fst (POST_posts b now1 now2 f d) = Success code r \<longrightarrow>
      (\<exists>t. body_title b = Some t \<and> strip t \<noteq> []) \<and>
      (\<exists>x. body_content b = Some x \<and> strip x \<noteq> []) \<and>
      (\<exists>a. body_author b = Some a)) \<and>
   ((\<exists>t. body_title b = Some t \<and> strip t = []) \<or> (\<exists>x. body_content b = Some x \<and> strip x = []) \<longrightarrow>
      (\<exists>es. POST_posts b now1 now2 f d = (Unprocessable es, d))) \<and>
   (body_title b = Some t \<and> strip t \<noteq> [] \<and> body_content b = Some x \<and> strip x \<noteq> [] \<and>
    body_author b = Some a \<longrightarrow>
      POST_posts b now1 now2 no_fault d =
        (Success 201
           \<lparr>PostResponse_id = next_id (map Post_id (posts d)), PostResponse_title = strip t,
            PostResponse_content = strip x, PostResponse_author = a,
            PostResponse_created_at = now1, PostResponse_updated_at = now2,
            PostResponse_comments_count =
              int (length (filter (\<lambda>c. Comment_post_id c = next_id (map Post_id (posts d))) (comments d)))\<rparr>,
         d\<lparr>posts := posts d @
             [\<lparr>Post_id = next_id (map Post_id (posts d)), Post_title = strip t, Post_content = strip x,
               Post_author = Some a, Post_created_at = now1, Post_updated_at = now2\<rparr>]\<rparr>))"
proof (intro conjI impI)
  assume ok: "fst (POST_posts b now1 now2 f d) = Success code r"
  then obtain post_data where "PostCreate_validate b = Inr post_data"
    by (cases "PostCreate_validate b") (auto simp: POST_posts_def)
  then have *: "\<exists>t x a. body_title b = Some t \<and> strip t \<noteq> [] \<and> body_content b = Some x \<and> strip x \<noteq> [] \<and>
        body_author b = Some a"
    unfolding PostCreate_validate_Inr_iff by blast
  from * show "\<exists>t. body_title b = Some t \<and> strip t \<noteq> []" by blast
  from * show "\<exists>x. body_content b = Some x \<and> strip x \<noteq> []" by blast
  from * show "\<exists>a. body_author b = Some a" by blast
next
  assume "(\<exists>t. body_title b = Some t \<and> strip t = []) \<or> (\<exists>x. body_content b = Some x \<and> strip x = [])"
  then have "\<And>post_data. PostCreate_validate b \<noteq> Inr post_data"
    unfolding PostCreate_validate_Inr_iff by auto
  then obtain es where "PostCreate_validate b = Inl es"
    by (cases "PostCreate_validate b") auto
  then show "\<exists>es. POST_posts b now1 now2 f d = (Unprocessable es, d)"
    by (simp add: POST_posts_def)
next
  assume "body_title b = Some t \<and> strip t \<noteq> [] \<and> body_content b = Some x \<and> strip x \<noteq> [] \<and>
    body_author b = Some a"
  then show "POST_posts b now1 now2 no_fault d =
        (Success 201
           \<lparr>PostResponse_id = next_id (map Post_id (posts d)), PostResponse_title = strip t,
            PostResponse_content = strip x, PostResponse_author = a,
            PostResponse_created_at = now1, PostResponse_updated_at = now2,
            PostResponse_comments_count =
              int (length (filter (\<lambda>c. Comment_post_id c = next_id (map Post_id (posts d))) (comments d)))\<rparr>,
         d\<lparr>posts := posts d @
             [\<lparr>Post_id = next_id (map Post_id (posts d)), Post_title = strip t, Post_content = strip x,
               Post_author = Some a, Post_created_at = now1, Post_updated_at = now2\<rparr>]\<rparr>)"
    using create_post_no_fault by blast
qed

theorem create_post_validation_witness:
  "POST_posts \<lparr>body_title = Some (lit '' T ''), body_content = Some (lit ''B''), body_author = Some []\<rparr>
      50 51 no_fault example_db =
     (Success 201
        \<lparr>PostResponse_id = 3, PostResponse_title = lit ''T'', PostResponse_content = lit ''B'',
         PostResponse_author = [], PostResponse_created_at = 50, PostResponse_updated_at = 51,
         PostResponse_comments_count = 0\<rparr>,
      example_db\<lparr>posts := posts example_db @
         [\<lparr>Post_id = 3, Post_title = lit ''T'', Post_content = lit ''B'', Post_author = Some [],
           Post_created_at = 50, Post_updated_at = 51\<rparr>]\<rparr>) \<and>
   (\<exists>es. POST_posts \<lparr>body_title = Some (lit ''  ''), body_content = Some (lit ''B''), body_author = Some (lit ''C'')\<rparr>
      50 51 no_fault example_db = (Unprocessable es, example_db))"
  using
    create_post_validation[of
      "\<lparr>body_title = Some (lit '' T ''), body_content = Some (lit ''B''), body_author = Some []\<rparr>"
      50 51 no_fault example_db 201 _ "lit '' T ''" "lit ''B''" "[]"]
    create_post_validation[of
      "\<lparr>body_title = Some (lit ''  ''), body_content = Some (lit ''B''), body_author = Some (lit ''C'')\<rparr>"
      50 51 no_fault example_db 201 _ "lit '' T ''" "lit ''B''" "[]"]
  by (simp add: strip_def isspace_def lit_def example_db_def next_id_def)

subsection \<open>C3: unexpected storage failures\<close>

text \<open>
  Claim C3, as stated, fails. The commit of a new post fails with an exception whose
  text is \<open>database is locked\<close>: the 500 response carries that text. A lookup fails
  in \<open>get_post\<close>: the 500 is raised after the one call \<open>db.get\<close>, with no rollback.
\<close>

theorem server_error_shows_exception_text:
  "POST_posts \<lparr>body_title = Some (lit ''A''), body_content = Some (lit ''B''), body_author = Some (lit ''C'')\<rparr>
      50 51 (no_fault(Commit := Some ''database is locked'')) example_db =
     (Failure 500 ''Failed to create post: database is locked'', example_db) \<and>
   fst (get_post 1 (get_db (no_fault(GetPost := Some ''database is locked'')) example_db)) =
     Inl (HTTPException 500 ''Failed to retrieve post: database is locked'') \<and>
   calls (snd (get_post 1 (get_db (no_fault(GetPost := Some ''database is locked'')) example_db))) = [GetPost]"
  by (simp add: eval_defs)

text \<open>
  Claim C3, amended. For each of the nine handlers, every session and every storage
  failure. If a call that the \<open>try\<close> body of the handler makes on the session fails, with the
  text \<open>msg\<close>, the handler raises a 500 whose detail is its fixed text followed by \<open>msg\<close>.
  And the handler raises a 500 exactly when its \<open>try\<close> body raised an exception that is not
  an \<open>HTTPException\<close>; the detail of the 500 is then the handler's fixed text followed by
  the text of that exception. The five handlers that write (\<open>create_post\<close>, \<open>delete_post\<close>,
  \<open>create_comment\<close>, \<open>update_comment\<close>, \<open>delete_comment\<close>) call \<open>db.rollback()\<close> first, which
  leaves the session with no pending change; the four that read leave the session as the
  body left it and make no such call. The two lists run their \<open>try\<close> body only when the
  pagination is valid.
\<close>

theorem server_error_carries_exception_text:
  "(storage_failed s (snd (create_post_body post_data now1 now2 s)) msg \<longrightarrow>
      create_post post_data now1 now2 s =
        (Inl (HTTPException 500 (''Failed to create post: '' @ msg)),
         (snd (create_post_body post_data now1 now2 s))
           \<lparr>calls := calls (snd (create_post_body post_data now1 now2 s)) @ [Rollback], pending := []\<rparr>)) \<and>
   (create_post post_data now1 now2 s = (Inl (HTTPException 500 detail), s') \<longleftrightarrow>
      (\<exists>msg s0. create_post_body post_data now1 now2 s = (Inl (Exception msg), s0) \<and>
         detail = ''Failed to create post: '' @ msg \<and> s' = s0\<lparr>calls := calls s0 @ [Rollback], pending := []\<rparr>)) \<and>
   (1 \<le> page \<and> 1 \<le> limit \<and> limit \<le> 100 \<and> storage_failed s (snd (get_posts_body page limit s)) msg \<longrightarrow>
      get_posts page limit s =
        (Inl (HTTPException 500 (''Failed to fetch posts: '' @ msg)), snd (get_posts_body page limit s))) \<and>
   (get_posts page limit s = (Inl (HTTPException 500 detail), s') \<longleftrightarrow>
      1 \<le> page \<and> 1 \<le> limit \<and> limit \<le> 100 \<and>
      (\<exists>msg s0. get_posts_body page limit s = (Inl (Exception msg), s0) \<and>
         detail = ''Failed to fetch posts: '' @ msg \<and> s' = s0)) \<and>
   (storage_failed s (snd (get_post_body post_id s)) msg \<longrightarrow>
      get_post post_id s =
        (Inl (HTTPException 500 (''Failed to retrieve post: '' @ msg)), snd (get_post_body post_id s))) \<and>
   (get_post post_id s = (Inl (HTTPException 500 detail), s') \<longleftrightarrow>
      (\<exists>msg s0. get_post_body post_id s = (Inl (Exception msg), s0) \<and>
         detail = ''Failed to retrieve post: '' @ msg \<and> s' = s0)) \<and>
   (storage_failed s (snd (delete_post_body post_id s)) msg \<longrightarrow>
      delete_post post_id s =
        (Inl (HTTPException 500 (''Failed to delete post: '' @ msg)),
         (snd (delete_post_body post_id s))
           \<lparr>calls := calls (snd (delete_post_body post_id s)) @ [Rollback], pending := []\<rparr>)) \<and>
   (delete_post post_id s = (Inl (HTTPException 500 detail), s') \<longleftrightarrow>
      (\<exists>msg s0. delete_post_body post_id s = (Inl (Exception msg), s0) \<and>
         detail = ''Failed to delete post: '' @ msg \<and> s' = s0\<lparr>calls := calls s0 @ [Rollback], pending := []\<rparr>)) \<and>
   (1 \<le> page \<and> 1 \<le> limit \<and> limit \<le> 100 \<and>
    storage_failed s (snd (get_comments_body post_id page limit s)) msg \<longrightarrow>
      get_comments post_id page limit s =
        (Inl (HTTPException 500 (''Failed to fetch comments: '' @ msg)),
         snd (get_comments_body post_id page limit s))) \<and>
   (get_comments post_id page limit s = (Inl (HTTPException 500 detail), s') \<longleftrightarrow>
      1 \<le> page \<and> 1 \<le> limit \<and> limit \<le> 100 \<and>
      (\<exists>msg s0. get_comments_body post_id page limit s = (Inl (Exception msg), s0) \<and>
         detail = ''Failed to fetch comments: '' @ msg \<and> s' = s0)) \<and>
   (storage_failed s (snd (create_comment_body post_id comment_data now1 now2 s)) msg \<longrightarrow>
      create_comment post_id comment_data now1 now2 s =
        (Inl (HTTPException 500 (''Failed to create comment: '' @ msg)),
         (snd (create_comment_body post_id comment_data now1 now2 s))
           \<lparr>calls := calls (snd (create_comment_body post_id comment_data now1 now2 s)) @ [Rollback],
            pending := []\<rparr>)) \<and>
   (create_comment post_id comment_data now1 now2 s = (Inl (HTTPException 500 detail), s') \<longleftrightarrow>
      (\<exists>msg s0. create_comment_body post_id comment_data now1 now2 s = (Inl (Exception msg), s0) \<and>
         detail = ''Failed to create comment: '' @ msg \<and> s' = s0\<lparr>calls := calls s0 @ [Rollback], pending := []\<rparr>)) \<and>
   (storage_failed s (snd (get_comment_body comment_id s)) msg \<longrightarrow>
      get_comment comment_id s =
        (Inl (HTTPException 500 (''Failed to retrieve comment: '' @ msg)), snd (get_comment_body comment_id s))) \<and>
   (get_comment comment_id s = (Inl (HTTPException 500 detail), s') \<longleftrightarrow>
      (\<exists>msg s0. get_comment_body comment_id s = (Inl (Exception msg), s0) \<and>
         detail = ''Failed to retrieve comment: '' @ msg \<and> s' = s0)) \<and>
   (storage_failed s (snd (update_comment_body comment_id update_data now s)) msg \<longrightarrow>
      update_comment comment_id update_data now s =
        (Inl (HTTPException 500 (''Failed to update comment: '' @ msg)),
         (snd (update_comment_body comment_id update_data now s))
           \<lparr>calls := calls (snd (update_comment_body comment_id update_data now s)) @ [Rollback],
            pending := []\<rparr>)) \<and>
   (update_comment comment_id update_data now s = (Inl (HTTPException 500 detail), s') \<longleftrightarrow>
      (\<exists>msg s0. update_comment_body comment_id update_data now s = (Inl (Exception msg), s0) \<and>
         detail = ''Failed to update comment: '' @ msg \<and> s' = s0\<lparr>calls := calls s0 @ [Rollback], pending := []\<rparr>)) \<and>
   (storage_failed s (snd (delete_comment_body comment_id s)) msg \<longrightarrow>
      delete_comment comment_id s =
        (Inl (HTTPException 500 (''Failed to delete comment: '' @ msg)),
         (snd (delete_comment_body comment_id s))
           \<lparr>calls := calls (snd (delete_comment_body comment_id s)) @ [Rollback], pending := []\<rparr>)) \<and>
   (delete_comment comment_id s = (Inl (HTTPException 500 detail), s') \<longleftrightarrow>
      (\<exists>msg s0. delete_comment_body comment_id s = (Inl (Exception msg), s0) \<and>
         detail = ''Failed to delete comment: '' @ msg \<and> s' = s0\<lparr>calls := calls s0 @ [Rollback], pending := []\<rparr>))"
proof -
  have w: "\<And>body prefix. reports_failures body \<Longrightarrow> storage_failed s (snd (body s)) msg \<longrightarrow>
      try_except True prefix body s =
        (Inl (HTTPException 500 (prefix @ msg)),
         (snd (body s))\<lparr>calls := calls (snd (body s)) @ [Rollback], pending := []\<rparr>)"
    by (simp add: try_except_failed)
  have wr: "\<And>body prefix. reports_failures body \<Longrightarrow> storage_failed s (snd (body s)) msg \<longrightarrow>
      try_except_reraise True prefix body s =
        (Inl (HTTPException 500 (prefix @ msg)),
         (snd (body s))\<lparr>calls := calls (snd (body s)) @ [Rollback], pending := []\<rparr>)"
    by (simp add: try_except_reraise_failed)
  have w0: "\<And>body prefix. reports_failures body \<Longrightarrow> storage_failed s (snd (body s)) msg \<longrightarrow>
      try_except False prefix body s = (Inl (HTTPException 500 (prefix @ msg)), snd (body s))"
    by (simp add: try_except_failed)
  have rd: "\<And>body prefix. reports_failures body \<Longrightarrow> storage_failed s (snd (body s)) msg \<longrightarrow>
      try_except_reraise False prefix body s = (Inl (HTTPException 500 (prefix @ msg)), snd (body s))"
    by (simp add: try_except_reraise_failed)
  have i: "\<And>body prefix C. raises_only (allowed C) body \<Longrightarrow> 500 \<notin> C \<Longrightarrow>
      (try_except_reraise True prefix body s = (Inl (HTTPException 500 detail), s')) =
      (\<exists>msg s0. body s = (Inl (Exception msg), s0) \<and> detail = prefix @ msg \<and>
         s' = s0\<lparr>calls := calls s0 @ [Rollback], pending := []\<rparr>)"
    by (simp add: try_except_reraise_500_iff)
  have j: "\<And>body prefix C. raises_only (allowed C) body \<Longrightarrow> 500 \<notin> C \<Longrightarrow>
      (try_except_reraise False prefix body s = (Inl (HTTPException 500 detail), s')) =
      (\<exists>msg s0. body s = (Inl (Exception msg), s0) \<and> detail = prefix @ msg \<and> s' = s0)"
    by (simp add: try_except_reraise_500_iff)
  have c1: "storage_failed s (snd (create_post_body post_data now1 now2 s)) msg \<longrightarrow>
      create_post post_data now1 now2 s =
        (Inl (HTTPException 500 (''Failed to create post: '' @ msg)),
         (snd (create_post_body post_data now1 now2 s))
           \<lparr>calls := calls (snd (create_post_body post_data now1 now2 s)) @ [Rollback], pending := []\<rparr>)"
    unfolding create_post_def by (rule w[OF create_post_body_reports])
  have c2: "create_post post_data now1 now2 s = (Inl (HTTPException 500 detail), s') \<longleftrightarrow>
      (\<exists>msg s0. create_post_body post_data now1 now2 s = (Inl (Exception msg), s0) \<and>
         detail = ''Failed to create post: '' @ msg \<and> s' = s0\<lparr>calls := calls s0 @ [Rollback], pending := []\<rparr>)"
    unfolding create_post_def using try_except_500_iff[OF create_post_body_raises, of True] by simp
  have p1: "1 \<le> page \<and> 1 \<le> limit \<and> limit \<le> 100 \<and> storage_failed s (snd (get_posts_body page limit s)) msg \<longrightarrow>
      get_posts page limit s =
        (Inl (HTTPException 500 (''Failed to fetch posts: '' @ msg)), snd (get_posts_body page limit s))"
    using w0[OF get_posts_body_reports, of page limit "''Failed to fetch posts: ''"]
    by (simp add: get_posts_def)
  have m1: "1 \<le> page \<and> 1 \<le> limit \<and> limit \<le> 100 \<and>
      storage_failed s (snd (get_comments_body post_id page limit s)) msg \<longrightarrow>
      get_comments post_id page limit s =
        (Inl (HTTPException 500 (''Failed to fetch comments: '' @ msg)),
         snd (get_comments_body post_id page limit s))"
    using rd[OF get_comments_body_reports, of post_id page limit "''Failed to fetch comments: ''"]
    by (simp add: get_comments_def)
  show ?thesis
    apply (intro conjI)
    apply (rule c1)
    apply (rule c2)
    apply (rule p1)
    apply (rule get_posts_500_iff)
    unfolding get_post_def apply (rule rd[OF get_post_body_reports])
    apply (rule j[OF get_post_body_raises], simp)
    unfolding delete_post_def apply (rule wr[OF delete_post_body_reports])
    apply (rule i[OF delete_post_body_raises], simp)
    apply (rule m1)
    apply (rule get_comments_500_iff)
    unfolding create_comment_def apply (rule wr[OF create_comment_body_reports])
    apply (rule i[OF create_comment_body_raises], simp)
    unfolding get_comment_def apply (rule rd[OF get_comment_body_reports])
    apply (rule j[OF get_comment_body_raises], simp)
    unfolding update_comment_def apply (rule wr[OF update_comment_body_reports])
    apply (rule i[OF update_comment_body_raises], simp)
    unfolding delete_comment_def apply (rule wr[OF delete_comment_body_reports])
    apply (rule i[OF delete_comment_body_raises], simp)
    done
qed

theorem server_error_carries_exception_text_witness:
  "storage_failed (get_db (no_fault(Refresh := Some ''connection lost'')) example_db)
     (snd (update_comment_body 2 \<lparr>CommentUpdate_content = lit ''edited''\<rparr> 40
        (get_db (no_fault(Refresh := Some ''connection lost'')) example_db))) ''connection lost'' \<and>
   fst (update_comment 2 \<lparr>CommentUpdate_content = lit ''edited''\<rparr> 40
          (get_db (no_fault(Refresh := Some ''connection lost'')) example_db)) =
     Inl (HTTPException 500 ''Failed to update comment: connection lost'') \<and>
   calls (snd (update_comment 2 \<lparr>CommentUpdate_content = lit ''edited''\<rparr> 40
          (get_db (no_fault(Refresh := Some ''connection lost'')) example_db))) =
     [GetComment, Commit, Refresh, Rollback] \<and>
   pending (snd (update_comment 2 \<lparr>CommentUpdate_content = lit ''edited''\<rparr> 40
          (get_db (no_fault(Refresh := Some ''connection lost'')) example_db))) = [] \<and>
   fst (update_comment_body 2 \<lparr>CommentUpdate_content = lit ''edited''\<rparr> 40
          (get_db (no_fault(Refresh := Some ''connection lost'')) example_db)) =
     Inl (Exception ''connection lost'')"
proof -
  let ?s = "get_db (no_fault(Refresh := Some ''connection lost'')) example_db"
  let ?u = "\<lparr>CommentUpdate_content = lit ''edited''\<rparr>"
  have c: "calls (snd (update_comment_body 2 ?u 40 ?s)) = [GetComment, Commit, Refresh]"
    by (simp add: eval_defs)
  have b: "fst (update_comment_body 2 ?u 40 ?s) = Inl (Exception ''connection lost'')"
    by (simp add: eval_defs)
  have f: "storage_failed ?s (snd (update_comment_body 2 ?u 40 ?s)) ''connection lost''"
    unfolding storage_failed_def c by (simp add: get_db_def no_fault_def)
  have h: "update_comment 2 ?u 40 ?s =
      (Inl (HTTPException 500 (''Failed to update comment: '' @ ''connection lost'')),
       (snd (update_comment_body 2 ?u 40 ?s))
         \<lparr>calls := calls (snd (update_comment_body 2 ?u 40 ?s)) @ [Rollback], pending := []\<rparr>)"
    by (rule server_error_carries_exception_text[where s = ?s and update_data = ?u and comment_id = 2
          and now = 40 and msg = "''connection lost''",
          THEN conjunct2, THEN conjunct2, THEN conjunct2, THEN conjunct2, THEN conjunct2, THEN conjunct2,
          THEN conjunct2, THEN conjunct2, THEN conjunct2, THEN conjunct2, THEN conjunct2, THEN conjunct2,
          THEN conjunct2, THEN conjunct2, THEN conjunct1, THEN mp, OF f])
  have p: "update_comment 2 ?u 40 ?s =
      (Inl (HTTPException 500 ''Failed to update comment: connection lost''), snd (update_comment 2 ?u 40 ?s))"
    using h by simp
  have "\<exists>msg s0. update_comment_body 2 ?u 40 ?s = (Inl (Exception msg), s0) \<and>
      ''Failed to update comment: connection lost'' = ''Failed to update comment: '' @ msg \<and>
      snd (update_comment 2 ?u 40 ?s) = s0\<lparr>calls := calls s0 @ [Rollback], pending := []\<rparr>"
    by (rule server_error_carries_exception_text[where s = ?s and update_data = ?u and comment_id = 2
          and now = 40 and detail = "''Failed to update comment: connection lost''"
          and s' = "snd (update_comment 2 ?u 40 ?s)",
          THEN conjunct2, THEN conjunct2, THEN conjunct2, THEN conjunct2, THEN conjunct2, THEN conjunct2,
          THEN conjunct2, THEN conjunct2, THEN conjunct2, THEN conjunct2, THEN conjunct2, THEN conjunct2,
          THEN conjunct2, THEN conjunct2, THEN conjunct2, THEN conjunct1, THEN iffD1, OF p])
  then have q: "pending (snd (update_comment 2 ?u 40 ?s)) = []" by auto
  have e1: "fst (update_comment 2 ?u 40 ?s) = Inl (HTTPException 500 ''Failed to update comment: connection lost'')"
    using h by simp
  have e2: "calls (snd (update_comment 2 ?u 40 ?s)) = [GetComment, Commit, Refresh, Rollback]"
    unfolding h using c by simp
  from f e1 e2 q b show ?thesis by (intro conjI)
qed

subsection \<open>C4: creating a comment\<close>

text \<open>
  Claim C4, as stated, fails. No post has the key 99999999999999999999, and the request to
  comment on it is answered 500, not 404: the key does not fit a 64-bit integer, and
  \<open>db.get\<close> raises before any row is looked for. The same happens on a post that exists,
  for a \<open>parent_comment_id\<close> of that size.
\<close>

theorem create_comment_key_out_of_range:
  "find (\<lambda>p. Post_id p = 99999999999999999999) (posts example_db) = None \<and>
   POST_post_comments 99999999999999999999
      \<lparr>cbody_content = Some (lit ''hello''), cbody_author = Some (lit ''w''), cbody_parent_comment_id = None\<rparr>
      40 41 no_fault example_db =
     (Failure 500 ''Failed to create comment: Python int too large to convert to SQLite INTEGER'', example_db) \<and>
   find (\<lambda>c. Comment_id c = 99999999999999999999) (comments example_db) = None \<and>
   POST_post_comments 1
      \<lparr>cbody_content = Some (lit ''hello''), cbody_author = Some (lit ''w''),
       cbody_parent_comment_id = Some 99999999999999999999\<rparr>
      40 41 no_fault example_db =
     (Failure 500 ''Failed to create comment: Python int too large to convert to SQLite INTEGER'', example_db)"
  by (simp add: eval_defs)

text \<open>
  Claim C4, amended. A request to create a comment on \<open>post_id\<close> whose body validates, when
  the storage does not fail, with \<open>post_id\<close> and the \<open>parent_comment_id\<close>, if one is given,
  within the range of a signed 64-bit integer: 404 if the post does not exist; otherwise,
  if a \<open>parent_comment_id\<close> is given, 404 if no comment has that key and 400 if the comment
  with that key is on another post; in these three cases the database is unchanged.
  Only otherwise the answer is 201 and one row is added to \<open>comments\<close>, with
  \<open>created_at\<close> and \<open>updated_at\<close> the two readings of the clock the handler takes.
  A \<open>post_id\<close> outside that range, and on an existing post a \<open>parent_comment_id\<close> outside
  it, is answered 500 with the text of the driver's error, and the database is unchanged.
\<close>

theorem create_comment_checks:
  assumes "CommentCreate_validate b = Inr comment_data"
  shows
    "(sqlite_int post_id \<and> find (\<lambda>p. Post_id p = post_id) (posts d) = None \<longrightarrow>
        POST_post_comments post_id b now1 now2 no_fault d =
          (Failure 404 (''Post with ID '' @ str_int post_id @ '' not found''), d)) \<and>
     (sqlite_int post_id \<and> find (\<lambda>p. Post_id p = post_id) (posts d) \<noteq> None \<and>
      CommentCreate_parent_comment_id comment_data = Some parent_id \<and> sqlite_int parent_id \<and>
      find (\<lambda>c. Comment_id c = parent_id) (comments d) = None \<longrightarrow>
        POST_post_comments post_id b now1 now2 no_fault d =
          (Failure 404 (''Parent comment with ID '' @ str_int parent_id @ '' not found''), d)) \<and>
     (sqlite_int post_id \<and> find (\<lambda>p. Post_id p = post_id) (posts d) \<noteq> None \<and>
      CommentCreate_parent_comment_id comment_data = Some parent_id \<and> sqlite_int parent_id \<and>
      find (\<lambda>c. Comment_id c = parent_id) (comments d) = Some parent_comment \<and>
      Comment_post_id parent_comment \<noteq> post_id \<longrightarrow>
        POST_post_comments post_id b now1 now2 no_fault d =
          (Failure 400 ''Parent comment must belong to the same post'', d)) \<and>
     (sqlite_int post_id \<and> find (\<lambda>p. Post_id p = post_id) (posts d) \<noteq> None \<and>
      (CommentCreate_parent_comment_id comment_data = None \<or>
       CommentCreate_parent_comment_id comment_data = Some parent_id \<and> sqlite_int parent_id \<and>
       find (\<lambda>c. Comment_id c = parent_id) (comments d) = Some parent_comment \<and>
       Comment_post_id parent_comment = post_id) \<longrightarrow>
        POST_post_comments post_id b now1 now2 no_fault d =
          (Success 201
             \<lparr>CommentResponse_id = next_id (map Comment_id (comments d)),
              CommentResponse_content = CommentCreate_content comment_data,
              CommentResponse_author = CommentCreate_author comment_data,
              CommentResponse_post_id = post_id,
              CommentResponse_parent_comment_id = CommentCreate_parent_comment_id comment_data,
              CommentResponse_created_at = now1, CommentResponse_updated_at = now2\<rparr>,
           d\<lparr>comments := comments d @
               [\<lparr>Comment_id = next_id (map Comment_id (comments d)),
                 Comment_content = CommentCreate_content comment_data,
                 Comment_author = Some (CommentCreate_author comment_data),
                 Comment_post_id = post_id,
                 Comment_parent_comment_id = CommentCreate_parent_comment_id comment_data,
                 Comment_created_at = now1, Comment_updated_at = now2\<rparr>]\<rparr>)) \<and>
     (\<not> sqlite_int post_id \<longrightarrow>
        POST_post_comments post_id b now1 now2 no_fault d =
          (Failure 500 ''Failed to create comment: Python int too large to convert to SQLite INTEGER'', d)) \<and>
     (sqlite_int post_id \<and> find (\<lambda>p. Post_id p = post_id) (posts d) \<noteq> None \<and>
      CommentCreate_parent_comment_id comment_data = Some parent_id \<and> \<not> sqlite_int parent_id \<longrightarrow>
        POST_post_comments post_id b now1 now2 no_fault d =
          (Failure 500 ''Failed to create comment: Python int too large to convert to SQLite INTEGER'', d))"
  using assms CommentCreate_validated[OF assms] next_id_fresh[of "map Comment_id (comments d)"]
  by (auto simp: POST_post_comments_def create_comment_def create_comment_body_def db_defs get_db_def no_fault_def
      respond_def CommentResponse_of_def Let_def find_append_fresh str_exn_def OverflowError_str_def)

theorem create_comment_checks_witness:
  "POST_post_comments 2
      \<lparr>cbody_content = Some (lit '' hello ''), cbody_author = Some (lit ''w''), cbody_parent_comment_id = Some 1\<rparr>
      40 41 no_fault example_db =
     (Failure 400 ''Parent comment must belong to the same post'', example_db) \<and>
   POST_post_comments 1
      \<lparr>cbody_content = Some (lit '' hello ''), cbody_author = Some (lit ''w''), cbody_parent_comment_id = Some 1\<rparr>
      40 41 no_fault example_db =
     (Success 201
        \<lparr>CommentResponse_id = 3, CommentResponse_content = lit ''hello'', CommentResponse_author = lit ''w'',
         CommentResponse_post_id = 1, CommentResponse_parent_comment_id = Some 1,
         CommentResponse_created_at = 40, CommentResponse_updated_at = 41\<rparr>,
      example_db\<lparr>comments := comments example_db @
         [\<lparr>Comment_id = 3, Comment_content = lit ''hello'', Comment_author = Some (lit ''w''),
           Comment_post_id = 1, Comment_parent_comment_id = Some 1,
           Comment_created_at = 40, Comment_updated_at = 41\<rparr>]\<rparr>)"
  using
    create_comment_checks[of
      "\<lparr>cbody_content = Some (lit '' hello ''), cbody_author = Some (lit ''w''), cbody_parent_comment_id = Some 1\<rparr>"
      "\<lparr>CommentCreate_content = lit ''hello'', CommentCreate_author = lit ''w'', CommentCreate_parent_comment_id = Some 1\<rparr>"
      2 example_db 40 41 1 "hd (comments example_db)"]
    create_comment_checks[of
      "\<lparr>cbody_content = Some (lit '' hello ''), cbody_author = Some (lit ''w''), cbody_parent_comment_id = Some 1\<rparr>"
      "\<lparr>CommentCreate_content = lit ''hello'', CommentCreate_author = lit ''w'', CommentCreate_parent_comment_id = Some 1\<rparr>"
      1 example_db 40 41 1 "hd (comments example_db)"]
  by (simp add: CommentCreate_validate_def str_field_def CommentBase_content_must_not_be_empty_def
      CommentBase_author_must_not_be_empty_def strip_def isspace_def lit_def example_db_def next_id_def
      sqlite_int_def)

subsection \<open>C5: parent references\<close>

text \<open>
  Claim C5. In every database the public operations can reach, under any storage
  failures: every comment with a \<open>parent_comment_id\<close> refers to a stored comment on the
  same post, and no two comments have the same key. In particular this holds of the
  database any request to delete a comment leaves.
\<close>

theorem parent_references_resolve:
  assumes "reachable d"
  shows
    "(\<forall>c\<in>set (comments d). \<forall>i. Comment_parent_comment_id c = Some i \<longrightarrow>
        (\<exists>q\<in>set (comments d). Comment_id q = i \<and> Comment_post_id q = Comment_post_id c)) \<and>
     distinct (map Comment_id (comments d)) \<and>
     (\<forall>c\<in>set (comments (snd (DELETE_comment comment_id f d))). \<forall>i.
        Comment_parent_comment_id c = Some i \<longrightarrow>
        (\<exists>q\<in>set (comments (snd (DELETE_comment comment_id f d))).
           Comment_id q = i \<and> Comment_post_id q = Comment_post_id c))"
proof -
  have 1: "comments_inv (comments d)" using assms by (rule reachable_inv)
  have "reachable (snd (DELETE_comment comment_id f d))" using assms by (rule reachable.delete_comment)
  then have 2: "comments_inv (comments (snd (DELETE_comment comment_id f d)))" by (rule reachable_inv)
  from 1 2 show ?thesis
    unfolding comments_inv_def by (blast dest: parents_okD)
qed

theorem parent_references_resolve_witness:
  "parents_ok (comments example_db) \<and> distinct (map Comment_id (comments example_db)) \<and>
   DELETE_comment 1 no_fault example_db =
     (Success 200 ''Comment with ID 1 deleted successfully'',
      example_db\<lparr>comments :=
        [\<lparr>Comment_id = 2, Comment_content = lit ''reply'', Comment_author = Some (lit ''z''), Comment_post_id = 1,
          Comment_parent_comment_id = None, Comment_created_at = 30, Comment_updated_at = 31\<rparr>]\<rparr>)"
proof -
  have e: "DELETE_comment 1 no_fault example_db =
     (Success 200 ''Comment with ID 1 deleted successfully'',
      example_db\<lparr>comments :=
        [\<lparr>Comment_id = 2, Comment_content = lit ''reply'', Comment_author = Some (lit ''z''), Comment_post_id = 1,
          Comment_parent_comment_id = None, Comment_created_at = 30, Comment_updated_at = 31\<rparr>]\<rparr>)"
    by (simp add: eval_defs str_int_def) code_simp
  have p: "parents_ok (comments example_db)"
    by (simp add: parents_ok_def parent_ok_def example_db_def)
  show ?thesis
    using parent_references_resolve[OF example_db_reachable, of 1 no_fault] e p by simp
qed

subsection \<open>C6: updating a comment\<close>





subsection \<open>C7: the number of pages\<close>

text \<open>
  Claim C7, as stated, fails. With \<open>page = 922337203685477582\<close> and \<open>limit = 10\<close>, which are
  valid, the page lies beyond the last one, and both lists answer 500, not 200 with no
  item: the offset is 9223372036854775810, which does not fit a 64-bit integer, and the
  query raises.
\<close>

theorem page_offset_out_of_range:
  "GET_posts 922337203685477582 10 no_fault example_db =
     (Failure 500 ''Failed to fetch posts: Python int too large to convert to SQLite INTEGER'', example_db) \<and>
   GET_post_comments 1 922337203685477582 10 no_fault example_db =
     (Failure 500 ''Failed to fetch comments: Python int too large to convert to SQLite INTEGER'', example_db)"
  by (simp add: eval_defs)

text \<open>
  Claim C7, amended. For \<open>page \<ge> 1\<close> and \<open>1 \<le> limit \<le> 100\<close> with
  \<open>(page - 1) * limit \<le> 2\<^sup>6\<^sup>3 - 1\<close>, when the storage does not fail: the post list answers 200
  with \<open>total\<close> the number of posts and \<open>total_pages = \<lceil>total / limit\<rceil>\<close>, and with no item when
  \<open>page > total_pages\<close>; the comment list of an existing post, whose key is within the range
  of a signed 64-bit integer, does the same with \<open>total\<close> the number of comments of that
  post. This holds of every database the operations can reach, of every database
  whose rows pass the validation of the response, and of every database at all when the
  page lies beyond the last one. With \<open>(page - 1) * limit > 2\<^sup>6\<^sup>3 - 1\<close> both lists answer 500
  with the text of the driver's error.
\<close>

theorem total_pages_and_empty_page:
  assumes "1 \<le> page" "1 \<le> limit" "limit \<le> 100"
  shows
    "((page - 1) * limit \<le> 2 ^ 63 - 1 \<and>
      (reachable d \<or> list_all Post_valid (posts d) \<or>
       \<lceil>real (length (posts d)) / real_of_int limit\<rceil> < page) \<longrightarrow>
        (\<exists>r. GET_posts page limit no_fault d = (Success 200 r, d) \<and>
             PostListResponse_total r = int (length (posts d)) \<and>
             PostListResponse_total_pages r = \<lceil>real_of_int (PostListResponse_total r) / real_of_int limit\<rceil> \<and>
             (PostListResponse_total_pages r < page \<longrightarrow> PostListResponse_posts r = []))) \<and>
     ((page - 1) * limit \<le> 2 ^ 63 - 1 \<and> sqlite_int post_id \<and>
      find (\<lambda>p. Post_id p = post_id) (posts d) \<noteq> None \<and>
      (reachable d \<or> list_all Comment_valid (filter (\<lambda>c. Comment_post_id c = post_id) (comments d)) \<or>
       \<lceil>real (length (filter (\<lambda>c. Comment_post_id c = post_id) (comments d))) / real_of_int limit\<rceil> < page) \<longrightarrow>
        (\<exists>r. GET_post_comments post_id page limit no_fault d = (Success 200 r, d) \<and>
             CommentListResponse_total r = int (length (filter (\<lambda>c. Comment_post_id c = post_id) (comments d))) \<and>
             CommentListResponse_total_pages r =
               \<lceil>real_of_int (CommentListResponse_total r) / real_of_int limit\<rceil> \<and>
             (CommentListResponse_total_pages r < page \<longrightarrow> CommentListResponse_comments r = []))) \<and>
     (2 ^ 63 - 1 < (page - 1) * limit \<longrightarrow>
        GET_posts page limit no_fault d =
          (Failure 500 ''Failed to fetch posts: Python int too large to convert to SQLite INTEGER'', d)) \<and>
     (2 ^ 63 - 1 < (page - 1) * limit \<and> sqlite_int post_id \<and>
      find (\<lambda>p. Post_id p = post_id) (posts d) \<noteq> None \<longrightarrow>
        GET_post_comments post_id page limit no_fault d =
          (Failure 500 ''Failed to fetch comments: Python int too large to convert to SQLite INTEGER'', d))"
proof (intro conjI impI)
  let ?xs = "order_by_created_at_desc (posts d)"
  have l: "0 < limit" using assms by simp
  have len: "length ?xs = length (posts d)" by (simp add: order_by_created_at_desc_def)
  have c: "(int (length (posts d)) + limit - 1) div limit = \<lceil>real (length (posts d)) / real_of_int limit\<rceil>"
    using ceil_div[OF l, of "int (length (posts d))"] by simp
  assume a: "(page - 1) * limit \<le> 2 ^ 63 - 1 \<and>
      (reachable d \<or> list_all Post_valid (posts d) \<or>
       \<lceil>real (length (posts d)) / real_of_int limit\<rceil> < page)"
  have "0 \<le> (page - 1) * limit" using assms by simp
  with a have o: "sqlite_int ((page - 1) * limit)" by (simp add: sqlite_int_def)
  from a have "list_all Post_valid (posts d) \<or> \<lceil>real (length (posts d)) / real_of_int limit\<rceil> < page"
    using reachable_rows_valid[of d] by (auto simp: rows_valid_def)
  then have v: "list_all Post_valid (offset_limit ((page - 1) * limit) limit ?xs)"
  proof
    assume "list_all Post_valid (posts d)"
    then show ?thesis by (intro list_all_offset_limit list_all_order_desc)
  next
    assume "\<lceil>real (length (posts d)) / real_of_int limit\<rceil> < page"
    then have "(int (length ?xs) + limit - 1) div limit < page" using c len by simp
    from beyond_last_page[OF l this] show ?thesis by simp
  qed
  have e: "(int (length (posts d)) + limit - 1) div limit < page \<Longrightarrow>
      offset_limit ((page - 1) * limit) limit ?xs = []"
    using beyond_last_page[OF l, of ?xs page limit] len by simp
  show "\<exists>r. GET_posts page limit no_fault d = (Success 200 r, d) \<and>
             PostListResponse_total r = int (length (posts d)) \<and>
             PostListResponse_total_pages r = \<lceil>real_of_int (PostListResponse_total r) / real_of_int limit\<rceil> \<and>
             (PostListResponse_total_pages r < page \<longrightarrow> PostListResponse_posts r = [])"
    unfolding GET_posts_no_fault[OF assms o v] using c e by simp
next
  let ?cs = "filter (\<lambda>c. Comment_post_id c = post_id) (comments d)"
  let ?xs = "order_by_created_at_asc ?cs"
  have l: "0 < limit" using assms by simp
  have len: "length ?xs = length ?cs" by (simp add: order_by_created_at_asc_def)
  have c: "(int (length ?cs) + limit - 1) div limit = \<lceil>real (length ?cs) / real_of_int limit\<rceil>"
    using ceil_div[OF l, of "int (length ?cs)"] by simp
  assume a: "(page - 1) * limit \<le> 2 ^ 63 - 1 \<and> sqlite_int post_id \<and>
      find (\<lambda>p. Post_id p = post_id) (posts d) \<noteq> None \<and>
      (reachable d \<or> list_all Comment_valid ?cs \<or> \<lceil>real (length ?cs) / real_of_int limit\<rceil> < page)"
  then obtain p where p: "find (\<lambda>p. Post_id p = post_id) (posts d) = Some p" by auto
  from a have k: "sqlite_int post_id" by simp
  have "0 \<le> (page - 1) * limit" using assms by simp
  with a have o: "sqlite_int ((page - 1) * limit)" by (simp add: sqlite_int_def)
  from a have "list_all Comment_valid ?cs \<or> \<lceil>real (length ?cs) / real_of_int limit\<rceil> < page"
    using reachable_rows_valid[of d] by (auto simp: rows_valid_def intro: list_all_filter)
  then have v: "list_all Comment_valid (offset_limit ((page - 1) * limit) limit ?xs)"
  proof
    assume "list_all Comment_valid ?cs"
    then show ?thesis by (intro list_all_offset_limit list_all_order_asc)
  next
    assume "\<lceil>real (length ?cs) / real_of_int limit\<rceil> < page"
    then have "(int (length ?xs) + limit - 1) div limit < page" using c len by simp
    from beyond_last_page[OF l this] show ?thesis by simp
  qed
  have e: "(int (length ?cs) + limit - 1) div limit < page \<Longrightarrow>
      offset_limit ((page - 1) * limit) limit ?xs = []"
    using beyond_last_page[OF l, of ?xs page limit] len by simp
  show "\<exists>r. GET_post_comments post_id page limit no_fault d = (Success 200 r, d) \<and>
             CommentListResponse_total r = int (length ?cs) \<and>
             CommentListResponse_total_pages r =
               \<lceil>real_of_int (CommentListResponse_total r) / real_of_int limit\<rceil> \<and>
             (CommentListResponse_total_pages r < page \<longrightarrow> CommentListResponse_comments r = [])"
    unfolding GET_post_comments_no_fault[OF assms k o p v] using c e by simp
next
  assume "2 ^ 63 - 1 < (page - 1) * limit"
  then have o: "\<not> sqlite_int ((page - 1) * limit)" by (simp add: sqlite_int_def)
  show "GET_posts page limit no_fault d =
          (Failure 500 ''Failed to fetch posts: Python int too large to convert to SQLite INTEGER'', d)"
    using assms o
    by (simp add: GET_posts_def get_posts_def get_posts_body_def db_defs get_db_def no_fault_def respond_def
        str_exn_def OverflowError_str_def Let_def)
next
  assume a: "2 ^ 63 - 1 < (page - 1) * limit \<and> sqlite_int post_id \<and>
      find (\<lambda>p. Post_id p = post_id) (posts d) \<noteq> None"
  then have o: "\<not> sqlite_int ((page - 1) * limit)" by (simp add: sqlite_int_def)
  from a obtain p where p: "find (\<lambda>p. Post_id p = post_id) (posts d) = Some p" by auto
  from a have k: "sqlite_int post_id" by simp
  show "GET_post_comments post_id page limit no_fault d =
          (Failure 500 ''Failed to fetch comments: Python int too large to convert to SQLite INTEGER'', d)"
    using assms o p k
    by (simp add: GET_post_comments_def get_comments_def get_comments_body_def db_defs get_db_def no_fault_def
        respond_def str_exn_def OverflowError_str_def Let_def)
qed

theorem total_pages_and_empty_page_witness:
  "GET_posts 2 1 no_fault example_db =
     (Success 200
        \<lparr>PostListResponse_posts =
           [\<lparr>PostResponse_id = 1, PostResponse_title = lit ''A'', PostResponse_content = lit ''B'',
             PostResponse_author = lit ''C'', PostResponse_created_at = 10, PostResponse_updated_at = 11,
             PostResponse_comments_count = 2\<rparr>],
         PostListResponse_total = 2, PostListResponse_page = 2, PostListResponse_limit = 1,
         PostListResponse_total_pages = 2\<rparr>, example_db) \<and>
   GET_post_comments 1 2 10 no_fault example_db =
     (Success 200
        \<lparr>CommentListResponse_comments = [], CommentListResponse_total = 2, CommentListResponse_page = 2,
         CommentListResponse_limit = 10, CommentListResponse_total_pages = 1\<rparr>, example_db) \<and>
   GET_posts 9223372036854775809 1 no_fault example_db =
     (Failure 500 ''Failed to fetch posts: Python int too large to convert to SQLite INTEGER'', example_db)"
proof -
  have g: "GET_posts 2 1 no_fault example_db =
     (Success 200
        \<lparr>PostListResponse_posts =
           [\<lparr>PostResponse_id = 1, PostResponse_title = lit ''A'', PostResponse_content = lit ''B'',
             PostResponse_author = lit ''C'', PostResponse_created_at = 10, PostResponse_updated_at = 11,
             PostResponse_comments_count = 2\<rparr>],
         PostListResponse_total = 2, PostListResponse_page = 2, PostListResponse_limit = 1,
         PostListResponse_total_pages = 2\<rparr>, example_db)"
    by (simp add: eval_defs)
  have h: "GET_post_comments 1 2 10 no_fault example_db =
     (Success 200
        \<lparr>CommentListResponse_comments = [], CommentListResponse_total = 2, CommentListResponse_page = 2,
         CommentListResponse_limit = 10, CommentListResponse_total_pages = 1\<rparr>, example_db)"
    by (simp add: eval_defs)
  have t: "\<lceil>real (length (posts example_db)) / real_of_int 1\<rceil> = 2"
      "\<lceil>real (length (filter (\<lambda>c. Comment_post_id c = 1) (comments example_db))) / real_of_int 10\<rceil> = 1"
    by (simp add: example_db_def, simp add: example_db_def, rule ceiling_unique, simp_all)
  have k: "sqlite_int 1" by (simp add: sqlite_int_def)
  have f: "find (\<lambda>p. Post_id p = 1) (posts example_db) \<noteq> None" by (simp add: example_db_def)
  have o: "GET_posts 9223372036854775809 1 no_fault example_db =
     (Failure 500 ''Failed to fetch posts: Python int too large to convert to SQLite INTEGER'', example_db)"
    by (rule total_pages_and_empty_page[where page = 9223372036854775809 and limit = 1 and d = example_db,
          THEN conjunct2, THEN conjunct2, THEN conjunct1, THEN mp]) simp_all
  have "\<exists>r. GET_posts 2 1 no_fault example_db = (Success 200 r, example_db) \<and>
      PostListResponse_total r = int (length (posts example_db)) \<and>
      PostListResponse_total_pages r = \<lceil>real_of_int (PostListResponse_total r) / real_of_int 1\<rceil> \<and>
      (PostListResponse_total_pages r < 2 \<longrightarrow> PostListResponse_posts r = [])"
    by (rule total_pages_and_empty_page[where page = 2 and limit = 1 and d = example_db,
          THEN conjunct1, THEN mp]) (simp_all add: example_db_reachable)
  moreover have "\<exists>r. GET_post_comments 1 2 10 no_fault example_db = (Success 200 r, example_db) \<and>
      CommentListResponse_total r = int (length (filter (\<lambda>c. Comment_post_id c = 1) (comments example_db))) \<and>
      CommentListResponse_total_pages r = \<lceil>real_of_int (CommentListResponse_total r) / real_of_int 10\<rceil> \<and>
      (CommentListResponse_total_pages r < 2 \<longrightarrow> CommentListResponse_comments r = [])"
    by (rule total_pages_and_empty_page[where page = 2 and limit = 10 and d = example_db and post_id = 1,
          THEN conjunct2, THEN conjunct1, THEN mp]) (simp_all add: example_db_reachable k f)
  ultimately show ?thesis using g h o by simp
qed

subsection \<open>C8: order and offset of the lists\<close>

text \<open>
  Claim C8, as stated, fails. With \<open>page = 9223372036854775809\<close> and \<open>limit = 1\<close>, which are
  valid, neither list returns the rows from the offset \<open>(page - 1) * limit\<close> on, of which there
  are none: the offset does not fit a 64-bit integer, the query raises, and the answer is
  500.
\<close>

theorem list_offset_out_of_range:
  "GET_posts 9223372036854775809 1 no_fault example_db =
     (Failure 500 ''Failed to fetch posts: Python int too large to convert to SQLite INTEGER'', example_db) \<and>
   GET_post_comments 1 9223372036854775809 1 no_fault example_db =
     (Failure 500 ''Failed to fetch comments: Python int too large to convert to SQLite INTEGER'', example_db)"
  by (simp add: eval_defs)

text \<open>
  Claim C8, amended. For valid pagination with \<open>(page - 1) * limit \<le> 2\<^sup>6\<^sup>3 - 1\<close>, when the
  storage does not fail, in every database the operations can reach (or whose rows pass
  the validation of the response): the post list returns
  the posts at positions \<open>(page - 1) * limit\<close> up to \<open>limit\<close> further of a list that holds
  every post once and is ordered by \<open>created_at\<close> descending; the comment list of an
  existing post, whose key is within the range of a signed 64-bit integer, returns the
  same slice of a list that holds every comment of that post once and is ordered by
  \<open>created_at\<close> ascending.
\<close>

theorem lists_ordered_with_offset:
  assumes "1 \<le> page" "1 \<le> limit" "limit \<le> 100" "(page - 1) * limit \<le> 2 ^ 63 - 1"
  shows
    "(reachable d \<or> list_all Post_valid (posts d) \<longrightarrow>
        (\<exists>r. GET_posts page limit no_fault d = (Success 200 r, d) \<and>
             PostListResponse_posts r =
               map (PostResponse_row (comments d))
                 (take (nat limit) (drop (nat ((page - 1) * limit)) (order_by_created_at_desc (posts d)))) \<and>
             sorted_wrt (\<lambda>a b. PostResponse_created_at b \<le> PostResponse_created_at a)
               (PostListResponse_posts r))) \<and>
     sorted_wrt (\<lambda>a b. Post_created_at b \<le> Post_created_at a) (order_by_created_at_desc (posts d)) \<and>
     mset (order_by_created_at_desc (posts d)) = mset (posts d) \<and>
     (sqlite_int post_id \<and> find (\<lambda>p. Post_id p = post_id) (posts d) \<noteq> None \<and>
      (reachable d \<or> list_all Comment_valid (filter (\<lambda>c. Comment_post_id c = post_id) (comments d))) \<longrightarrow>
        (\<exists>r. GET_post_comments post_id page limit no_fault d = (Success 200 r, d) \<and>
             CommentListResponse_comments r =
               map CommentResponse_row
                 (take (nat limit) (drop (nat ((page - 1) * limit))
                    (order_by_created_at_asc (filter (\<lambda>c. Comment_post_id c = post_id) (comments d))))) \<and>
             sorted_wrt (\<lambda>a b. CommentResponse_created_at a \<le> CommentResponse_created_at b)
               (CommentListResponse_comments r))) \<and>
     sorted_wrt (\<lambda>a b. Comment_created_at a \<le> Comment_created_at b)
       (order_by_created_at_asc (filter (\<lambda>c. Comment_post_id c = post_id) (comments d))) \<and>
     mset (order_by_created_at_asc (filter (\<lambda>c. Comment_post_id c = post_id) (comments d))) =
       mset (filter (\<lambda>c. Comment_post_id c = post_id) (comments d))"
proof (intro conjI impI)
  let ?xs = "order_by_created_at_desc (posts d)"
  have "0 \<le> (page - 1) * limit" using assms by simp
  with assms(4) have o: "sqlite_int ((page - 1) * limit)" by (simp add: sqlite_int_def)
  assume "reachable d \<or> list_all Post_valid (posts d)"
  then have "list_all Post_valid (posts d)"
    using reachable_rows_valid[of d] by (auto simp: rows_valid_def)
  then have v: "list_all Post_valid (offset_limit ((page - 1) * limit) limit ?xs)"
    by (intro list_all_offset_limit list_all_order_desc)
  have s: "sorted_wrt (\<lambda>a b. Post_created_at b \<le> Post_created_at a)
      (offset_limit ((page - 1) * limit) limit ?xs)"
    by (intro sorted_wrt_offset_limit order_desc_sorted)
  show "\<exists>r. GET_posts page limit no_fault d = (Success 200 r, d) \<and>
             PostListResponse_posts r =
               map (PostResponse_row (comments d))
                 (take (nat limit) (drop (nat ((page - 1) * limit)) ?xs)) \<and>
             sorted_wrt (\<lambda>a b. PostResponse_created_at b \<le> PostResponse_created_at a)
               (PostListResponse_posts r)"
    unfolding GET_posts_no_fault[OF assms(1-3) o v] using s
    by (simp add: sorted_wrt_map PostResponse_row_def) (simp add: offset_limit_def)
next
  show "sorted_wrt (\<lambda>a b. Post_created_at b \<le> Post_created_at a) (order_by_created_at_desc (posts d))"
    by (rule order_desc_sorted)
next
  show "mset (order_by_created_at_desc (posts d)) = mset (posts d)"
    by (simp add: order_by_created_at_desc_def)
next
  let ?cs = "filter (\<lambda>c. Comment_post_id c = post_id) (comments d)"
  let ?xs = "order_by_created_at_asc ?cs"
  have "0 \<le> (page - 1) * limit" using assms by simp
  with assms(4) have o: "sqlite_int ((page - 1) * limit)" by (simp add: sqlite_int_def)
  assume a: "sqlite_int post_id \<and> find (\<lambda>p. Post_id p = post_id) (posts d) \<noteq> None \<and>
      (reachable d \<or> list_all Comment_valid ?cs)"
  then obtain p where p: "find (\<lambda>p. Post_id p = post_id) (posts d) = Some p" by auto
  from a have k: "sqlite_int post_id" by simp
  from a have "list_all Comment_valid ?cs"
    using reachable_rows_valid[of d] by (auto simp: rows_valid_def intro: list_all_filter)
  then have v: "list_all Comment_valid (offset_limit ((page - 1) * limit) limit ?xs)"
    by (intro list_all_offset_limit list_all_order_asc) simp
  have s: "sorted_wrt (\<lambda>a b. Comment_created_at a \<le> Comment_created_at b)
      (offset_limit ((page - 1) * limit) limit ?xs)"
    by (intro sorted_wrt_offset_limit order_asc_sorted)
  show "\<exists>r. GET_post_comments post_id page limit no_fault d = (Success 200 r, d) \<and>
             CommentListResponse_comments r =
               map CommentResponse_row (take (nat limit) (drop (nat ((page - 1) * limit)) ?xs)) \<and>
             sorted_wrt (\<lambda>a b. CommentResponse_created_at a \<le> CommentResponse_created_at b)
               (CommentListResponse_comments r)"
    unfolding GET_post_comments_no_fault[OF assms(1-3) k o p v] using s
    by (simp add: sorted_wrt_map CommentResponse_row_def) (simp add: offset_limit_def)
next
  show "sorted_wrt (\<lambda>a b. Comment_created_at a \<le> Comment_created_at b)
       (order_by_created_at_asc (filter (\<lambda>c. Comment_post_id c = post_id) (comments d)))"
    by (rule order_asc_sorted)
next
  show "mset (order_by_created_at_asc (filter (\<lambda>c. Comment_post_id c = post_id) (comments d))) =
       mset (filter (\<lambda>c. Comment_post_id c = post_id) (comments d))"
    by (simp add: order_by_created_at_asc_def)
qed

theorem lists_ordered_with_offset_witness:
  "GET_posts 1 10 no_fault example_db =
     (Success 200
        \<lparr>PostListResponse_posts =
           [\<lparr>PostResponse_id = 2, PostResponse_title = lit ''D'', PostResponse_content = lit ''E'',
             PostResponse_author = lit ''F'', PostResponse_created_at = 12, PostResponse_updated_at = 13,
             PostResponse_comments_count = 0\<rparr>,
            \<lparr>PostResponse_id = 1, PostResponse_title = lit ''A'', PostResponse_content = lit ''B'',
             PostResponse_author = lit ''C'', PostResponse_created_at = 10, PostResponse_updated_at = 11,
             PostResponse_comments_count = 2\<rparr>],
         PostListResponse_total = 2, PostListResponse_page = 1, PostListResponse_limit = 10,
         PostListResponse_total_pages = 1\<rparr>, example_db) \<and>
   GET_post_comments 1 2 1 no_fault example_db =
     (Success 200
        \<lparr>CommentListResponse_comments =
           [\<lparr>CommentResponse_id = 2, CommentResponse_content = lit ''reply'', CommentResponse_author = lit ''z'',
             CommentResponse_post_id = 1, CommentResponse_parent_comment_id = Some 1,
             CommentResponse_created_at = 30, CommentResponse_updated_at = 31\<rparr>],
         CommentListResponse_total = 2, CommentListResponse_page = 2, CommentListResponse_limit = 1,
         CommentListResponse_total_pages = 2\<rparr>, example_db)"
proof -
  have g: "GET_posts 1 10 no_fault example_db =
     (Success 200
        \<lparr>PostListResponse_posts =
           [\<lparr>PostResponse_id = 2, PostResponse_title = lit ''D'', PostResponse_content = lit ''E'',
             PostResponse_author = lit ''F'', PostResponse_created_at = 12, PostResponse_updated_at = 13,
             PostResponse_comments_count = 0\<rparr>,
            \<lparr>PostResponse_id = 1, PostResponse_title = lit ''A'', PostResponse_content = lit ''B'',
             PostResponse_author = lit ''C'', PostResponse_created_at = 10, PostResponse_updated_at = 11,
             PostResponse_comments_count = 2\<rparr>],
         PostListResponse_total = 2, PostListResponse_page = 1, PostListResponse_limit = 10,
         PostListResponse_total_pages = 1\<rparr>, example_db)"
    by (simp add: eval_defs)
  have h: "GET_post_comments 1 2 1 no_fault example_db =
     (Success 200
        \<lparr>CommentListResponse_comments =
           [\<lparr>CommentResponse_id = 2, CommentResponse_content = lit ''reply'', CommentResponse_author = lit ''z'',
             CommentResponse_post_id = 1, CommentResponse_parent_comment_id = Some 1,
             CommentResponse_created_at = 30, CommentResponse_updated_at = 31\<rparr>],
         CommentListResponse_total = 2, CommentListResponse_page = 2, CommentListResponse_limit = 1,
         CommentListResponse_total_pages = 2\<rparr>, example_db)"
    by (simp add: eval_defs)
  have k: "sqlite_int 1" by (simp add: sqlite_int_def)
  show ?thesis
    using lists_ordered_with_offset[of 1 10 example_db 1] lists_ordered_with_offset[of 2 1 example_db 1]
      example_db_reachable g h k
    by simp
qed

subsection \<open>C9: pagination is checked first\<close>

lemma get_posts_valid_not_400:
  assumes "1 \<le> page" "1 \<le> limit" "limit \<le> 100"
  shows "fst (get_posts page limit s) \<noteq> Inl (HTTPException 400 detail)"
  using assms try_except_500[of False "''Failed to fetch posts: ''" "get_posts_body page limit" s]
  by (auto simp: get_posts_def)

lemma get_comments_valid_not_400:
  assumes "1 \<le> page" "1 \<le> limit" "limit \<le> 100"
  shows "fst (get_comments post_id page limit s) \<noteq> Inl (HTTPException 400 detail)"
proof
  assume h: "fst (get_comments post_id page limit s) = Inl (HTTPException 400 detail)"
  with assms have "fst (try_except_reraise False ''Failed to fetch comments: '' (get_comments_body post_id page limit) s)
      = Inl (HTTPException 400 detail)"
    by (simp add: get_comments_def)
  from try_except_reraise_cases[OF this]
  obtain s' where "get_comments_body post_id page limit s = (Inl (HTTPException 400 detail), s')"
    by auto
  with get_comments_body_raises[of post_id page limit] have "allowed {404} (HTTPException 400 detail)"
    unfolding raises_only_def by blast
  then show False by (simp add: allowed_def)
qed

text \<open>
  Claim C9. For every page and limit, whatever the session and its storage failures,
  the post list and the comment list fail with status 400 exactly when \<open>page < 1\<close> or
  \<open>limit < 1\<close> or \<open>limit > 100\<close>; and then the session is left as it was: no call was made
  on it, so the check comes before the lookup of the post and before every query.
\<close>

theorem pagination_checked_first:
  "((\<exists>detail. fst (get_posts page limit s) = Inl (HTTPException 400 detail)) \<longleftrightarrow>
      page < 1 \<or> limit < 1 \<or> limit > 100) \<and>
   ((\<exists>detail. fst (get_comments post_id page limit s) = Inl (HTTPException 400 detail)) \<longleftrightarrow>
      page < 1 \<or> limit < 1 \<or> limit > 100) \<and>
   (page < 1 \<or> limit < 1 \<or> limit > 100 \<longrightarrow>
      snd (get_posts page limit s) = s \<and> snd (get_comments post_id page limit s) = s)"
proof (cases "page < 1 \<or> limit < 1 \<or> limit > 100")
  case True
  then show ?thesis
    by (auto simp: get_posts_def get_comments_def db_raise_def)
next
  case False
  then have v: "1 \<le> page" "1 \<le> limit" "limit \<le> 100" by auto
  show ?thesis
    using False get_posts_valid_not_400[OF v] get_comments_valid_not_400[OF v] by blast
qed

theorem pagination_checked_first_witness:
  "fst (get_comments 5 0 10 (get_db no_fault \<lparr>posts = [], comments = []\<rparr>)) = Inl (HTTPException 400 ''Page must be >= 1'') \<and>
   snd (get_comments 5 0 10 (get_db no_fault \<lparr>posts = [], comments = []\<rparr>)) = get_db no_fault \<lparr>posts = [], comments = []\<rparr> \<and>
   calls (snd (get_posts 1 101 (get_db no_fault \<lparr>posts = [], comments = []\<rparr>))) = []"
  using pagination_checked_first[of 0 10 "get_db no_fault \<lparr>posts = [], comments = []\<rparr>" 5]
    pagination_checked_first[of 1 101 "get_db no_fault \<lparr>posts = [], comments = []\<rparr>" 5]
  by (simp add: get_comments_def db_raise_def get_db_def)

subsection \<open>C10: the comment count of a post\<close>

lemma PostResponse_row_count:
  "PostResponse_comments_count (PostResponse_row cs p) =
     int (length (filter (\<lambda>c. Comment_post_id c = PostResponse_id (PostResponse_row cs p)) cs))"
  by (simp add: PostResponse_row_def)

text \<open>
  Claim C10. Whatever the storage does, every post that \<open>GET /posts/{id}\<close>,
  \<open>GET /posts/\<close> or \<open>POST /posts/\<close> returns reports as \<open>comments_count\<close> the number of stored
  comments whose \<open>post_id\<close> is the post's key; whether a comment has a parent plays no part.
\<close>

theorem comments_count_counts_all:
  "(GET_post post_id f d = (Success code r, d') \<longrightarrow>
      PostResponse_comments_count r =
        int (length (filter (\<lambda>c. Comment_post_id c = PostResponse_id r) (comments d')))) \<and>
   (GET_posts page limit f d = (Success code rs, d') \<longrightarrow>
      list_all (\<lambda>r. PostResponse_comments_count r =
                  int (length (filter (\<lambda>c. Comment_post_id c = PostResponse_id r) (comments d'))))
        (PostListResponse_posts rs)) \<and>
   (POST_posts b now1 now2 f d = (Success code r, d') \<longrightarrow>
      PostResponse_comments_count r =
        int (length (filter (\<lambda>c. Comment_post_id c = PostResponse_id r) (comments d'))))"
proof (intro conjI impI)
  assume "GET_post post_id f d = (Success code r, d')"
  then obtain s' where "get_post post_id (get_db f d) = (Inr r, s')" "tables s' = d'"
    unfolding GET_post_def by (auto dest!: respond_SuccessD)
  then show "PostResponse_comments_count r =
        int (length (filter (\<lambda>c. Comment_post_id c = PostResponse_id r) (comments d')))"
    unfolding get_post_def
    by (auto dest!: try_except_reraise_Inr get_post_body_Inr simp: PostResponse_row_count)
next
  assume "GET_posts page limit f d = (Success code rs, d')"
  then obtain s' where g: "get_posts page limit (get_db f d) = (Inr rs, s')" and t: "tables s' = d'"
    unfolding GET_posts_def by (auto dest!: respond_SuccessD)
  from g have "get_posts_body page limit (get_db f d) = (Inr rs, s')"
    unfolding get_posts_def by (auto simp: db_raise_def dest!: try_except_Inr split: if_splits)
  from get_posts_body_Inr[OF this] t
  show "list_all (\<lambda>r. PostResponse_comments_count r =
                  int (length (filter (\<lambda>c. Comment_post_id c = PostResponse_id r) (comments d'))))
        (PostListResponse_posts rs)"
    by (auto simp: list_all_iff PostResponse_row_count)
next
  assume a: "POST_posts b now1 now2 f d = (Success code r, d')"
  then obtain post_data where v: "PostCreate_validate b = Inr post_data"
    by (cases "PostCreate_validate b") (auto simp: POST_posts_def)
  with a obtain s' where "create_post post_data now1 now2 (get_db f d) = (Inr r, s')" "tables s' = d'"
    unfolding POST_posts_def by (auto dest!: respond_SuccessD)
  then show "PostResponse_comments_count r =
        int (length (filter (\<lambda>c. Comment_post_id c = PostResponse_id r) (comments d')))"
    unfolding create_post_def
    by (auto dest!: try_except_Inr create_post_body_Inr simp: PostResponse_row_count)
qed

theorem comments_count_counts_all_witness:
  "GET_post 1 no_fault example_db =
     (Success 200
        \<lparr>PostResponse_id = 1, PostResponse_title = lit ''A'', PostResponse_content = lit ''B'',
         PostResponse_author = lit ''C'', PostResponse_created_at = 10, PostResponse_updated_at = 11,
         PostResponse_comments_count = 2\<rparr>, example_db) \<and>
   length (filter (\<lambda>c. Comment_post_id c = 1) (comments example_db)) = 2 \<and>
   length (filter (\<lambda>c. Comment_post_id c = 1 \<and> Comment_parent_comment_id c = None) (comments example_db)) = 1"
proof -
  have e: "GET_post 1 no_fault example_db =
     (Success 200
        \<lparr>PostResponse_id = 1, PostResponse_title = lit ''A'', PostResponse_content = lit ''B'',
         PostResponse_author = lit ''C'', PostResponse_created_at = 10, PostResponse_updated_at = 11,
         PostResponse_comments_count = 2\<rparr>, example_db)"
    by (simp add: eval_defs)
  let ?r = "\<lparr>PostResponse_id = 1, PostResponse_title = lit ''A'', PostResponse_content = lit ''B'',
         PostResponse_author = lit ''C'', PostResponse_created_at = 10, PostResponse_updated_at = 11,
         PostResponse_comments_count = 2\<rparr>"
  have "PostResponse_comments_count ?r =
      int (length (filter (\<lambda>c. Comment_post_id c = PostResponse_id ?r) (comments example_db)))"
    by (rule comments_count_counts_all[of 1 no_fault example_db 200 ?r example_db, THEN conjunct1, THEN mp, OF e])
  then have "length (filter (\<lambda>c. Comment_post_id c = 1) (comments example_db)) = 2"
    by simp
  moreover have "length (filter (\<lambda>c. Comment_post_id c = 1 \<and> Comment_parent_comment_id c = None)
      (comments example_db)) = 1"
    by (simp add: example_db_def)
  ultimately show ?thesis using e by simp
qed

end
